theory Spec2Isabelle
  imports Complex_Main
begin

section \<open>Values of the host language\<close>

text \<open>
  The calculator (\<^verbatim>\<open>CALCULO/calculadora.py\<close>) is Python code that drives the symbolic
  library \<^verbatim>\<open>sympy\<close>. An exception that leaves a function is the left injection of a
  sum; a returned value is the right injection. The dictionaries the evaluators return
  are association lists in insertion order.
\<close>

datatype exn = ValueError string | KeyError string | LibError string

fun exn_str :: "exn \<Rightarrow> string" where
  "exn_str (ValueError m) = m"
| "exn_str (KeyError m) = m"
| "exn_str (LibError m) = m"

definition seq :: "exn + 'a \<Rightarrow> ('a \<Rightarrow> exn + 'b) \<Rightarrow> exn + 'b" where
  "seq m f = (case m of Inl e \<Rightarrow> Inl e | Inr v \<Rightarrow> f v)"

datatype 'e pyval = PExpr 'e | PStr string | PList "string list"

type_synonym 'e pydict = "(string \<times> 'e pyval) list"

definition dict_get :: "(string \<rightharpoonup> string) \<Rightarrow> string \<Rightarrow> string \<Rightarrow> string" where
  "dict_get d k dflt = (case d k of None \<Rightarrow> dflt | Some v \<Rightarrow> v)"

definition has_key :: "'e pydict \<Rightarrow> string \<Rightarrow> bool" where
  "has_key d k = (k \<in> set (map fst d))"

subsection \<open>Strings\<close>

text \<open>
  Strings are byte strings. The narration the evaluators produce is written here in
  ASCII (accents dropped, mathematical glyphs and pictographs spelled out); the
  conditions the code tests on strings are kept byte for byte, with \<^verbatim>\<open>lower()\<close>
  acting on the ASCII letters.
\<close>

definition py_lower_char :: "char \<Rightarrow> char" where
  "py_lower_char c =
     (case map_of (zip ''ABCDEFGHIJKLMNOPQRSTUVWXYZ'' ''abcdefghijklmnopqrstuvwxyz'') c of
        None \<Rightarrow> c | Some d \<Rightarrow> d)"

definition py_lower :: "string \<Rightarrow> string" where
  "py_lower s = map py_lower_char s"

definition py_remove_spaces :: "string \<Rightarrow> string" where
  "py_remove_spaces s = filter (\<lambda>c. c \<noteq> CHR '' '') s"

definition startswith :: "string \<Rightarrow> string \<Rightarrow> bool" where
  "startswith s p = (take (length p) s = p)"

fun py_in :: "string \<Rightarrow> string \<Rightarrow> bool" where
  "py_in p [] = (p = [])"
| "py_in p (c # cs) = (startswith (c # cs) p \<or> py_in p cs)"

fun str_nat :: "nat \<Rightarrow> string" where
  "str_nat n =
     (if n < 10 then [''0123456789'' ! n]
      else str_nat (n div 10) @ [''0123456789'' ! (n mod 10)])"

declare str_nat.simps [simp del]

definition str_int :: "int \<Rightarrow> string" where
  "str_int i = (if i < 0 then CHR ''-'' # str_nat (nat (- i)) else str_nat (nat i))"

text \<open>
  Python's \<^verbatim>\<open>int(text)\<close> in base ten: surrounding white space, an optional sign, and
  decimal digits that single underscores may separate; anything else raises
  \<^verbatim>\<open>ValueError\<close>.
\<close>

definition is_digit :: "char \<Rightarrow> bool" where
  "is_digit c = (c \<in> set ''0123456789'')"

definition digit_val :: "char \<Rightarrow> nat" where
  "digit_val c = length (takeWhile (\<lambda>d. d \<noteq> c) ''0123456789'')"

definition nat_of_digits :: "string \<Rightarrow> nat" where
  "nat_of_digits s = foldl (\<lambda>acc c. 10 * acc + digit_val c) 0 s"

definition is_space :: "char \<Rightarrow> bool" where
  "is_space c = (c \<in> set [CHR '' '', CHR 0x09, CHR 0x0A, CHR 0x0B, CHR 0x0C, CHR 0x0D])"

definition py_strip :: "string \<Rightarrow> string" where
  "py_strip s = rev (dropWhile is_space (rev (dropWhile is_space s)))"

fun valid_digits :: "string \<Rightarrow> bool" where
  "valid_digits [] = False"
| "valid_digits [c] = is_digit c"
| "valid_digits (c # d # cs) =
     (is_digit c \<and> (if d = CHR ''_'' then valid_digits cs else valid_digits (d # cs)))"

definition py_int :: "string \<Rightarrow> exn + int" where
  "py_int s =
     (let t = py_strip s;
          (negativo, cuerpo) =
             (case t of
                c # rest \<Rightarrow> (if c = CHR ''-'' then (True, rest)
                              else if c = CHR ''+'' then (False, rest) else (False, t))
              | [] \<Rightarrow> (False, t))
      in if valid_digits cuerpo then
           (let n = int (nat_of_digits (filter (\<lambda>c. c \<noteq> CHR ''_'') cuerpo))
            in Inr (if negativo then - n else n))
         else Inl (ValueError (''invalid literal for int() with base 10: '' @ [CHR 0x27] @ s
                            @ [CHR 0x27])))"

definition nl :: string where
  "nl = [CHR 0x0A]"

section \<open>The symbolic library as the code uses it\<close>

text \<open>
  \<^verbatim>\<open>sympy\<close> is not part of the repository. The evaluators are therefore functions of
  the library: a record with one field for each library operation the code calls, over
  an arbitrary type \<open>'e\<close> of symbolic expressions. Parsing, integration and numeric
  evaluation can raise (the code guards them with \<^verbatim>\<open>try\<close> in places); the other
  operations are total. Python's \<^verbatim>\<open>==\<close> on expressions is structural equality.
\<close>

datatype assum = Plain | IsReal | IsPositive

datatype 'e local_binding = LExpr 'e | LFunc "'e \<Rightarrow> 'e"

record 'e cas =
  sp_Symbol :: "string \<Rightarrow> assum \<Rightarrow> 'e"
  sp_Integer :: "int \<Rightarrow> 'e"
  sp_Float :: "rat \<Rightarrow> 'e"
  sp_pi :: "'e"
  sp_add :: "'e \<Rightarrow> 'e \<Rightarrow> 'e"
  sp_sub :: "'e \<Rightarrow> 'e \<Rightarrow> 'e"
  sp_mul :: "'e \<Rightarrow> 'e \<Rightarrow> 'e"
  sp_div :: "'e \<Rightarrow> 'e \<Rightarrow> 'e"
  sp_pow :: "'e \<Rightarrow> 'e \<Rightarrow> 'e"
  sp_neg :: "'e \<Rightarrow> 'e"
  sp_sin :: "'e \<Rightarrow> 'e"
  sp_cos :: "'e \<Rightarrow> 'e"
  sp_tan :: "'e \<Rightarrow> 'e"
  sp_sqrt :: "'e \<Rightarrow> 'e"
  sp_exp :: "'e \<Rightarrow> 'e"
  sp_log :: "'e \<Rightarrow> 'e"
  sp_sympify :: "string \<Rightarrow> (string \<times> 'e local_binding) list \<Rightarrow> exn + 'e"
  sp_simplify :: "'e \<Rightarrow> 'e"
  sp_diff :: "'e \<Rightarrow> 'e \<Rightarrow> 'e"
  sp_integrate :: "'e \<Rightarrow> ('e \<times> 'e \<times> 'e) list \<Rightarrow> exn + 'e"
  sp_subs :: "'e \<Rightarrow> ('e \<times> 'e) list \<Rightarrow> 'e"
  sp_is_constant :: "'e \<Rightarrow> bool"
  sp_N_float :: "'e \<Rightarrow> exn + rat"
  sp_str :: "'e \<Rightarrow> string"
  sp_pretty :: "'e \<Rightarrow> string"
  sp_pretty_Matrix :: "'e list \<Rightarrow> string"
  py_float_str :: "rat \<Rightarrow> string"

section \<open>Triple integrals: \<^verbatim>\<open>resolver_integral_triple\<close>\<close>

text \<open>
  The choice of the variable table and of the Jacobian (first \<^verbatim>\<open>if\<close> chain of the
  function). An unrecognised tag raises \<^verbatim>\<open>ValueError\<close>.
\<close>

definition msg_sistema :: string where
  "msg_sistema =
     ''Sistema de coordenadas no reconocido. Use 'rectangular', 'cilindrica' o 'esferica'.''"

definition seleccionar_sistema ::
  "'e cas \<Rightarrow> string \<Rightarrow> exn + ((string \<times> 'e local_binding) list \<times> 'e \<times> string list)" where
  "seleccionar_sistema cas sistema_coordenadas =
     (let x = sp_Symbol cas ''x'' Plain; y = sp_Symbol cas ''y'' Plain;
          z = sp_Symbol cas ''z'' Plain; r = sp_Symbol cas ''r'' Plain;
          theta = sp_Symbol cas ''theta'' Plain; phi = sp_Symbol cas ''phi'' Plain
      in
      if sistema_coordenadas \<in> set [''rectangular'', ''rectangulares''] then
        Inr ([(''x'', LExpr x), (''y'', LExpr y), (''z'', LExpr z)],
             sp_Integer cas 1,
             [''=== INTEGRAL TRIPLE - RECTANGULARES (X,Y,Z) ==='',
              ''Formula: iiint f(x,y,z) dx dy dz''])
      else if sistema_coordenadas \<in> set [''cilindrica'', ''cilindricas''] then
        Inr ([(''r'', LExpr r), (''theta'', LExpr theta), (''z'', LExpr z),
              (''pi'', LExpr (sp_pi cas))],
             r,
             [''=== INTEGRAL TRIPLE - CILINDRICAS (R,THETA,Z) ==='',
              ''Formula: iiint f(r,theta,z)*r dr dtheta dz''])
      else if sistema_coordenadas \<in> set [''esferica'', ''esfericas''] then
        (let rho = sp_Symbol cas ''rho'' Plain in
         Inr ([(''rho'', LExpr rho), (''theta'', LExpr theta), (''phi'', LExpr phi),
               (''pi'', LExpr (sp_pi cas))],
              sp_mul cas (sp_pow cas rho (sp_Integer cas 2)) (sp_sin cas phi),
              [''=== INTEGRAL TRIPLE - ESFERICAS (RHO,THETA,PHI) ==='',
               ''Formula: iiint f(rho,theta,phi)*rho^2*sin(phi) drho dtheta dphi'']))
      else Inl (ValueError msg_sistema))"

text \<open>
  The block between the comments \<^verbatim>\<open>CORRECCION COMPLETA\<close> and \<^verbatim>\<open>FIN DE LA CORRECCION\<close>:
  the text heuristics that decide whether the user already wrote the Jacobian. The
  result is the flag \<^verbatim>\<open>aplicar_jacobiano\<close>, the expression that goes on to be
  integrated, and the trace.
\<close>

definition jacobiano_cilindrico_incluido :: "string \<Rightarrow> bool" where
  "jacobiano_cilindrico_incluido integrando =
     (let integrando_limpio = py_lower (py_remove_spaces integrando) in
      integrando_limpio = ''r''
      \<or> (\<exists>p \<in> set [''r+'', ''r-'', ''r*'', ''r/'', ''r**'']. startswith integrando_limpio p)
      \<or> py_in ''r*z'' integrando_limpio
      \<or> py_in ''r*theta'' integrando_limpio
      \<or> integrando_limpio \<in> set [''r+z'', ''r-z'', ''r+theta'', ''r-theta''])"

definition rho2_sin_phi_utf8 :: string where
  "rho2_sin_phi_utf8 =
     [CHR 0xCF, CHR 0x81, CHR 0xC2, CHR 0xB2] @ ''*sin('' @ [CHR 0xCF, CHR 0x86] @ '')''"

definition jacobiano_esferico_incluido :: "string \<Rightarrow> bool" where
  "jacobiano_esferico_incluido integrando =
     (let integrando_limpio = py_lower (py_remove_spaces integrando);
          jacobiano_completo =
            (py_in ''rho**2*sin(phi)'' integrando_limpio
             \<or> py_in ''r**2*sin(phi)'' integrando_limpio
             \<or> py_in rho2_sin_phi_utf8 integrando_limpio
             \<or> integrando_limpio = ''rho**2''
             \<or> integrando_limpio = ''r**2'');
          jacobiano_parcial =
            ((py_in ''rho**2*'' integrando_limpio \<and> py_in ''sin(phi)'' integrando_limpio)
             \<or> (py_in ''r**2*'' integrando_limpio \<and> py_in ''sin(phi)'' integrando_limpio))
      in jacobiano_completo \<or> jacobiano_parcial)"

definition etapa_jacobiano ::
  "'e cas \<Rightarrow> string \<Rightarrow> string \<Rightarrow> 'e \<Rightarrow> 'e \<Rightarrow> string list \<Rightarrow> bool \<times> 'e \<times> string list" where
  "etapa_jacobiano cas sistema_coordenadas integrando expr jacobiano pasos =
     (if sistema_coordenadas \<in> set [''cilindrica'', ''cilindricas''] then
        (if jacobiano_cilindrico_incluido integrando then
           (False, expr,
            pasos @ [''NOTA: El integrando contiene 'r' (jacobiano incluido por el usuario)'',
                     ''Integrando final: '' @ sp_str cas expr])
         else (True, expr, pasos))
      else if sistema_coordenadas \<in> set [''esferica'', ''esfericas''] then
        (if jacobiano_esferico_incluido integrando then
           (False, expr,
            pasos @ [''NOTA: El integrando contiene terminos del jacobiano esferico'',
                     ''Integrando final: '' @ sp_str cas expr])
         else
           (True, sp_mul cas expr jacobiano,
            pasos @ [''Multiplicando por el Jacobiano ('' @ sp_str cas jacobiano
                     @ ''): integrando = ''
                     @ sp_str cas (sp_simplify cas (sp_mul cas expr jacobiano))]))
      else (True, expr, pasos))"

text \<open>
  The loop over \<^verbatim>\<open>enumerate(variables, start=1)\<close>. A variable without limits raises
  \<^verbatim>\<open>KeyError\<close>; the limits are parsed lower bound first.
\<close>

fun integrar_pasos ::
  "'e cas \<Rightarrow> (string \<times> 'e local_binding) list \<Rightarrow> (string \<rightharpoonup> string \<times> string) \<Rightarrow>
   nat \<Rightarrow> string list \<Rightarrow> 'e \<Rightarrow> string list \<Rightarrow> exn + ('e \<times> string list)" where
  "integrar_pasos cas vars_locales limites i [] expr_actual pasos = Inr (expr_actual, pasos)"
| "integrar_pasos cas vars_locales limites i (var # variables) expr_actual pasos =
     (case limites var of
        None \<Rightarrow> Inl (KeyError var)
      | Some (a, b) \<Rightarrow>
          (let var_sym = sp_Symbol cas var Plain;
               pasos1 = pasos @
                 [nl @ ''Paso '' @ str_nat i @ '': Integrar respecto de '' @ var,
                  ''Integral de '' @ a @ '' a '' @ b @ '' de [''
                    @ sp_str cas (sp_simplify cas expr_actual) @ ''] d'' @ var]
           in seq (sp_sympify cas a vars_locales) (\<lambda>lo.
              seq (sp_sympify cas b vars_locales) (\<lambda>hi.
              seq (sp_integrate cas expr_actual [(var_sym, lo, hi)]) (\<lambda>integral.
                (let expr_nueva = sp_simplify cas integral
                 in integrar_pasos cas vars_locales limites (Suc i) variables expr_nueva
                      (pasos1 @ [''Resultado parcial = '' @ sp_str cas expr_nueva])))))))"

definition valor_numerico :: "'e cas \<Rightarrow> 'e \<Rightarrow> string" where
  "valor_numerico cas resultado_final =
     (case sp_N_float cas resultado_final of
        Inr valor_num \<Rightarrow> ''Valor numerico aproximado = '' @ py_float_str cas valor_num
      | Inl e \<Rightarrow> ''No se pudo calcular el valor numerico (resultado simbolico no evaluable).'')"

definition resolver_integral_triple ::
  "'e cas \<Rightarrow> string \<Rightarrow> string list \<Rightarrow> (string \<rightharpoonup> string \<times> string) \<Rightarrow> string \<Rightarrow>
   exn + 'e pydict" where
  "resolver_integral_triple cas integrando variables limites sistema_coordenadas =
     seq (seleccionar_sistema cas sistema_coordenadas) (\<lambda>(vars_locales, jacobiano, pasos0).
     seq (sp_sympify cas integrando vars_locales) (\<lambda>expr0.
       (let pasos1 = pasos0 @ [nl @ ''Integrando inicial: '' @ integrando];
            (aplicar_jacobiano, expr, pasos2) =
               etapa_jacobiano cas sistema_coordenadas integrando expr0 jacobiano pasos1
        in seq (integrar_pasos cas vars_locales limites 1 variables expr pasos2)
             (\<lambda>(resultado_final, pasos3).
                Inr [(''resultado'', PExpr resultado_final),
                     (''pasos'', PList (pasos3
                        @ [nl @ ''RESULTADO FINAL = '' @ sp_str cas resultado_final,
                           valor_numerico cas resultado_final]))]))))"

section \<open>Green's theorem: \<^verbatim>\<open>aplicar_green\<close>\<close>

subsection \<open>The narration helpers \<^verbatim>\<open>_explicacion_*\<close>\<close>

definition explicacion_disco :: "'e cas \<Rightarrow> string \<Rightarrow> 'e \<Rightarrow> 'e \<Rightarrow> 'e \<Rightarrow> string list" where
  "explicacion_disco cas R valor_doble valor_linea rotacional =
     [''[*] EXPLICACION PARA REGION CIRCULAR (DISCO):'',
      '''',
      ''1. [*] VISUALIZA EL ESCENARIO:'',
      ''   * Imagina un disco de radio R = '' @ R,
      ''   * Las flechas azules representan un campo de fuerzas'',
      ''   * Como un remolino en un estanque circular'',
      '''',
      ''2. [*] INTERPRETACION FISICA:'',
      ''   * Rotacional: '' @ sp_str cas rotacional @ '' (rotacion local en cada punto)'',
      ''   * La integral doble suma toda la rotacion interna'',
      ''   * La integral de linea mide la circulacion en el borde'',
      '''',
      ''3. [*] RESULTADO:'',
      ''   * Rotacion interna total: '' @ sp_str cas valor_doble,
      ''   * Circulacion en el borde: '' @ sp_str cas valor_linea]
     @ (if valor_doble = valor_linea then
        [''   * [OK] CONFIRMACION: El flujo interno = Circulacion externa'']
      else [])
     @ ['''',
      ''[*] CONCLUSION: En un disco, toda la rotacion interna se manifiesta'',
      ''exactamente como circulacion alrededor de su circunferencia.'']"

definition explicacion_entre_curvas :: "'e cas \<Rightarrow> string \<Rightarrow> string \<Rightarrow> string \<Rightarrow> string \<Rightarrow> 'e \<Rightarrow> 'e \<Rightarrow> 'e \<Rightarrow> string list" where
  "explicacion_entre_curvas cas f1 f2 x_min x_max valor_doble valor_linea rotacional =
     [''[*] EXPLICACION PARA REGION ENTRE CURVAS:'',
      '''',
      ''1. [*] VISUALIZA EL ESCENARIO:'',
      ''   * Region entre y = '' @ f1 @ '' (inferior) y y = '' @ f2 @ '' (superior)'',
      ''   * Desde x = '' @ x_min @ '' hasta x = '' @ x_max,
      ''   * Las flechas azules muestran el patron de flujo del campo'',
      ''   * Como un rio entre dos margenes curvados'',
      '''',
      ''2. [*] INTERPRETACION FISICA:'',
      ''   * Rotacional: '' @ sp_str cas rotacional @ '' (mide vortices locales)'',
      ''   * Integral doble: Suma todos los mini-remolinos internos'',
      ''   * Integral de linea: Mide flujo neto por los 4 bordes'',
      '''',
      ''3. [*] ANALISIS DE LOS SEGMENTOS:'',
      ''   * Curva inferior: Contribuye segun el flujo en y = '' @ f1,
      ''   * Curva superior: Contribuye (en sentido inverso) en y = '' @ f2,
      ''   * Lados verticales: Completan el camino cerrado'',
      '''',
      ''4. [*] RESULTADO:'',
      ''   * Rotacion interna total: '' @ sp_str cas valor_doble,
      ''   * Circulacion neta en el borde: '' @ sp_str cas valor_linea]
     @ (if valor_doble = valor_linea then
        [''   * [OK] EL TEOREMA SE VERIFICA: La naturaleza cumple las matematicas!'']
      else [])
     @ ['''',
      ''[*] CONCLUSION: En regiones entre curvas, el balance entre'',
      ''el flujo superior e inferior determina la circulacion total.'']"

definition explicacion_corona :: "'e cas \<Rightarrow> string \<Rightarrow> string \<Rightarrow> 'e \<Rightarrow> 'e \<Rightarrow> 'e \<Rightarrow> string list" where
  "explicacion_corona cas R_int R_ext valor_doble valor_linea rotacional =
     [''[*] EXPLICACION PARA CORONA CIRCULAR:'',
      '''',
      ''1. [*] VISUALIZA EL ESCENARIO:'',
      ''   * Anillo entre radio R_int = '' @ R_int @ '' y R_ext = '' @ R_ext,
      ''   * Como un anillo de humo o un donut de flujo'',
      ''   * Campo vectorial fluye entre dos circunferencias'',
      '''',
      ''2. [*] INTERPRETACION FISICA:'',
      ''   * Rotacional: '' @ sp_str cas rotacional @ '' en cada punto del anillo'',
      ''   * Integral doble: Suma la rotacion en toda el area anular'',
      ''   * Integral de linea: Circulacion exterior MENOS interior'',
      '''',
      ''3. [*] RESULTADO:'',
      ''   * Rotacion en el anillo: '' @ sp_str cas valor_doble,
      ''   * Circulacion neta: '' @ sp_str cas valor_linea]
     @ (if valor_doble = valor_linea then
        [''   * [OK] CONFIRMACION: Lo que gira dentro = Diferencia de bordes'']
      else [])
     @ ['''',
      ''[*] CONCLUSION: En una corona, la rotacion interna equivale'',
      ''a la diferencia entre la circulacion exterior e interior.'']"

definition explicacion_rectangulo :: "'e cas \<Rightarrow> string \<Rightarrow> string \<Rightarrow> 'e \<Rightarrow> 'e \<Rightarrow> 'e \<Rightarrow> string list" where
  "explicacion_rectangulo cas a b valor_doble valor_linea rotacional =
     [''[*] EXPLICACION PARA REGION RECTANGULAR:'',
      '''',
      ''1. [*] VISUALIZA EL ESCENARIO:'',
      ''   * Rectangulo de '' @ a @ '' x '' @ b @ '' unidades'',
      ''   * Campo vectorial fluye a traves de los 4 lados'',
      ''   * Como agua fluyendo a traves de un canal rectangular'',
      '''',
      ''2. [*] INTERPRETACION FISICA:'',
      ''   * Rotacional: '' @ sp_str cas rotacional @ '' (vorticidad local)'',
      ''   * Integral doble: Suma toda la rotacion dentro del rectangulo'',
      ''   * Integral de linea: Flujo por cada lado (4 segmentos)'',
      '''',
      ''3. [*] RESULTADO:'',
      ''   * Rotacion interna total: '' @ sp_str cas valor_doble,
      ''   * Circulacion en el perimetro: '' @ sp_str cas valor_linea]
     @ (if valor_doble = valor_linea then
        [''   * [OK] CONFIRMACION: Rotacion interna = Circulacion externa'']
      else [])
     @ ['''',
      ''[*] CONCLUSION: En rectangulos, la suma de flujos por los 4 lados'',
      ''siempre iguala la rotacion total en el interior.'']"

definition explicacion_elipse :: "'e cas \<Rightarrow> string \<Rightarrow> string \<Rightarrow> 'e \<Rightarrow> 'e \<Rightarrow> 'e \<Rightarrow> string list" where
  "explicacion_elipse cas a b valor_doble valor_linea rotacional =
     [''[*] EXPLICACION PARA REGION ELIPTICA:'',
      '''',
      ''1. [*] VISUALIZA EL ESCENARIO:'',
      ''   * Elipse con semiejes a = '' @ a @ '', b = '' @ b,
      ''   * Campo vectorial fluyendo en patron eliptico'',
      ''   * Como un ovalo de carreras con flujo circulante'',
      '''',
      ''2. [*] INTERPRETACION FISICA:'',
      ''   * Rotacional: '' @ sp_str cas rotacional @ '' en cada punto'',
      ''   * Integral doble: Usa coordenadas elipticas para sumar rotacion'',
      ''   * Integral de linea: Circulacion a lo largo de la elipse'',
      '''',
      ''3. [*] RESULTADO:'',
      ''   * Rotacion interna total: '' @ sp_str cas valor_doble,
      ''   * Circulacion en el borde: '' @ sp_str cas valor_linea]
     @ (if valor_doble = valor_linea then
        [''   * [OK] CONFIRMACION: La geometria eliptica preserva el teorema'']
      else [])
     @ ['''',
      ''[*] CONCLUSION: Las elipses demuestran que el Teorema de Green'',
      ''funciona para cualquier forma, no solo figuras regulares.'']"

definition explicacion_triangulo :: "'e cas \<Rightarrow> string \<Rightarrow> string \<Rightarrow> 'e \<Rightarrow> 'e \<Rightarrow> 'e \<Rightarrow> string list" where
  "explicacion_triangulo cas base altura valor_doble valor_linea rotacional =
     [''[*] EXPLICACION PARA REGION TRIANGULAR:'',
      '''',
      ''1. [*] VISUALIZA EL ESCENARIO:'',
      ''   * Triangulo con base = '' @ base @ '', altura = '' @ altura,
      ''   * Campo fluyendo a traves de 3 lados rectos'',
      ''   * Como una cometa triangular en el viento'',
      '''',
      ''2. [*] INTERPRETACION FISICA:'',
      ''   * Rotacional: '' @ sp_str cas rotacional @ '' (patron de giro local)'',
      ''   * Integral doble: Suma rotacion en area triangular'',
      ''   * Integral de linea: Flujo por base + lados inclinados'',
      '''',
      ''3. [*] RESULTADO:'',
      ''   * Rotacion interna: '' @ sp_str cas valor_doble,
      ''   * Circulacion externa: '' @ sp_str cas valor_linea]
     @ (if valor_doble = valor_linea then
        [''   * [OK] CONFIRMACION: Triangulos tambien obedecen el teorema'']
      else [])
     @ ['''',
      ''[*] CONCLUSION: En triangulos, la simplicidad geometrica no'',
      ''afecta la profunda verdad del Teorema de Green.'']"

definition explicacion_semicirculo :: "'e cas \<Rightarrow> string \<Rightarrow> string \<Rightarrow> 'e \<Rightarrow> 'e \<Rightarrow> 'e \<Rightarrow> string list" where
  "explicacion_semicirculo cas R tipo valor_doble valor_linea rotacional =
     [''[*] EXPLICACION PARA SEMICIRCULO:'',
      '''',
      ''1. [*] VISUALIZA EL ESCENARIO:'',
      ''   * Semicirculo de radio R = '' @ R @ '' ('' @ tipo @ '')'',
      ''   * Campo fluye a traves del arco y el diametro'',
      ''   * Como media rueda giratoria o media luna de flujo'',
      '''',
      ''2. [*] INTERPRETACION FISICA:'',
      ''   * Rotacional: '' @ sp_str cas rotacional @ '' en medio disco'',
      ''   * Integral doble: Rotacion en media area circular'',
      ''   * Integral de linea: Flujo por arco + diametro'',
      '''',
      ''3. [*] RESULTADO:'',
      ''   * Rotacion en medio disco: '' @ sp_str cas valor_doble,
      ''   * Circulacion en media frontera: '' @ sp_str cas valor_linea]
     @ (if valor_doble = valor_linea then
        [''   * [OK] CONFIRMACION: Mitad de forma, misma verdad matematica'']
      else [])
     @ ['''',
      ''[*] CONCLUSION: Los semicirculos muestran que el teorema'',
      ''funciona incluso para regiones no simplemente conexas.'']"

definition explicacion_sector_polar :: "'e cas \<Rightarrow> string \<Rightarrow> string \<Rightarrow> string \<Rightarrow> 'e \<Rightarrow> 'e \<Rightarrow> 'e \<Rightarrow> string list" where
  "explicacion_sector_polar cas R theta_min theta_max valor_doble valor_linea rotacional =
     [''[*] EXPLICACION PARA SECTOR POLAR:'',
      '''',
      ''1. [*] VISUALIZA EL ESCENARIO:'',
      ''   * Sector circular R = '' @ R @ '', theta in ['' @ theta_min @ '', '' @ theta_max @ '']'',
      ''   * Como una rebanada de pizza de flujo vectorial'',
      ''   * Campo confinado entre dos radios y un arco'',
      '''',
      ''2. [*] INTERPRETACION FISICA:'',
      ''   * Rotacional: '' @ sp_str cas rotacional @ '' en la rebanada'',
      ''   * Integral doble: Natural en coordenadas polares'',
      ''   * Integral de linea: 2 radios + 1 arco circular'',
      '''',
      ''3. [*] RESULTADO:'',
      ''   * Rotacion en el sector: '' @ sp_str cas valor_doble,
      ''   * Circulacion en los bordes: '' @ sp_str cas valor_linea]
     @ (if valor_doble = valor_linea then
        [''   * [OK] CONFIRMACION: Coordenadas polares verifican el teorema'']
      else [])
     @ ['''',
      ''[*] CONCLUSION: Los sectores polares demuestran la versatilidad'',
      ''del teorema en diferentes sistemas coordenados.'']"

definition explicacion_poligono :: "'e cas \<Rightarrow> string \<Rightarrow> string \<Rightarrow> 'e \<Rightarrow> 'e \<Rightarrow> 'e \<Rightarrow> string list" where
  "explicacion_poligono cas lados radio valor_doble valor_linea rotacional =
     [''[*] EXPLICACION PARA POLIGONO REGULAR:'',
      '''',
      ''1. [*] VISUALIZA EL ESCENARIO:'',
      ''   * Poligono de '' @ lados @ '' lados, radio = '' @ radio,
      ''   * Campo fluye a traves de multiples lados rectos'',
      ''   * Como una rueda dentada en un flujo vectorial'',
      '''',
      ''2. [*] INTERPRETACION FISICA:'',
      ''   * Rotacional: '' @ sp_str cas rotacional @ '' (aproximado)'',
      ''   * Integral doble: Area poligonal x rotacional promedio'',
      ''   * Integral de linea: Suma compleja por muchos lados'',
      '''',
      ''3. [*] RESULTADO:'',
      ''   * Rotacion interna aproximada: '' @ sp_str cas valor_doble,
      ''   * Circulacion externa: '' @ sp_str cas valor_linea]
     @ (if valor_doble = valor_linea then
        [''   * [OK] CONFIRMACION: Poligonos aproximan circulos'']
      else [])
     @ ['''',
      ''[*] CONCLUSION: Los poligonos muestran como formas complejas'',
      ''tambien obedecen los principios fundamentales del teorema.'']"

subsection \<open>The verification helper \<^verbatim>\<open>_verificar_green\<close>\<close>

definition verificar_green :: "'e cas \<Rightarrow> 'e \<Rightarrow> 'e \<Rightarrow> string list \<Rightarrow> string list \<Rightarrow> 'e pydict" where
  "verificar_green cas doble linea pasos info =
     (let pasos1 = pasos @
            ['''',
             ''VERIFICACION DEL TEOREMA DE GREEN:'',
             ''Integral doble: '' @ sp_pretty cas doble,
             ''Integral de linea: '' @ sp_pretty cas linea];
          pasos2 =
            (if sp_simplify cas (sp_sub cas doble linea) = sp_Integer cas 0 then
               pasos1 @ [''[OK] El teorema se verifica: oint_C F*dr = iint_D (nablaxF) dA'']
             else
               (let diferencia = sp_simplify cas (sp_sub cas doble linea)
                in pasos1 @ [''[X] Diferencia: '' @ sp_pretty cas diferencia]))
      in [(''doble'', PExpr doble), (''linea'', PExpr linea),
          (''pasos'', PList pasos2), (''info'', PList info)])"

subsection \<open>The regions\<close>

definition separador :: "string list" where
  "separador = [nl @ replicate 60 CHR ''='',
                ''[*] INTERPRETACION GRAFICA Y CONCLUSIONES'',
                replicate 60 CHR ''='']"

definition dos_pi :: "'e cas \<Rightarrow> 'e" where
  "dos_pi cas = sp_mul cas (sp_Integer cas 2) (sp_pi cas)"

text \<open>
  The line integrand \<^verbatim>\<open>P.subs(...)*dx + Q.subs(...)*dy\<close> along a curve
  \<open>(x_c(t), y_c(t))\<close> with the given derivatives.
\<close>

definition integrando_curva :: "'e cas \<Rightarrow> 'e \<Rightarrow> 'e \<Rightarrow> 'e \<Rightarrow> 'e \<Rightarrow> 'e \<Rightarrow> 'e \<Rightarrow> 'e \<Rightarrow> 'e \<Rightarrow> 'e" where
  "integrando_curva cas P Q x y x_c y_c dx_dt dy_dt =
     sp_add cas (sp_mul cas (sp_subs cas P [(x, x_c), (y, y_c)]) dx_dt)
                (sp_mul cas (sp_subs cas Q [(x, x_c), (y, y_c)]) dy_dt)"

definition polares :: "'e cas \<Rightarrow> 'e \<Rightarrow> 'e \<Rightarrow> 'e \<Rightarrow> 'e \<Rightarrow> 'e \<Rightarrow> 'e \<Rightarrow> ('e \<times> 'e) list" where
  "polares cas x y centro_x centro_y r theta =
     [(x, sp_add cas centro_x (sp_mul cas r (sp_cos cas theta))),
      (y, sp_add cas centro_y (sp_mul cas r (sp_sin cas theta)))]"

text \<open>
  The two integrands of the disc: the rotational in polar coordinates times the
  Jacobian \<open>r\<close>, and \<open>P dx + Q dy\<close> along the circle \<open>(cx + R cos t, cy + R sin t)\<close>.
\<close>

definition disco_integrando_polar :: "'e cas \<Rightarrow> 'e \<Rightarrow> 'e \<Rightarrow> 'e \<Rightarrow> 'e \<Rightarrow> 'e \<Rightarrow> 'e" where
  "disco_integrando_polar cas x y rotacional_z centro_x centro_y =
     (let r = sp_Symbol cas ''r'' IsPositive;
          theta = sp_Symbol cas ''theta'' IsPositive;
          sustituciones = polares cas x y centro_x centro_y r theta
      in sp_simplify cas (sp_mul cas (sp_subs cas rotacional_z sustituciones) r))"

definition disco_integrando_linea :: "'e cas \<Rightarrow> 'e \<Rightarrow> 'e \<Rightarrow> 'e \<Rightarrow> 'e \<Rightarrow> 'e \<Rightarrow> 'e \<Rightarrow> 'e \<Rightarrow> 'e" where
  "disco_integrando_linea cas P Q x y R centro_x centro_y =
     (let t = sp_Symbol cas ''t'' IsReal;
          x_c = sp_add cas centro_x (sp_mul cas R (sp_cos cas t));
          y_c = sp_add cas centro_y (sp_mul cas R (sp_sin cas t));
          dx_dt = sp_diff cas x_c t;
          dy_dt = sp_diff cas y_c t
      in integrando_curva cas P Q x y x_c y_c dx_dt dy_dt)"

definition green_disco ::
  "'e cas \<Rightarrow> 'e \<Rightarrow> 'e \<Rightarrow> 'e \<Rightarrow> 'e \<Rightarrow> 'e \<Rightarrow> (string \<rightharpoonup> string) \<Rightarrow> string list \<Rightarrow> string list
   \<Rightarrow> exn + 'e pydict" where
  "green_disco cas P Q x y rotacional_z parametros_region pasos info =
     seq (sp_sympify cas (dict_get parametros_region ''R'' ''1'') []) (\<lambda>R.
     seq (sp_sympify cas (dict_get parametros_region ''centro_x'' ''0'') []) (\<lambda>centro_x.
     seq (sp_sympify cas (dict_get parametros_region ''centro_y'' ''0'') []) (\<lambda>centro_y.
       (let pasos1 = pasos @
              [''Region: disco de radio R = '' @ sp_str cas R @ '', centro (''
                 @ sp_str cas centro_x @ '', '' @ sp_str cas centro_y @ '')'',
               '''',
               ''CALCULO DE LA INTEGRAL DOBLE:'',
               ''iint_D (nablaxF) dA = iint_D '' @ sp_pretty cas rotacional_z @ '' dA'']
        in
        seq (if sp_is_constant cas rotacional_z then
               (let area_disco = sp_mul cas (sp_pi cas) (sp_pow cas R (sp_Integer cas 2));
                    resultado_doble = sp_mul cas rotacional_z area_disco
                in Inr (resultado_doble, pasos1 @
                     [''Como nablaxF = '' @ sp_pretty cas rotacional_z @ '' es constante:'',
                      ''iint_D '' @ sp_pretty cas rotacional_z @ '' dA = ''
                        @ sp_pretty cas rotacional_z @ '' x Area del disco'',
                      ''Area del disco = piR^2 = pi('' @ sp_str cas R @ '')^2 = ''
                        @ sp_pretty cas area_disco,
                      ''Resultado = '' @ sp_pretty cas rotacional_z @ '' x ''
                        @ sp_pretty cas area_disco @ '' = '' @ sp_pretty cas resultado_doble]))
             else
               (let r = sp_Symbol cas ''r'' IsPositive;
                    theta = sp_Symbol cas ''theta'' IsPositive;
                    sustituciones = polares cas x y centro_x centro_y r theta;
                    integrando =
                      disco_integrando_polar cas x y rotacional_z centro_x centro_y;
                    pasos2 = pasos1 @
                      [''Integrando en coordenadas polares: ''
                         @ sp_pretty cas (sp_subs cas rotacional_z sustituciones)
                         @ '' x r = '' @ sp_pretty cas integrando]
                in seq (sp_integrate cas integrando
                          [(r, sp_Integer cas 0, R), (theta, sp_Integer cas 0, dos_pi cas)])
                     (\<lambda>resultado_doble. Inr (resultado_doble, pasos2 @
                        [''Integral doble sobre la region D = ''
                           @ sp_pretty cas resultado_doble]))))
          (\<lambda>(resultado_doble, pasos3).
             (let pasos4 = pasos3 @ ['''', ''CALCULO DE LA INTEGRAL DE LINEA:''];
                  t = sp_Symbol cas ''t'' IsReal;
                  integrando_linea =
                    disco_integrando_linea cas P Q x y R centro_x centro_y
              in seq (sp_integrate cas integrando_linea [(t, sp_Integer cas 0, dos_pi cas)])
                   (\<lambda>integral_linea.
                      (let resultado_linea = sp_simplify cas integral_linea;
                           pasos5 = pasos4
                             @ [''Integral de linea = '' @ sp_pretty cas resultado_linea]
                             @ separador;
                           R_val = dict_get parametros_region ''R'' ''1''
                       in Inr (verificar_green cas resultado_doble resultado_linea
                                 (pasos5 @ explicacion_disco cas R_val resultado_doble
                                             resultado_linea rotacional_z)
                                 info)))))))))"

definition green_corona ::
  "'e cas \<Rightarrow> 'e \<Rightarrow> 'e \<Rightarrow> 'e \<Rightarrow> 'e \<Rightarrow> 'e \<Rightarrow> (string \<rightharpoonup> string) \<Rightarrow> string list \<Rightarrow> string list
   \<Rightarrow> exn + 'e pydict" where
  "green_corona cas P Q x y rotacional_z parametros_region pasos info =
     seq (sp_sympify cas (dict_get parametros_region ''R_int'' ''1'') []) (\<lambda>R_int.
     seq (sp_sympify cas (dict_get parametros_region ''R_ext'' ''2'') []) (\<lambda>R_ext.
     seq (sp_sympify cas (dict_get parametros_region ''centro_x'' ''0'') []) (\<lambda>centro_x.
     seq (sp_sympify cas (dict_get parametros_region ''centro_y'' ''0'') []) (\<lambda>centro_y.
       (let pasos1 = pasos @
              [''Region: corona circular R_int='' @ sp_str cas R_int @ '', R_ext=''
                 @ sp_str cas R_ext @ '', centro ('' @ sp_str cas centro_x @ '', ''
                 @ sp_str cas centro_y @ '')''];
            r = sp_Symbol cas ''r'' IsPositive;
            theta = sp_Symbol cas ''theta'' IsPositive;
            sustituciones = polares cas x y centro_x centro_y r theta;
            integrando = sp_mul cas (sp_subs cas rotacional_z sustituciones) r
        in
        seq (sp_integrate cas integrando
               [(r, R_int, R_ext), (theta, sp_Integer cas 0, dos_pi cas)]) (\<lambda>resultado_doble.
          (let pasos2 = pasos1 @ [''Integral doble = '' @ sp_pretty cas resultado_doble];
               t = sp_Symbol cas ''t'' IsReal;
               x_ext = sp_add cas centro_x (sp_mul cas R_ext (sp_cos cas t));
               y_ext = sp_add cas centro_y (sp_mul cas R_ext (sp_sin cas t));
               dx_ext = sp_diff cas x_ext t;
               dy_ext = sp_diff cas y_ext t
           in
           seq (sp_integrate cas (integrando_curva cas P Q x y x_ext y_ext dx_ext dy_ext)
                  [(t, sp_Integer cas 0, dos_pi cas)]) (\<lambda>linea_ext.
             (let x_int = sp_add cas centro_x (sp_mul cas R_int (sp_cos cas t));
                  y_int = sp_add cas centro_y (sp_mul cas R_int (sp_sin cas t));
                  dx_int = sp_diff cas x_int t;
                  dy_int = sp_diff cas y_int t
              in
              seq (sp_integrate cas (integrando_curva cas P Q x y x_int y_int dx_int dy_int)
                     [(t, dos_pi cas, sp_Integer cas 0)]) (\<lambda>linea_int.
                (let resultado_linea = sp_simplify cas (sp_add cas linea_ext linea_int);
                     pasos3 = pasos2
                       @ [''Integral de linea = '' @ sp_pretty cas resultado_linea]
                       @ separador;
                     R_int_val = dict_get parametros_region ''R_int'' ''1'';
                     R_ext_val = dict_get parametros_region ''R_ext'' ''2''
                 in Inr (verificar_green cas resultado_doble resultado_linea
                           (pasos3 @ explicacion_corona cas R_int_val R_ext_val
                                       resultado_doble resultado_linea rotacional_z)
                           info))))))))))))"

definition green_rectangulo ::
  "'e cas \<Rightarrow> 'e \<Rightarrow> 'e \<Rightarrow> 'e \<Rightarrow> 'e \<Rightarrow> 'e \<Rightarrow> (string \<rightharpoonup> string) \<Rightarrow> string list \<Rightarrow> string list
   \<Rightarrow> exn + 'e pydict" where
  "green_rectangulo cas P Q x y rotacional_z parametros_region pasos info =
     seq (sp_sympify cas (dict_get parametros_region ''a'' ''1'') []) (\<lambda>a.
     seq (sp_sympify cas (dict_get parametros_region ''b'' ''1'') []) (\<lambda>b.
     seq (sp_sympify cas (dict_get parametros_region ''x0'' ''0'') []) (\<lambda>x0.
     seq (sp_sympify cas (dict_get parametros_region ''y0'' ''0'') []) (\<lambda>y0.
       (let pasos1 = pasos @
              [''Region: rectangulo '' @ sp_str cas a @ ''x'' @ sp_str cas b
                 @ '', esquina inferior ('' @ sp_str cas x0 @ '', '' @ sp_str cas y0 @ '')'']
        in
        seq (sp_integrate cas rotacional_z
               [(x, x0, sp_add cas x0 a), (y, y0, sp_add cas y0 b)]) (\<lambda>resultado_doble.
          (let pasos2 = pasos1 @ [''Integral doble = '' @ sp_pretty cas resultado_doble];
               t = sp_Symbol cas ''t'' IsReal
           in
           seq (sp_integrate cas (sp_subs cas P [(x, t), (y, y0)])
                  [(t, x0, sp_add cas x0 a)]) (\<lambda>int1.
           seq (sp_integrate cas (sp_subs cas Q [(x, sp_add cas x0 a), (y, t)])
                  [(t, y0, sp_add cas y0 b)]) (\<lambda>int2.
           seq (sp_integrate cas (sp_subs cas P [(x, t), (y, sp_add cas y0 b)])
                  [(t, sp_add cas x0 a, x0)]) (\<lambda>int3.
           seq (sp_integrate cas (sp_subs cas Q [(x, x0), (y, t)])
                  [(t, sp_add cas y0 b, y0)]) (\<lambda>int4.
             (let resultado_linea = sp_simplify cas
                    (sp_add cas (sp_add cas (sp_add cas int1 int2) int3) int4);
                  pasos3 = pasos2
                    @ [''Integral de linea = '' @ sp_pretty cas resultado_linea]
                    @ separador;
                  a_val = dict_get parametros_region ''a'' ''1'';
                  b_val = dict_get parametros_region ''b'' ''1''
              in Inr (verificar_green cas resultado_doble resultado_linea
                        (pasos3 @ explicacion_rectangulo cas a_val b_val
                                    resultado_doble resultado_linea rotacional_z)
                        info)))))))))))))"

definition green_elipse ::
  "'e cas \<Rightarrow> 'e \<Rightarrow> 'e \<Rightarrow> 'e \<Rightarrow> 'e \<Rightarrow> 'e \<Rightarrow> (string \<rightharpoonup> string) \<Rightarrow> string list \<Rightarrow> string list
   \<Rightarrow> exn + 'e pydict" where
  "green_elipse cas P Q x y rotacional_z parametros_region pasos info =
     seq (sp_sympify cas (dict_get parametros_region ''a'' ''2'') []) (\<lambda>a.
     seq (sp_sympify cas (dict_get parametros_region ''b'' ''1'') []) (\<lambda>b.
     seq (sp_sympify cas (dict_get parametros_region ''centro_x'' ''0'') []) (\<lambda>centro_x.
     seq (sp_sympify cas (dict_get parametros_region ''centro_y'' ''0'') []) (\<lambda>centro_y.
       (let pasos1 = pasos @
              [''Region: elipse (x-'' @ sp_str cas centro_x @ '')^2/'' @ sp_str cas a
                 @ ''^2 + (y-'' @ sp_str cas centro_y @ '')^2/'' @ sp_str cas b @ ''^2 = 1''];
            r = sp_Symbol cas ''r'' IsPositive;
            theta = sp_Symbol cas ''theta'' IsPositive;
            sustituciones =
              [(x, sp_add cas centro_x (sp_mul cas (sp_mul cas a r) (sp_cos cas theta))),
               (y, sp_add cas centro_y (sp_mul cas (sp_mul cas b r) (sp_sin cas theta)))];
            jacobiano = sp_mul cas (sp_mul cas a b) r;
            integrando = sp_mul cas (sp_subs cas rotacional_z sustituciones) jacobiano
        in
        seq (sp_integrate cas integrando
               [(r, sp_Integer cas 0, sp_Integer cas 1),
                (theta, sp_Integer cas 0, dos_pi cas)]) (\<lambda>resultado_doble.
          (let pasos2 = pasos1 @ [''Integral doble = '' @ sp_pretty cas resultado_doble];
               t = sp_Symbol cas ''t'' IsReal;
               x_elipse = sp_add cas centro_x (sp_mul cas a (sp_cos cas t));
               y_elipse = sp_add cas centro_y (sp_mul cas b (sp_sin cas t));
               dx_dt = sp_diff cas x_elipse t;
               dy_dt = sp_diff cas y_elipse t;
               integrando_linea = integrando_curva cas P Q x y x_elipse y_elipse dx_dt dy_dt
           in
           seq (sp_integrate cas integrando_linea [(t, sp_Integer cas 0, dos_pi cas)])
             (\<lambda>integral_linea.
                (let resultado_linea = sp_simplify cas integral_linea;
                     pasos3 = pasos2
                       @ [''Integral de linea = '' @ sp_pretty cas resultado_linea]
                       @ separador;
                     a_val = dict_get parametros_region ''a'' ''2'';
                     b_val = dict_get parametros_region ''b'' ''1''
                 in Inr (verificar_green cas resultado_doble resultado_linea
                           (pasos3 @ explicacion_elipse cas a_val b_val
                                       resultado_doble resultado_linea rotacional_z)
                           info))))))))))"

definition green_triangulo ::
  "'e cas \<Rightarrow> 'e \<Rightarrow> 'e \<Rightarrow> 'e \<Rightarrow> 'e \<Rightarrow> 'e \<Rightarrow> (string \<rightharpoonup> string) \<Rightarrow> string list \<Rightarrow> string list
   \<Rightarrow> exn + 'e pydict" where
  "green_triangulo cas P Q x y rotacional_z parametros_region pasos info =
     seq (sp_sympify cas (dict_get parametros_region ''base'' ''2'') []) (\<lambda>base.
     seq (sp_sympify cas (dict_get parametros_region ''altura'' ''3'') []) (\<lambda>altura.
     seq (sp_sympify cas (dict_get parametros_region ''x0'' ''0'') []) (\<lambda>x0.
     seq (sp_sympify cas (dict_get parametros_region ''y0'' ''0'') []) (\<lambda>y0.
       (let pasos1 = pasos @
              [''Region: triangulo base='' @ sp_str cas base @ '', altura=''
                 @ sp_str cas altura @ '', vertice ('' @ sp_str cas x0 @ '', ''
                 @ sp_str cas y0 @ '')''];
            y_sup = sp_add cas y0
                      (sp_mul cas altura
                         (sp_sub cas (sp_Integer cas 1) (sp_div cas (sp_sub cas x x0) base)))
        in
        seq (sp_integrate cas rotacional_z
               [(x, x0, sp_add cas x0 base), (y, y0, y_sup)]) (\<lambda>resultado_doble.
          (let pasos2 = pasos1 @ [''Integral doble = '' @ sp_pretty cas resultado_doble];
               t = sp_Symbol cas ''t'' IsReal
           in
           seq (sp_integrate cas (sp_subs cas P [(x, t), (y, y0)])
                  [(t, x0, sp_add cas x0 base)]) (\<lambda>int1.
             (let x_hip = sp_add cas x0 (sp_mul cas base (sp_sub cas (sp_Integer cas 1) t));
                  y_hip = sp_add cas y0 (sp_mul cas altura t);
                  dx_hip = sp_diff cas x_hip t;
                  dy_hip = sp_diff cas y_hip t
              in
              seq (sp_integrate cas (integrando_curva cas P Q x y x_hip y_hip dx_hip dy_hip)
                     [(t, sp_Integer cas 0, sp_Integer cas 1)]) (\<lambda>int2.
              seq (sp_integrate cas (sp_subs cas Q [(x, x0), (y, t)])
                     [(t, sp_add cas y0 altura, y0)]) (\<lambda>int3.
                (let resultado_linea = sp_simplify cas (sp_add cas (sp_add cas int1 int2) int3);
                     pasos3 = pasos2
                       @ [''Integral de linea = '' @ sp_pretty cas resultado_linea]
                       @ separador;
                     base_val = dict_get parametros_region ''base'' ''2'';
                     altura_val = dict_get parametros_region ''altura'' ''3''
                 in Inr (verificar_green cas resultado_doble resultado_linea
                           (pasos3 @ explicacion_triangulo cas base_val altura_val
                                       resultado_doble resultado_linea rotacional_z)
                           info)))))))))))))"

definition green_semicirculo ::
  "'e cas \<Rightarrow> 'e \<Rightarrow> 'e \<Rightarrow> 'e \<Rightarrow> 'e \<Rightarrow> 'e \<Rightarrow> (string \<rightharpoonup> string) \<Rightarrow> string list \<Rightarrow> string list
   \<Rightarrow> exn + 'e pydict" where
  "green_semicirculo cas P Q x y rotacional_z parametros_region pasos info =
     seq (sp_sympify cas (dict_get parametros_region ''R'' ''2'') []) (\<lambda>R.
     (let tipo = dict_get parametros_region ''tipo'' ''superior'' in
     seq (sp_sympify cas (dict_get parametros_region ''centro_x'' ''0'') []) (\<lambda>centro_x.
     seq (sp_sympify cas (dict_get parametros_region ''centro_y'' ''0'') []) (\<lambda>centro_y.
       (let pasos1 = pasos @
              [''Region: semicirculo '' @ tipo @ '', R='' @ sp_str cas R @ '', centro (''
                 @ sp_str cas centro_x @ '', '' @ sp_str cas centro_y @ '')''];
            r = sp_Symbol cas ''r'' IsPositive;
            theta = sp_Symbol cas ''theta'' IsPositive;
            sustituciones = polares cas x y centro_x centro_y r theta;
            integrando = sp_mul cas (sp_subs cas rotacional_z sustituciones) r
        in
        seq (if tipo = ''superior'' then
               sp_integrate cas integrando
                 [(r, sp_Integer cas 0, R), (theta, sp_Integer cas 0, sp_pi cas)]
             else
               sp_integrate cas integrando
                 [(r, sp_Integer cas 0, R), (theta, sp_pi cas, dos_pi cas)])
          (\<lambda>resultado_doble.
          (let pasos2 = pasos1 @ [''Integral doble = '' @ sp_pretty cas resultado_doble];
               t = sp_Symbol cas ''t'' IsReal;
               (theta_min, theta_max) =
                  (if tipo = ''superior'' then (sp_Integer cas 0, sp_pi cas)
                   else (sp_pi cas, dos_pi cas));
               x_arco = sp_add cas centro_x (sp_mul cas R (sp_cos cas t));
               y_arco = sp_add cas centro_y (sp_mul cas R (sp_sin cas t));
               dx_arco = sp_diff cas x_arco t;
               dy_arco = sp_diff cas y_arco t
           in
           seq (sp_integrate cas (integrando_curva cas P Q x y x_arco y_arco dx_arco dy_arco)
                  [(t, theta_min, theta_max)]) (\<lambda>linea_arco.
           seq (if tipo = ''superior'' then
                  sp_integrate cas (sp_subs cas P [(x, t), (y, centro_y)])
                    [(t, sp_add cas centro_x R, sp_sub cas centro_x R)]
                else
                  sp_integrate cas (sp_subs cas P [(x, t), (y, centro_y)])
                    [(t, sp_sub cas centro_x R, sp_add cas centro_x R)]) (\<lambda>linea_diam.
             (let resultado_linea = sp_simplify cas (sp_add cas linea_arco linea_diam);
                  pasos3 = pasos2
                    @ [''Integral de linea = '' @ sp_pretty cas resultado_linea]
                    @ separador;
                  R_val = dict_get parametros_region ''R'' ''2'';
                  tipo_val = dict_get parametros_region ''tipo'' ''superior''
              in Inr (verificar_green cas resultado_doble resultado_linea
                        (pasos3 @ explicacion_semicirculo cas R_val tipo_val
                                    resultado_doble resultado_linea rotacional_z)
                        info)))))))))))"

text \<open>
  \<^verbatim>\<open>entre_curvas\<close> guards its two integrals with \<^verbatim>\<open>try\<close>: an exception inside a block
  becomes an error dictionary.
\<close>

definition curvas_doble ::
  "'e cas \<Rightarrow> 'e \<Rightarrow> 'e \<Rightarrow> 'e \<Rightarrow> 'e \<Rightarrow> 'e \<Rightarrow> 'e \<Rightarrow> 'e \<Rightarrow> string \<Rightarrow> string \<Rightarrow> string list
   \<Rightarrow> exn + ('e \<times> string list)" where
  "curvas_doble cas x y rotacional_z f1 f2 x_min x_max f1_str f2_str pasos =
     seq (sp_integrate cas rotacional_z [(y, f1, f2)]) (\<lambda>integral_respecto_y.
     seq (sp_integrate cas integral_respecto_y [(x, x_min, x_max)]) (\<lambda>resultado_doble.
       Inr (resultado_doble, pasos @
         [''Paso 1 - Integral respecto a y: int_{'' @ f1_str @ ''}^{'' @ f2_str @ ''} ''
            @ sp_pretty cas rotacional_z @ '' dy'',
          '' = '' @ sp_pretty cas integral_respecto_y,
          ''Paso 2 - Integral respecto a x: int_{'' @ sp_str cas x_min @ ''}^{''
            @ sp_str cas x_max @ ''} '' @ sp_pretty cas integral_respecto_y @ '' dx'',
          '' = '' @ sp_pretty cas resultado_doble,
          ''Integral doble FINAL = '' @ sp_pretty cas resultado_doble])))"

definition curvas_linea ::
  "'e cas \<Rightarrow> 'e \<Rightarrow> 'e \<Rightarrow> 'e \<Rightarrow> 'e \<Rightarrow> 'e \<Rightarrow> 'e \<Rightarrow> 'e \<Rightarrow> 'e \<Rightarrow> string list
   \<Rightarrow> exn + ('e \<times> string list)" where
  "curvas_linea cas P Q x y f1 f2 x_min x_max pasos =
     (let t = sp_Symbol cas ''t'' IsReal;
          y1 = sp_subs cas f1 [(x, t)];
          dy1 = sp_subs cas (sp_diff cas f1 x) [(x, t)];
          integrando1 = integrando_curva cas P Q x y t y1 (sp_Integer cas 1) dy1
      in
      seq (sp_integrate cas integrando1 [(t, x_min, x_max)]) (\<lambda>int1.
        (let integrando2 =
               integrando_curva cas P Q x y x_max t (sp_Integer cas 0) (sp_Integer cas 1)
         in
         seq (sp_integrate cas integrando2
                [(t, sp_subs cas f1 [(x, x_max)], sp_subs cas f2 [(x, x_max)])]) (\<lambda>int2.
           (let y3 = sp_subs cas f2 [(x, t)];
                dy3 = sp_subs cas (sp_diff cas f2 x) [(x, t)];
                integrando3 = integrando_curva cas P Q x y t y3 (sp_Integer cas 1) dy3
            in
            seq (sp_integrate cas integrando3 [(t, x_max, x_min)]) (\<lambda>int3.
              (let integrando4 =
                     integrando_curva cas P Q x y x_min t (sp_Integer cas 0) (sp_Integer cas 1)
               in
               seq (sp_integrate cas integrando4
                      [(t, sp_subs cas f2 [(x, x_min)], sp_subs cas f1 [(x, x_min)])])
                 (\<lambda>int4.
                    (let resultado_linea = sp_simplify cas
                           (sp_add cas (sp_add cas (sp_add cas
                              (sp_add cas (sp_Integer cas 0) int1) int2) int3) int4)
                     in Inr (resultado_linea, pasos @
                          [''Segmento 1 (curva inferior): '' @ sp_pretty cas int1,
                           ''Segmento 2 (lado derecho): '' @ sp_pretty cas int2,
                           ''Segmento 3 (curva superior, inverso): '' @ sp_pretty cas int3,
                           ''Segmento 4 (lado izquierdo, inverso): '' @ sp_pretty cas int4,
                           ''Integral de linea TOTAL = ''
                             @ sp_pretty cas resultado_linea]))))))))))"

definition green_entre_curvas ::
  "'e cas \<Rightarrow> 'e \<Rightarrow> 'e \<Rightarrow> 'e \<Rightarrow> 'e \<Rightarrow> 'e \<Rightarrow> (string \<rightharpoonup> string) \<Rightarrow> string list \<Rightarrow> string list
   \<Rightarrow> exn + 'e pydict" where
  "green_entre_curvas cas P Q x y rotacional_z parametros_region pasos info =
     (let f1_str = dict_get parametros_region ''f1'' ''x**2'';
          f2_str = dict_get parametros_region ''f2'' ''4''
      in
      seq (sp_sympify cas (dict_get parametros_region ''x_min'' ''0'') []) (\<lambda>x_min.
      seq (sp_sympify cas (dict_get parametros_region ''x_max'' ''2'') []) (\<lambda>x_max.
        (let locales = [(''x'', LExpr x), (''y'', LExpr y), (''sin'', LFunc (sp_sin cas)),
                        (''cos'', LFunc (sp_cos cas)), (''pi'', LExpr (sp_pi cas)),
                        (''exp'', LFunc (sp_exp cas)), (''log'', LFunc (sp_log cas))]
         in
         case seq (sp_sympify cas f1_str locales) (\<lambda>f1.
              seq (sp_sympify cas f2_str locales) (\<lambda>f2. Inr (f1, f2))) of
           Inl e \<Rightarrow> Inr [(''error'', PStr (''Error analizando las curvas: '' @ exn_str e))]
         | Inr (f1, f2) \<Rightarrow>
             (let pasos1 = pasos @
                    [''Region: entre y='' @ f1_str @ '' y y='' @ f2_str @ '', x in [''
                       @ sp_str cas x_min @ '','' @ sp_str cas x_max @ '']'',
                     '''',
                     ''CALCULO DETALLADO DE LA INTEGRAL DOBLE:'',
                     ''iint_D (nablaxF) dA = iint_D '' @ sp_pretty cas rotacional_z @ '' dA'',
                     '' = int_{'' @ sp_str cas x_min @ ''}^{'' @ sp_str cas x_max
                       @ ''} int_{'' @ f1_str @ ''}^{'' @ f2_str @ ''} ''
                       @ sp_pretty cas rotacional_z @ '' dy dx'']
              in
              case curvas_doble cas x y rotacional_z f1 f2 x_min x_max f1_str f2_str pasos1 of
                Inl e \<Rightarrow> Inr [(''error'', PStr (''Error en integral doble: '' @ exn_str e))]
              | Inr (resultado_doble, pasos2) \<Rightarrow>
                  (let pasos3 = pasos2 @
                         ['''', ''CALCULO DE LA INTEGRAL DE LINEA (4 segmentos):'']
                   in
                   case curvas_linea cas P Q x y f1 f2 x_min x_max pasos3 of
                     Inl e \<Rightarrow>
                       Inr [(''error'', PStr (''Error en integral de linea: '' @ exn_str e))]
                   | Inr (resultado_linea, pasos4) \<Rightarrow>
                       (let f1_val = dict_get parametros_region ''f1'' ''x'';
                            f2_val = dict_get parametros_region ''f2'' ''2*x+1'';
                            x_min_val = dict_get parametros_region ''x_min'' ''0'';
                            x_max_val = dict_get parametros_region ''x_max'' ''2''
                        in Inr (verificar_green cas resultado_doble resultado_linea
                                  (pasos4 @ separador
                                     @ explicacion_entre_curvas cas f1_val f2_val x_min_val
                                         x_max_val resultado_doble resultado_linea
                                         rotacional_z)
                                  info))))))))"

definition green_sector_polar ::
  "'e cas \<Rightarrow> 'e \<Rightarrow> 'e \<Rightarrow> 'e \<Rightarrow> 'e \<Rightarrow> 'e \<Rightarrow> (string \<rightharpoonup> string) \<Rightarrow> string list \<Rightarrow> string list
   \<Rightarrow> exn + 'e pydict" where
  "green_sector_polar cas P Q x y rotacional_z parametros_region pasos info =
     seq (sp_sympify cas (dict_get parametros_region ''R'' ''2'') []) (\<lambda>R.
     seq (sp_sympify cas (dict_get parametros_region ''theta_min'' ''0'') []) (\<lambda>theta_min.
     seq (sp_sympify cas (dict_get parametros_region ''theta_max'' ''pi/2'') []) (\<lambda>theta_max.
       (let pasos1 = pasos @
              [''Region: sector polar R='' @ sp_str cas R @ '', theta in [''
                 @ sp_str cas theta_min @ '','' @ sp_str cas theta_max @ '']''];
            r = sp_Symbol cas ''r'' IsPositive;
            theta = sp_Symbol cas ''theta'' IsPositive;
            sustituciones = [(x, sp_mul cas r (sp_cos cas theta)),
                             (y, sp_mul cas r (sp_sin cas theta))];
            integrando = sp_mul cas (sp_subs cas rotacional_z sustituciones) r
        in
        seq (sp_integrate cas integrando
               [(r, sp_Integer cas 0, R), (theta, theta_min, theta_max)]) (\<lambda>resultado_doble.
          (let pasos2 = pasos1 @ [''Integral doble = '' @ sp_pretty cas resultado_doble];
               t = sp_Symbol cas ''t'' IsReal;
               x_arco = sp_mul cas R (sp_cos cas t);
               y_arco = sp_mul cas R (sp_sin cas t);
               dx_arco = sp_diff cas x_arco t;
               dy_arco = sp_diff cas y_arco t
           in
           seq (sp_integrate cas (integrando_curva cas P Q x y x_arco y_arco dx_arco dy_arco)
                  [(t, theta_min, theta_max)]) (\<lambda>linea_arco.
             (let x_rad1 = sp_mul cas t (sp_cos cas theta_min);
                  y_rad1 = sp_mul cas t (sp_sin cas theta_min)
              in
              seq (sp_integrate cas
                     (integrando_curva cas P Q x y x_rad1 y_rad1
                        (sp_cos cas theta_min) (sp_sin cas theta_min))
                     [(t, R, sp_Integer cas 0)]) (\<lambda>linea_rad1.
                (let x_rad2 = sp_mul cas t (sp_cos cas theta_max);
                     y_rad2 = sp_mul cas t (sp_sin cas theta_max)
                 in
                 seq (sp_integrate cas
                        (integrando_curva cas P Q x y x_rad2 y_rad2
                           (sp_cos cas theta_max) (sp_sin cas theta_max))
                        [(t, sp_Integer cas 0, R)]) (\<lambda>linea_rad2.
                   (let resultado_linea = sp_simplify cas
                          (sp_add cas (sp_add cas linea_arco linea_rad1) linea_rad2);
                        pasos3 = pasos2
                          @ [''Integral de linea = '' @ sp_pretty cas resultado_linea]
                          @ separador;
                        R_val = dict_get parametros_region ''R'' ''2'';
                        theta_min_val = dict_get parametros_region ''theta_min'' ''0'';
                        theta_max_val = dict_get parametros_region ''theta_max'' ''pi/2''
                    in Inr (verificar_green cas resultado_doble resultado_linea
                              (pasos3 @ explicacion_sector_polar cas R_val theta_min_val
                                          theta_max_val resultado_doble resultado_linea
                                          rotacional_z)
                              info)))))))))))))"

text \<open>
  The polygon: \<^verbatim>\<open>int(...)\<close> of the side count raises \<^verbatim>\<open>ValueError\<close> on a text that
  is not an integer literal; there is no test on the number of sides. Only the double
  integral is computed and it is returned in both slots.
\<close>

definition green_poligono ::
  "'e cas \<Rightarrow> 'e \<Rightarrow> 'e \<Rightarrow> 'e \<Rightarrow> 'e \<Rightarrow> 'e \<Rightarrow> (string \<rightharpoonup> string) \<Rightarrow> string list \<Rightarrow> string list
   \<Rightarrow> exn + 'e pydict" where
  "green_poligono cas P Q x y rotacional_z parametros_region pasos info =
     seq (py_int (dict_get parametros_region ''lados'' ''5'')) (\<lambda>lados.
     seq (sp_sympify cas (dict_get parametros_region ''radio'' ''2'') []) (\<lambda>radio.
     seq (sp_sympify cas (dict_get parametros_region ''centro_x'' ''0'') []) (\<lambda>centro_x.
     seq (sp_sympify cas (dict_get parametros_region ''centro_y'' ''0'') []) (\<lambda>centro_y.
       (let pasos1 = pasos @
              [''Region: poligono regular de '' @ str_int lados @ '' lados, R=''
                 @ sp_str cas radio @ '', centro ('' @ sp_str cas centro_x @ '', ''
                 @ sp_str cas centro_y @ '')''];
            pi_n = sp_div cas (sp_pi cas) (sp_Integer cas lados);
            area_poligono =
              sp_div cas
                (sp_mul cas (sp_Integer cas lados)
                   (sp_pow cas
                      (sp_mul cas (sp_mul cas (sp_Integer cas 2) radio) (sp_sin cas pi_n))
                      (sp_Integer cas 2)))
                (sp_mul cas (sp_Integer cas 4) (sp_tan cas pi_n));
            (resultado_doble, pasos2) =
              (if sp_is_constant cas rotacional_z then
                 (let resultado_doble = sp_mul cas rotacional_z area_poligono
                  in (resultado_doble, pasos1 @
                        [''Como nablaxF es constante, integral doble = ''
                           @ sp_pretty cas rotacional_z @ '' x ''
                           @ sp_pretty cas area_poligono @ '' = ''
                           @ sp_pretty cas resultado_doble]))
               else
                 (let rotacional_medio =
                        sp_subs cas rotacional_z [(x, centro_x), (y, centro_y)];
                      resultado_doble = sp_mul cas rotacional_medio area_poligono
                  in (resultado_doble, pasos1 @
                        [''[!]  Rotacional no constante - usando valor medio aproximado'',
                         ''Aproximacion: nablaxF ~= '' @ sp_pretty cas rotacional_medio
                           @ '' en el centro'',
                         ''Integral doble ~= '' @ sp_pretty cas rotacional_medio @ '' x ''
                           @ sp_pretty cas area_poligono @ '' = ''
                           @ sp_pretty cas resultado_doble])));
            pasos3 = pasos2
              @ [''Nota: Para poligonos, se muestra solo la integral doble'']
              @ separador;
            lados_val = dict_get parametros_region ''lados'' ''5'';
            radio_val = dict_get parametros_region ''radio'' ''2''
        in Inr [(''doble'', PExpr resultado_doble), (''linea'', PExpr resultado_doble),
                (''pasos'', PList (pasos3 @ explicacion_poligono cas lados_val radio_val
                                     resultado_doble resultado_doble rotacional_z)),
                (''info'', PList info)])))))"

definition green_info :: "string list" where
  "green_info =
     [''TEOREMA DE GREEN'',
      ''Formula: oint_C (P dx + Q dy) = iint_D (dQ/dx - dP/dy) dA'',
      ''Donde:'',
      ''  - P(x,y): componente x del campo vectorial'',
      ''  - Q(x,y): componente y del campo vectorial'',
      ''  - C: curva cerrada que bordea la region D'',
      ''  - D: region en el plano xy'',
      ''  - dQ/dx: derivada parcial de Q respecto a x'',
      ''  - dP/dy: derivada parcial de P respecto a y'']"

definition green_rotacional :: "'e cas \<Rightarrow> 'e \<Rightarrow> 'e \<Rightarrow> 'e \<Rightarrow> 'e \<Rightarrow> 'e" where
  "green_rotacional cas P Q x y =
     sp_simplify cas (sp_sub cas (sp_diff cas Q x) (sp_diff cas P y))"

definition green_pasos :: "'e cas \<Rightarrow> 'e \<Rightarrow> 'e \<Rightarrow> 'e \<Rightarrow> 'e \<Rightarrow> string list" where
  "green_pasos cas P Q x y =
     (let dQdx = sp_diff cas Q x;
          dPdy = sp_diff cas P y;
          rotacional_z = green_rotacional cas P Q x y
      in [''Campo vectorial F = (P, Q) = ('' @ sp_pretty cas P @ '', ''
            @ sp_pretty cas Q @ '')'',
          '''',
          ''CALCULO DE LAS DERIVADAS PARCIALES:'',
          ''P(x,y) = '' @ sp_pretty cas P,
          ''Q(x,y) = '' @ sp_pretty cas Q,
          ''dQ/dx = d('' @ sp_pretty cas Q @ '')/dx = '' @ sp_pretty cas dQdx,
          ''dP/dy = d('' @ sp_pretty cas P @ '')/dy = '' @ sp_pretty cas dPdy,
          ''nablaxF = dQ/dx - dP/dy = '' @ sp_pretty cas dQdx @ '' - (''
            @ sp_pretty cas dPdy @ '') = '' @ sp_pretty cas rotacional_z,
          ''''])"

definition green_locales :: "'e cas \<Rightarrow> 'e \<Rightarrow> 'e \<Rightarrow> (string \<times> 'e local_binding) list" where
  "green_locales cas x y =
     [(''x'', LExpr x), (''y'', LExpr y), (''sin'', LFunc (sp_sin cas)),
      (''cos'', LFunc (sp_cos cas)), (''pi'', LExpr (sp_pi cas))]"

definition aplicar_green ::
  "'e cas \<Rightarrow> string \<Rightarrow> string \<Rightarrow> string \<Rightarrow> (string \<rightharpoonup> string) \<Rightarrow> exn + 'e pydict" where
  "aplicar_green cas P_str Q_str region parametros_region =
     (let x = sp_Symbol cas ''x'' IsReal;
          y = sp_Symbol cas ''y'' IsReal;
          locales = green_locales cas x y
      in
      case seq (sp_sympify cas P_str locales) (\<lambda>P.
           seq (sp_sympify cas Q_str locales) (\<lambda>Q. Inr (P, Q))) of
        Inl e \<Rightarrow> Inr [(''error'', PStr (''Error analizando P o Q: '' @ exn_str e))]
      | Inr (P, Q) \<Rightarrow>
          (let info = green_info;
               pasos = green_pasos cas P Q x y;
               rotacional_z = green_rotacional cas P Q x y
           in
           if region = ''disco'' then
             green_disco cas P Q x y rotacional_z parametros_region pasos info
           else if region = ''corona'' then
             green_corona cas P Q x y rotacional_z parametros_region pasos info
           else if region = ''rectangulo'' then
             green_rectangulo cas P Q x y rotacional_z parametros_region pasos info
           else if region = ''elipse'' then
             green_elipse cas P Q x y rotacional_z parametros_region pasos info
           else if region = ''triangulo'' then
             green_triangulo cas P Q x y rotacional_z parametros_region pasos info
           else if region = ''semicirculo'' then
             green_semicirculo cas P Q x y rotacional_z parametros_region pasos info
           else if region = ''entre_curvas'' then
             green_entre_curvas cas P Q x y rotacional_z parametros_region pasos info
           else if region = ''sector_polar'' then
             green_sector_polar cas P Q x y rotacional_z parametros_region pasos info
           else if region = ''poligono'' then
             green_poligono cas P Q x y rotacional_z parametros_region pasos info
           else Inr [(''error'', PStr ''Region no soportada para el Teorema de Green.'')]))"

section \<open>The divergence theorem: \<^verbatim>\<open>aplicar_divergencia\<close>\<close>

text \<open>
  Python evaluates the coefficient \<^verbatim>\<open>(4/3)\<close> of the sphere's volume in binary floating
  point before the library sees it: the library receives the double nearest to 4/3.
\<close>

definition py_4_div_3 :: rat where
  "py_4_div_3 = 6004799503160661 / 4503599627370496"

definition divergencia_campo :: "'e cas \<Rightarrow> 'e \<Rightarrow> 'e \<Rightarrow> 'e \<Rightarrow> 'e \<Rightarrow> 'e \<Rightarrow> 'e \<Rightarrow> 'e \<times> string list" where
  "divergencia_campo cas Fx Fy Fz x y z =
     (let dFx_dx = sp_diff cas Fx x;
          dFy_dy = sp_diff cas Fy y;
          dFz_dz = sp_diff cas Fz z;
          divF = sp_simplify cas (sp_add cas (sp_add cas dFx_dx dFy_dy) dFz_dz)
      in (divF,
          [''Campo vectorial F = ('' @ sp_pretty cas Fx @ '', '' @ sp_pretty cas Fy @ '', ''
             @ sp_pretty cas Fz @ '')'',
           '''',
           ''CALCULO DETALLADO DE LA DIVERGENCIA:'',
           ''nabla*F = dFx/dx + dFy/dy + dFz/dz'',
           '''',
           ''dFx/dx = d('' @ sp_pretty cas Fx @ '')/dx = '' @ sp_pretty cas dFx_dx,
           ''dFy/dy = d('' @ sp_pretty cas Fy @ '')/dy = '' @ sp_pretty cas dFy_dy,
           ''dFz/dz = d('' @ sp_pretty cas Fz @ '')/dz = '' @ sp_pretty cas dFz_dz,
           ''Divergencia nabla*F = '' @ sp_pretty cas dFx_dx @ '' + '' @ sp_pretty cas dFy_dy
             @ '' + '' @ sp_pretty cas dFz_dz @ '' = '' @ sp_pretty cas divF]))"

definition campo_3d ::
  "'e cas \<Rightarrow> string \<Rightarrow> string \<Rightarrow> string \<Rightarrow> 'e \<Rightarrow> 'e \<Rightarrow> 'e \<Rightarrow> exn + ('e \<times> 'e \<times> 'e)" where
  "campo_3d cas Fx_str Fy_str Fz_str x y z =
     (let locales = [(''x'', LExpr x), (''y'', LExpr y), (''z'', LExpr z),
                     (''sin'', LFunc (sp_sin cas)), (''cos'', LFunc (sp_cos cas)),
                     (''pi'', LExpr (sp_pi cas))]
      in seq (sp_sympify cas Fx_str locales) (\<lambda>Fx.
         seq (sp_sympify cas Fy_str locales) (\<lambda>Fy.
         seq (sp_sympify cas Fz_str locales) (\<lambda>Fz. Inr (Fx, Fy, Fz)))))"

definition divergencia_info :: "string list" where
  "divergencia_info =
     [''TEOREMA DE LA DIVERGENCIA (TEOREMA DE GAUSS)'',
      ''Formula: iint_S F*dS = iiint_V (nabla*F) dV'',
      ''Donde:'',
      ''  - F = (Fx, Fy, Fz): campo vectorial'',
      ''  - nabla*F: divergencia del campo F'',
      ''  - S: superficie cerrada que encierra el volumen V'',
      ''  - V: volumen encerrado por la superficie S'',
      ''  - dS: elemento diferencial de superficie'',
      ''  - dV: elemento diferencial de volumen'']"

definition divergencia_esfera ::
  "'e cas \<Rightarrow> 'e \<Rightarrow> 'e \<Rightarrow> 'e \<Rightarrow> 'e \<Rightarrow> 'e \<Rightarrow> 'e \<Rightarrow> 'e \<Rightarrow> (string \<rightharpoonup> string) \<Rightarrow> string list
   \<Rightarrow> string list \<Rightarrow> exn + 'e pydict" where
  "divergencia_esfera cas Fx Fy Fz x y z divF parametros_region pasos info =
     seq (sp_sympify cas (dict_get parametros_region ''R'' ''1'') []) (\<lambda>R.
     (let pasos1 = pasos @ [''Region: esfera de radio R='' @ sp_str cas R @ ''. Usamos coordenadas esfericas.'',
                       '''',
                       ''CALCULO DE LA INTEGRAL TRIPLE:''] in
     seq (if sp_is_constant cas divF then
            (let volumen_esfera = sp_mul cas (sp_mul cas (sp_Float cas py_4_div_3) (sp_pi cas)) (sp_pow cas R (sp_Integer cas 3)) in
            (let res_vol = sp_mul cas divF volumen_esfera in
            (let pasos2 = pasos1 @ [''Como nabla*F = '' @ sp_pretty cas divF @ '' es constante:'',
                              ''iiint_V (nabla*F) dV = '' @ sp_pretty cas divF @ '' x Volumen de la esfera'',
                              ''Volumen de la esfera = (4/3)piR^3 = (4/3)pi('' @ sp_str cas R @ '')^3 = '' @ sp_pretty cas volumen_esfera,
                              ''Resultado = '' @ sp_pretty cas divF @ '' x '' @ sp_pretty cas volumen_esfera @ '' = '' @ sp_pretty cas res_vol] in
            Inr (res_vol, pasos2))))
          else
            (let pasos2 = pasos1 @ [''Transformacion a coordenadas esfericas:'',
                              ''x = rho*sin(phi)*cos(theta), y = rho*sin(phi)*sin(theta), z = rho*cos(phi)'',
                              ''Jacobiano: rho^2*sin(phi)''] in
            (let rho = sp_Symbol cas ''rho'' IsPositive in
            (let phi = sp_Symbol cas ''phi'' IsPositive in
            (let theta = sp_Symbol cas ''theta'' IsPositive in
            (let sustituciones = [(x, sp_mul cas (sp_mul cas rho (sp_sin cas phi)) (sp_cos cas theta)), (y, sp_mul cas (sp_mul cas rho (sp_sin cas phi)) (sp_sin cas theta)), (z, sp_mul cas rho (sp_cos cas phi))] in
            (let integrando = sp_simplify cas (sp_mul cas (sp_mul cas (sp_subs cas divF sustituciones) (sp_pow cas rho (sp_Integer cas 2))) (sp_sin cas phi)) in
            (let pasos3 = pasos2 @ [''Integrando en coordenadas esfericas: '' @ sp_pretty cas (sp_subs cas divF sustituciones) @ '' x rho^2*sin(phi) = '' @ sp_pretty cas integrando,
                              '''',
                              ''Limites de integracion:'',
                              ''rho: 0 a '' @ sp_str cas R,
                              ''phi: 0 a pi'',
                              ''theta: 0 a 2pi'',
                              '''',
                              ''iiint_V (nabla*F) dV = int_0^'' @ sp_str cas R @ '' int_0^pi int_0^2pi ['' @ sp_pretty cas integrando @ ''] dtheta dphi drho''] in
            seq (sp_integrate cas integrando [(theta, (sp_Integer cas 0), dos_pi cas)]) (\<lambda>integral_theta.
            (let pasos4 = pasos3 @ [''Integral respecto a theta: int_0^2pi '' @ sp_pretty cas integrando @ '' dtheta = '' @ sp_pretty cas integral_theta] in
            seq (sp_integrate cas integral_theta [(phi, (sp_Integer cas 0), sp_pi cas)]) (\<lambda>integral_phi.
            (let pasos5 = pasos4 @ [''Integral respecto a phi: int_0^pi '' @ sp_pretty cas integral_theta @ '' dphi = '' @ sp_pretty cas integral_phi] in
            seq (sp_integrate cas integral_phi [(rho, (sp_Integer cas 0), R)]) (\<lambda>res_vol.
            (let pasos6 = pasos5 @ [''Integral respecto a rho: int_0^'' @ sp_str cas R @ '' '' @ sp_pretty cas integral_phi @ '' drho = '' @ sp_pretty cas res_vol] in
            Inr (res_vol, pasos6)))))))))))))))
     (\<lambda>(res_vol, pasos_v).
     (let pasos2 = pasos_v @ ['''',
                       ''INTERPRETACION FISICA:'',
                       ''- El campo F = ('' @ sp_pretty cas Fx @ '', '' @ sp_pretty cas Fy @ '', '' @ sp_pretty cas Fz @ '')'',
                       ''- La divergencia nabla*F = '' @ sp_pretty cas divF @ '' indica las fuentes/sumideros del campo'',
                       ''- El flujo neto a traves de la superficie esferica es '' @ sp_pretty cas res_vol,
                       ''- Esto representa la 'cantidad de campo' que sale de la esfera''] in
     Inr [(''divergencia'', PExpr divF), (''volumen'', PExpr res_vol), (''pasos'', PList pasos2), (''info'', PList info)]))))"

definition divergencia_cilindro ::
  "'e cas \<Rightarrow> 'e \<Rightarrow> 'e \<Rightarrow> 'e \<Rightarrow> 'e \<Rightarrow> 'e \<Rightarrow> 'e \<Rightarrow> 'e \<Rightarrow> (string \<rightharpoonup> string) \<Rightarrow> string list
   \<Rightarrow> string list \<Rightarrow> exn + 'e pydict" where
  "divergencia_cilindro cas Fx Fy Fz x y z divF parametros_region pasos info =
     seq (sp_sympify cas (dict_get parametros_region ''a'' ''1'') []) (\<lambda>a.
     seq (sp_sympify cas (dict_get parametros_region ''h'' ''1'') []) (\<lambda>h.
     (let pasos1 = pasos @ [''Region: cilindro de radio a='' @ sp_str cas a @ '' y altura h='' @ sp_str cas h @ ''. Usamos coordenadas cilindricas.''] in
     seq (if sp_is_constant cas divF then
            (let volumen_cilindro = sp_mul cas (sp_mul cas (sp_pi cas) (sp_pow cas a (sp_Integer cas 2))) h in
            (let res_vol = sp_mul cas divF volumen_cilindro in
            (let pasos2 = pasos1 @ [''Como nabla*F = '' @ sp_pretty cas divF @ '' es constante:'',
                              ''iiint_V (nabla*F) dV = '' @ sp_pretty cas divF @ '' x Volumen del cilindro'',
                              ''Volumen del cilindro = pia^2h = pi('' @ sp_str cas a @ '')^2('' @ sp_str cas h @ '') = '' @ sp_pretty cas volumen_cilindro,
                              ''Resultado = '' @ sp_pretty cas divF @ '' x '' @ sp_pretty cas volumen_cilindro @ '' = '' @ sp_pretty cas res_vol] in
            Inr (res_vol, pasos2))))
          else
            (let pasos2 = pasos1 @ [''Transformacion a coordenadas cilindricas:'',
                              ''x = r*cos(theta), y = r*sin(theta), z = z'',
                              ''Jacobiano: r''] in
            (let r = sp_Symbol cas ''r'' IsReal in
            (let theta = sp_Symbol cas ''theta'' IsReal in
            (let zs = sp_Symbol cas ''zs'' IsReal in
            (let sustituciones = [(x, sp_mul cas r (sp_cos cas theta)), (y, sp_mul cas r (sp_sin cas theta)), (z, zs)] in
            (let integrando = sp_simplify cas (sp_mul cas (sp_subs cas divF sustituciones) r) in
            (let pasos3 = pasos2 @ [''Integrando en coordenadas cilindricas: '' @ sp_pretty cas (sp_subs cas divF sustituciones) @ '' x r = '' @ sp_pretty cas integrando,
                              '''',
                              ''Limites de integracion:'',
                              ''r: 0 a '' @ sp_str cas a,
                              ''theta: 0 a 2pi'',
                              ''z: 0 a '' @ sp_str cas h,
                              '''',
                              ''iiint_V (nabla*F) dV = int_0^'' @ sp_str cas a @ '' int_0^2pi int_0^'' @ sp_str cas h @ '' ['' @ sp_pretty cas integrando @ ''] dz dtheta dr''] in
            seq (sp_integrate cas integrando [(zs, (sp_Integer cas 0), h)]) (\<lambda>integral_z.
            (let pasos4 = pasos3 @ [''Integral respecto a z: int_0^'' @ sp_str cas h @ '' '' @ sp_pretty cas integrando @ '' dz = '' @ sp_pretty cas integral_z] in
            seq (sp_integrate cas integral_z [(theta, (sp_Integer cas 0), dos_pi cas)]) (\<lambda>integral_theta.
            (let pasos5 = pasos4 @ [''Integral respecto a theta: int_0^2pi '' @ sp_pretty cas integral_z @ '' dtheta = '' @ sp_pretty cas integral_theta] in
            seq (sp_integrate cas integral_theta [(r, (sp_Integer cas 0), a)]) (\<lambda>res_vol.
            (let pasos6 = pasos5 @ [''Integral respecto a r: int_0^'' @ sp_str cas a @ '' '' @ sp_pretty cas integral_theta @ '' dr = '' @ sp_pretty cas res_vol] in
            Inr (res_vol, pasos6)))))))))))))))
     (\<lambda>(res_vol, pasos_v).
     Inr [(''divergencia'', PExpr divF), (''volumen'', PExpr res_vol), (''pasos'', PList pasos_v), (''info'', PList info)]))))"

definition divergencia_cubo ::
  "'e cas \<Rightarrow> 'e \<Rightarrow> 'e \<Rightarrow> 'e \<Rightarrow> 'e \<Rightarrow> 'e \<Rightarrow> 'e \<Rightarrow> 'e \<Rightarrow> (string \<rightharpoonup> string) \<Rightarrow> string list
   \<Rightarrow> string list \<Rightarrow> exn + 'e pydict" where
  "divergencia_cubo cas Fx Fy Fz x y z divF parametros_region pasos info =
     seq (sp_sympify cas (dict_get parametros_region ''a'' ''1'') []) (\<lambda>a.
     seq (sp_sympify cas (dict_get parametros_region ''b'' ''1'') []) (\<lambda>b.
     seq (sp_sympify cas (dict_get parametros_region ''c'' ''1'') []) (\<lambda>c.
     (let pasos1 = pasos @ [''Region: cubo de dimensiones '' @ sp_str cas a @ ''x'' @ sp_str cas b @ ''x'' @ sp_str cas c @ ''. Usamos coordenadas cartesianas.'',
                       '''',
                       ''CALCULO DE LA INTEGRAL TRIPLE:'',
                       ''Limites de integracion:'',
                       ''x: -'' @ sp_str cas a @ ''/2 a '' @ sp_str cas a @ ''/2'',
                       ''y: -'' @ sp_str cas b @ ''/2 a '' @ sp_str cas b @ ''/2'',
                       ''z: -'' @ sp_str cas c @ ''/2 a '' @ sp_str cas c @ ''/2'',
                       '''',
                       ''iiint_V (nabla*F) dV = int_[-'' @ sp_str cas a @ ''/2,'' @ sp_str cas a @ ''/2] int_[-'' @ sp_str cas b @ ''/2,'' @ sp_str cas b @ ''/2] int_[-'' @ sp_str cas c @ ''/2,'' @ sp_str cas c @ ''/2] ['' @ sp_pretty cas divF @ ''] dz dy dx''] in
     seq (sp_integrate cas divF [(z, (sp_div cas (sp_neg cas c) (sp_Integer cas 2)), (sp_div cas c (sp_Integer cas 2)))]) (\<lambda>integral_z.
     (let pasos2 = pasos1 @ [''Integral respecto a z: int_[-'' @ sp_str cas c @ ''/2,'' @ sp_str cas c @ ''/2] '' @ sp_pretty cas divF @ '' dz = '' @ sp_pretty cas integral_z] in
     seq (sp_integrate cas integral_z [(y, (sp_div cas (sp_neg cas b) (sp_Integer cas 2)), (sp_div cas b (sp_Integer cas 2)))]) (\<lambda>integral_y.
     (let pasos3 = pasos2 @ [''Integral respecto a y: int_[-'' @ sp_str cas b @ ''/2,'' @ sp_str cas b @ ''/2] '' @ sp_pretty cas integral_z @ '' dy = '' @ sp_pretty cas integral_y] in
     seq (sp_integrate cas integral_y [(x, (sp_div cas (sp_neg cas a) (sp_Integer cas 2)), (sp_div cas a (sp_Integer cas 2)))]) (\<lambda>res_vol.
     (let pasos4 = pasos3 @ [''Integral respecto a x: int_[-'' @ sp_str cas a @ ''/2,'' @ sp_str cas a @ ''/2] '' @ sp_pretty cas integral_y @ '' dx = '' @ sp_pretty cas res_vol] in
     Inr [(''divergencia'', PExpr divF), (''volumen'', PExpr res_vol), (''pasos'', PList pasos4), (''info'', PList info)]))))))))))"

definition divergencia_elipsoide ::
  "'e cas \<Rightarrow> 'e \<Rightarrow> 'e \<Rightarrow> 'e \<Rightarrow> 'e \<Rightarrow> 'e \<Rightarrow> 'e \<Rightarrow> 'e \<Rightarrow> (string \<rightharpoonup> string) \<Rightarrow> string list
   \<Rightarrow> string list \<Rightarrow> exn + 'e pydict" where
  "divergencia_elipsoide cas Fx Fy Fz x y z divF parametros_region pasos info =
     seq (sp_sympify cas (dict_get parametros_region ''a'' ''1'') []) (\<lambda>a.
     seq (sp_sympify cas (dict_get parametros_region ''b'' ''1'') []) (\<lambda>b.
     seq (sp_sympify cas (dict_get parametros_region ''c'' ''1'') []) (\<lambda>c.
     (let pasos1 = pasos @ [''Region: elipsoide de semiejes a='' @ sp_str cas a @ '', b='' @ sp_str cas b @ '', c='' @ sp_str cas c @ ''. Usamos coordenadas elipsoidales.'',
                       '''',
                       ''CALCULO DE LA INTEGRAL TRIPLE:'',
                       ''Transformacion a coordenadas elipsoidales:'',
                       ''x = a*rho*sin(phi)*cos(theta), y = b*rho*sin(phi)*sin(theta), z = c*rho*cos(phi)'',
                       ''Jacobiano: a*b*c*rho^2*sin(phi)''] in
     (let rho = sp_Symbol cas ''rho'' IsPositive in
     (let phi = sp_Symbol cas ''phi'' IsPositive in
     (let theta = sp_Symbol cas ''theta'' IsPositive in
     (let sustituciones = [(x, sp_mul cas (sp_mul cas (sp_mul cas a rho) (sp_sin cas phi)) (sp_cos cas theta)), (y, sp_mul cas (sp_mul cas (sp_mul cas b rho) (sp_sin cas phi)) (sp_sin cas theta)), (z, sp_mul cas (sp_mul cas c rho) (sp_cos cas phi))] in
     (let jacobiano = sp_mul cas (sp_mul cas (sp_mul cas (sp_mul cas a b) c) (sp_pow cas rho (sp_Integer cas 2))) (sp_sin cas phi) in
     (let integrando = sp_simplify cas (sp_mul cas (sp_subs cas divF sustituciones) jacobiano) in
     (let pasos2 = pasos1 @ [''Integrando en coordenadas elipsoidales: '' @ sp_pretty cas (sp_subs cas divF sustituciones) @ '' x '' @ sp_pretty cas jacobiano @ '' = '' @ sp_pretty cas integrando,
                       '''',
                       ''Limites de integracion:'',
                       ''rho: 0 a 1'',
                       ''phi: 0 a pi'',
                       ''theta: 0 a 2pi'',
                       '''',
                       ''iiint_V (nabla*F) dV = int_0^1 int_0^pi int_0^2pi ['' @ sp_pretty cas integrando @ ''] dtheta dphi drho''] in
     seq (sp_integrate cas integrando [(theta, (sp_Integer cas 0), dos_pi cas)]) (\<lambda>integral_theta.
     (let pasos3 = pasos2 @ [''Integral respecto a theta: int_0^2pi '' @ sp_pretty cas integrando @ '' dtheta = '' @ sp_pretty cas integral_theta] in
     seq (sp_integrate cas integral_theta [(phi, (sp_Integer cas 0), sp_pi cas)]) (\<lambda>integral_phi.
     (let pasos4 = pasos3 @ [''Integral respecto a phi: int_0^pi '' @ sp_pretty cas integral_theta @ '' dphi = '' @ sp_pretty cas integral_phi] in
     seq (sp_integrate cas integral_phi [(rho, (sp_Integer cas 0), (sp_Integer cas 1))]) (\<lambda>res_vol.
     (let pasos5 = pasos4 @ [''Integral respecto a rho: int_0^1 '' @ sp_pretty cas integral_phi @ '' drho = '' @ sp_pretty cas res_vol] in
     Inr [(''divergencia'', PExpr divF), (''volumen'', PExpr res_vol), (''pasos'', PList pasos5), (''info'', PList info)])))))))))))))))))"

definition divergencia_cono ::
  "'e cas \<Rightarrow> 'e \<Rightarrow> 'e \<Rightarrow> 'e \<Rightarrow> 'e \<Rightarrow> 'e \<Rightarrow> 'e \<Rightarrow> 'e \<Rightarrow> (string \<rightharpoonup> string) \<Rightarrow> string list
   \<Rightarrow> string list \<Rightarrow> exn + 'e pydict" where
  "divergencia_cono cas Fx Fy Fz x y z divF parametros_region pasos info =
     seq (sp_sympify cas (dict_get parametros_region ''R'' ''1'') []) (\<lambda>R.
     seq (sp_sympify cas (dict_get parametros_region ''h'' ''1'') []) (\<lambda>h.
     (let pasos1 = pasos @ [''Region: cono de radio R='' @ sp_str cas R @ '' y altura h='' @ sp_str cas h @ ''. Usamos coordenadas cilindricas.'',
                       '''',
                       ''CALCULO DE LA INTEGRAL TRIPLE:'',
                       ''Transformacion a coordenadas cilindricas:'',
                       ''x = r*cos(theta), y = r*sin(theta), z = z'',
                       ''Jacobiano: r'',
                       ''Radio variable: r = R(1 - z/h)''] in
     (let r = sp_Symbol cas ''r'' IsReal in
     (let theta = sp_Symbol cas ''theta'' IsReal in
     (let zs = sp_Symbol cas ''zs'' IsReal in
     (let sustituciones = [(x, sp_mul cas r (sp_cos cas theta)), (y, sp_mul cas r (sp_sin cas theta)), (z, zs)] in
     (let integrando = sp_simplify cas (sp_mul cas (sp_subs cas divF sustituciones) r) in
     (let pasos2 = pasos1 @ [''Integrando en coordenadas cilindricas: '' @ sp_pretty cas (sp_subs cas divF sustituciones) @ '' x r = '' @ sp_pretty cas integrando,
                       '''',
                       ''Limites de integracion:'',
                       ''r: 0 a '' @ sp_str cas R @ ''*(1 - z/'' @ sp_str cas h @ '')'',
                       ''theta: 0 a 2pi'',
                       ''z: 0 a '' @ sp_str cas h,
                       '''',
                       ''iiint_V (nabla*F) dV = int_0^'' @ sp_str cas h @ '' int_0^2pi int_0^{'' @ sp_str cas R @ ''*(1 - z/'' @ sp_str cas h @ '')} ['' @ sp_pretty cas integrando @ ''] dr dtheta dz''] in
     seq (sp_integrate cas integrando [(r, (sp_Integer cas 0), sp_mul cas R (sp_sub cas (sp_Integer cas 1) (sp_div cas zs h)))]) (\<lambda>integral_r.
     (let pasos3 = pasos2 @ [''Integral respecto a r: int_0^{'' @ sp_str cas R @ ''*(1 - z/'' @ sp_str cas h @ '')} '' @ sp_pretty cas integrando @ '' dr = '' @ sp_pretty cas integral_r] in
     seq (sp_integrate cas integral_r [(theta, (sp_Integer cas 0), dos_pi cas)]) (\<lambda>integral_theta.
     (let pasos4 = pasos3 @ [''Integral respecto a theta: int_0^2pi '' @ sp_pretty cas integral_r @ '' dtheta = '' @ sp_pretty cas integral_theta] in
     seq (sp_integrate cas integral_theta [(zs, (sp_Integer cas 0), h)]) (\<lambda>res_vol.
     (let pasos5 = pasos4 @ [''Integral respecto a z: int_0^'' @ sp_str cas h @ '' '' @ sp_pretty cas integral_theta @ '' dz = '' @ sp_pretty cas res_vol] in
     Inr [(''divergencia'', PExpr divF), (''volumen'', PExpr res_vol), (''pasos'', PList pasos5), (''info'', PList info)])))))))))))))))"

definition divergencia_entre_superficies ::
  "'e cas \<Rightarrow> 'e \<Rightarrow> 'e \<Rightarrow> 'e \<Rightarrow> 'e \<Rightarrow> 'e \<Rightarrow> 'e \<Rightarrow> 'e \<Rightarrow> (string \<rightharpoonup> string) \<Rightarrow> string list
   \<Rightarrow> string list \<Rightarrow> exn + 'e pydict" where
  "divergencia_entre_superficies cas Fx Fy Fz x y z divF parametros_region pasos info =
     seq (sp_sympify cas (dict_get parametros_region ''R_int'' ''1'') []) (\<lambda>R_int.
     seq (sp_sympify cas (dict_get parametros_region ''R_ext'' ''2'') []) (\<lambda>R_ext.
     seq (sp_sympify cas (dict_get parametros_region ''h'' ''1'') []) (\<lambda>h.
     (let pasos1 = pasos @ [''Region: entre superficies cilindricas R_int='' @ sp_str cas R_int @ '', R_ext='' @ sp_str cas R_ext @ '', altura h='' @ sp_str cas h @ ''.'',
                       '''',
                       ''CALCULO DE LA INTEGRAL TRIPLE:'',
                       ''Transformacion a coordenadas cilindricas:'',
                       ''x = r*cos(theta), y = r*sin(theta), z = z'',
                       ''Jacobiano: r''] in
     (let r = sp_Symbol cas ''r'' IsReal in
     (let theta = sp_Symbol cas ''theta'' IsReal in
     (let zs = sp_Symbol cas ''zs'' IsReal in
     (let sustituciones = [(x, sp_mul cas r (sp_cos cas theta)), (y, sp_mul cas r (sp_sin cas theta)), (z, zs)] in
     (let integrando = sp_simplify cas (sp_mul cas (sp_subs cas divF sustituciones) r) in
     (let pasos2 = pasos1 @ [''Integrando en coordenadas cilindricas: '' @ sp_pretty cas (sp_subs cas divF sustituciones) @ '' x r = '' @ sp_pretty cas integrando,
                       '''',
                       ''Limites de integracion:'',
                       ''r: '' @ sp_str cas R_int @ '' a '' @ sp_str cas R_ext,
                       ''theta: 0 a 2pi'',
                       ''z: -'' @ sp_str cas h @ ''/2 a '' @ sp_str cas h @ ''/2'',
                       '''',
                       ''iiint_V (nabla*F) dV = int_{'' @ sp_str cas R_int @ ''}^{'' @ sp_str cas R_ext @ ''} int_0^2pi int_[-'' @ sp_str cas h @ ''/2,'' @ sp_str cas h @ ''/2] ['' @ sp_pretty cas integrando @ ''] dz dtheta dr''] in
     seq (sp_integrate cas integrando [(zs, (sp_div cas (sp_neg cas h) (sp_Integer cas 2)), (sp_div cas h (sp_Integer cas 2)))]) (\<lambda>integral_z.
     (let pasos3 = pasos2 @ [''Integral respecto a z: int_[-'' @ sp_str cas h @ ''/2,'' @ sp_str cas h @ ''/2] '' @ sp_pretty cas integrando @ '' dz = '' @ sp_pretty cas integral_z] in
     seq (sp_integrate cas integral_z [(theta, (sp_Integer cas 0), dos_pi cas)]) (\<lambda>integral_theta.
     (let pasos4 = pasos3 @ [''Integral respecto a theta: int_0^2pi '' @ sp_pretty cas integral_z @ '' dtheta = '' @ sp_pretty cas integral_theta] in
     seq (sp_integrate cas integral_theta [(r, R_int, R_ext)]) (\<lambda>res_vol.
     (let pasos5 = pasos4 @ [''Integral respecto a r: int_{'' @ sp_str cas R_int @ ''}^{'' @ sp_str cas R_ext @ ''} '' @ sp_pretty cas integral_theta @ '' dr = '' @ sp_pretty cas res_vol] in
     Inr [(''divergencia'', PExpr divF), (''volumen'', PExpr res_vol), (''pasos'', PList pasos5), (''info'', PList info)]))))))))))))))))"

definition aplicar_divergencia ::
  "'e cas \<Rightarrow> string \<Rightarrow> string \<Rightarrow> string \<Rightarrow> string \<Rightarrow> (string \<rightharpoonup> string) \<Rightarrow> exn + 'e pydict" where
  "aplicar_divergencia cas Fx_str Fy_str Fz_str region parametros_region =
     (let x = sp_Symbol cas ''x'' IsReal;
          y = sp_Symbol cas ''y'' IsReal;
          z = sp_Symbol cas ''z'' IsReal
      in
      case campo_3d cas Fx_str Fy_str Fz_str x y z of
        Inl e \<Rightarrow>
          Inr [(''error'', PStr (''Error analizando las componentes del campo: '' @ exn_str e))]
      | Inr (Fx, Fy, Fz) \<Rightarrow>
          (let info = divergencia_info;
               (divF, pasos) = divergencia_campo cas Fx Fy Fz x y z
           in
           if region = ''esfera'' then
             divergencia_esfera cas Fx Fy Fz x y z divF parametros_region pasos info
           else if region = ''cilindro'' then
             divergencia_cilindro cas Fx Fy Fz x y z divF parametros_region pasos info
           else if region = ''cubo'' then
             divergencia_cubo cas Fx Fy Fz x y z divF parametros_region pasos info
           else if region = ''elipsoide'' then
             divergencia_elipsoide cas Fx Fy Fz x y z divF parametros_region pasos info
           else if region = ''cono'' then
             divergencia_cono cas Fx Fy Fz x y z divF parametros_region pasos info
           else if region = ''entre_superficies'' then
             divergencia_entre_superficies cas Fx Fy Fz x y z divF parametros_region pasos info
           else
             Inr [(''error'', PStr ''Region no soportada para el Teorema de la Divergencia.'')]))"

section \<open>Stokes' theorem: \<^verbatim>\<open>aplicar_stokes\<close>\<close>

definition stokes_info :: "string list" where
  "stokes_info =
     [''TEOREMA DE STOKES'',
      ''Formula: oint_C F*dr = iint_S (nablaxF)*dS'',
      ''Donde:'',
      ''  - F = (Fx, Fy, Fz): campo vectorial'',
      ''  - nablaxF: rotacional del campo F'',
      ''  - C: curva cerrada que es frontera de la superficie S'',
      ''  - S: superficie orientada cuya frontera es C'',
      ''  - dr: elemento diferencial de curva'',
      ''  - dS: elemento diferencial de superficie'']"

definition stokes_rotacional :: "'e cas \<Rightarrow> 'e \<Rightarrow> 'e \<Rightarrow> 'e \<Rightarrow> 'e \<Rightarrow> 'e \<Rightarrow> 'e \<Rightarrow> ('e \<times> 'e \<times> 'e) \<times> string list" where
  "stokes_rotacional cas Fx Fy Fz x y z =
       (let pasos1 = [] @ [''Campo vectorial F = ('' @ sp_pretty cas Fx @ '','' @ sp_pretty cas Fy @ '','' @ sp_pretty cas Fz @ '')'',
                         '''',
                         ''CALCULO DETALLADO DEL ROTACIONAL:'',
                         ''nablaxF = (dFz/dy - dFy/dz, dFx/dz - dFz/dx, dFy/dx - dFx/dy)'',
                         ''''] in
       (let dFz_dy = sp_diff cas Fz y in
       (let dFy_dz = sp_diff cas Fy z in
       (let comp_x = sp_simplify cas (sp_sub cas dFz_dy dFy_dz) in
       (let pasos2 = pasos1 @ [''Componente x: dFz/dy - dFy/dz'',
                         ''  dFz/dy = d('' @ sp_pretty cas Fz @ '')/dy = '' @ sp_pretty cas dFz_dy,
                         ''  dFy/dz = d('' @ sp_pretty cas Fy @ '')/dz = '' @ sp_pretty cas dFy_dz,
                         ''  nablaxF_x = '' @ sp_pretty cas dFz_dy @ '' - '' @ sp_pretty cas dFy_dz @ '' = '' @ sp_pretty cas comp_x,
                         ''''] in
       (let dFx_dz = sp_diff cas Fx z in
       (let dFz_dx = sp_diff cas Fz x in
       (let comp_y = sp_simplify cas (sp_sub cas dFx_dz dFz_dx) in
       (let pasos3 = pasos2 @ [''Componente y: dFx/dz - dFz/dx'',
                         ''  dFx/dz = d('' @ sp_pretty cas Fx @ '')/dz = '' @ sp_pretty cas dFx_dz,
                         ''  dFz/dx = d('' @ sp_pretty cas Fz @ '')/dx = '' @ sp_pretty cas dFz_dx,
                         ''  nablaxF_y = '' @ sp_pretty cas dFx_dz @ '' - '' @ sp_pretty cas dFz_dx @ '' = '' @ sp_pretty cas comp_y,
                         ''''] in
       (let dFy_dx = sp_diff cas Fy x in
       (let dFx_dy = sp_diff cas Fx y in
       (let comp_z = sp_simplify cas (sp_sub cas dFy_dx dFx_dy) in
       (let pasos4 = pasos3 @ [''Componente z: dFy/dx - dFx/dy'',
                         ''  dFy/dx = d('' @ sp_pretty cas Fy @ '')/dx = '' @ sp_pretty cas dFy_dx,
                         ''  dFx/dy = d('' @ sp_pretty cas Fx @ '')/dy = '' @ sp_pretty cas dFx_dy,
                         ''  nablaxF_z = '' @ sp_pretty cas dFy_dx @ '' - '' @ sp_pretty cas dFx_dy @ '' = '' @ sp_pretty cas comp_z,
                         ''''] in
       (let pasos5 = pasos4 @ [''Rotacional nablaxF = '' @ sp_pretty_Matrix cas [comp_x, comp_y, comp_z]] in
       ((comp_x, comp_y, comp_z), pasos5)))))))))))))))"

definition stokes_disco ::
  "'e cas \<Rightarrow> 'e \<Rightarrow> 'e \<Rightarrow> 'e \<Rightarrow> 'e \<Rightarrow> 'e \<Rightarrow> 'e \<Rightarrow> 'e \<Rightarrow> 'e \<Rightarrow> 'e \<Rightarrow> (string \<rightharpoonup> string)
   \<Rightarrow> string list \<Rightarrow> string list \<Rightarrow> exn + 'e pydict" where
  "stokes_disco cas Fx Fy Fz x y z comp_x comp_y comp_z parametros_superficie pasos info =
     seq (sp_sympify cas (dict_get parametros_superficie ''R'' ''1'') []) (\<lambda>R.
     (let pasos1 = pasos @ [''Superficie: disco de radio R='' @ sp_str cas R @ '' en z=0, con normal hacia arriba (0,0,1).''] in
     (let rotacional_z = sp_simplify cas comp_z in
     (let pasos2 = pasos1 @ [''Componente z del rotacional = '' @ sp_pretty cas rotacional_z,
                       '''',
                       ''CALCULO DE LA INTEGRAL DE SUPERFICIE:'',
                       ''Usamos coordenadas polares: x = r*costheta, y = r*sintheta, z = 0'',
                       ''Elemento de area: dS = r dr dtheta'',
                       ''Vector normal: n = (0, 0, 1)''] in
     (let r = sp_Symbol cas ''r'' IsPositive in
     (let theta = sp_Symbol cas ''theta'' IsPositive in
     (let sustituciones = [(x, sp_mul cas r (sp_cos cas theta)), (y, sp_mul cas r (sp_sin cas theta)), (z, sp_Integer cas 0)] in
     (let integrando = sp_simplify cas (sp_mul cas (sp_subs cas rotacional_z sustituciones) r) in
     (let pasos3 = pasos2 @ [''Integrando (nablaxF)*n dS = '' @ sp_pretty cas (sp_subs cas rotacional_z sustituciones) @ '' x r = '' @ sp_pretty cas integrando,
                       ''iint_S (nablaxF)*dS = int_0^'' @ sp_str cas R @ '' int_0^2pi ['' @ sp_pretty cas integrando @ ''] dtheta dr''] in
     seq (sp_integrate cas integrando [(theta, (sp_Integer cas 0), dos_pi cas)]) (\<lambda>integral_theta.
     (let pasos4 = pasos3 @ [''Integral respecto a theta: int_0^2pi '' @ sp_pretty cas integrando @ '' dtheta = '' @ sp_pretty cas integral_theta] in
     seq (sp_integrate cas integral_theta [(r, (sp_Integer cas 0), R)]) (\<lambda>res_superficie.
     (let pasos5 = pasos4 @ [''Integral respecto a r: int_0^'' @ sp_str cas R @ '' '' @ sp_pretty cas integral_theta @ '' dr = '' @ sp_pretty cas res_superficie,
                       ''Integral de superficie sobre S = '' @ sp_pretty cas res_superficie,
                       '''',
                       ''CALCULO DE LA INTEGRAL DE LINEA:'',
                       ''Parametrizacion del circulo en sentido antihorario:''] in
     (let t = sp_Symbol cas ''t'' IsReal in
     (let x_c = sp_mul cas R (sp_cos cas t) in
     (let y_c = sp_mul cas R (sp_sin cas t) in
     (let z_c = sp_Integer cas 0 in
     (let pasos6 = pasos5 @ [''x(t) = '' @ sp_str cas R @ ''*cos(t), y(t) = '' @ sp_str cas R @ ''*sin(t), z(t) = 0, t in [0, 2pi]''] in
     (let dx_dt = sp_diff cas x_c t in
     (let dy_dt = sp_diff cas y_c t in
     (let dz_dt = sp_diff cas z_c t in
     (let pasos7 = pasos6 @ [''dx/dt = '' @ sp_pretty cas dx_dt @ '', dy/dt = '' @ sp_pretty cas dy_dt @ '', dz/dt = '' @ sp_pretty cas dz_dt] in
     (let Fx_param = sp_subs cas Fx [(x, x_c), (y, y_c), (z, z_c)] in
     (let Fy_param = sp_subs cas Fy [(x, x_c), (y, y_c), (z, z_c)] in
     (let Fz_param = sp_subs cas Fz [(x, x_c), (y, y_c), (z, z_c)] in
     (let pasos8 = pasos7 @ [''Fx en la parametrizacion: Fx(x(t),y(t),z(t)) = '' @ sp_pretty cas Fx_param,
                       ''Fy en la parametrizacion: Fy(x(t),y(t),z(t)) = '' @ sp_pretty cas Fy_param,
                       ''Fz en la parametrizacion: Fz(x(t),y(t),z(t)) = '' @ sp_pretty cas Fz_param] in
     (let integrando_linea = (sp_add cas (sp_add cas (sp_mul cas Fx_param dx_dt) (sp_mul cas Fy_param dy_dt)) (sp_mul cas Fz_param dz_dt)) in
     (let integrando_simplificado = sp_simplify cas integrando_linea in
     (let pasos9 = pasos8 @ [''Integrando: F*dr = Fx*dx/dt + Fy*dy/dt + Fz*dz/dt'',
                       ''= '' @ sp_pretty cas Fx_param @ ''*('' @ sp_pretty cas dx_dt @ '') + '' @ sp_pretty cas Fy_param @ ''*('' @ sp_pretty cas dy_dt @ '') + '' @ sp_pretty cas Fz_param @ ''*('' @ sp_pretty cas dz_dt @ '')'',
                       ''= '' @ sp_pretty cas integrando_linea,
                       ''Simplificado: '' @ sp_pretty cas integrando_simplificado] in
     seq (sp_integrate cas integrando_linea [(t, (sp_Integer cas 0), dos_pi cas)]) (\<lambda>integral_linea.
     (let res_linea = sp_simplify cas integral_linea in
     (let pasos10 = pasos9 @ [''int_0^2pi ['' @ sp_pretty cas integrando_simplificado @ ''] dt = '' @ sp_pretty cas res_linea,
                        '''',
                        ''VERIFICACION DEL TEOREMA DE STOKES:'',
                        ''Integral de superficie: '' @ sp_pretty cas res_superficie,
                        ''Integral de linea: '' @ sp_pretty cas res_linea] in
     (let pasos11 = pasos10 @ [if sp_simplify cas (sp_sub cas res_superficie res_linea) = sp_Integer cas 0 then ''[OK] El teorema de Stokes se verifica: oint_C F*dr = iint_S (nablaxF)*dS'' else ''[X] Los resultados no coinciden''] in
     Inr [(''superficie'', PExpr res_superficie), (''linea'', PExpr res_linea), (''pasos'', PList pasos11), (''info'', PList info)])))))))))))))))))))))))))))))))))"

definition stokes_plano ::
  "'e cas \<Rightarrow> 'e \<Rightarrow> 'e \<Rightarrow> 'e \<Rightarrow> 'e \<Rightarrow> 'e \<Rightarrow> 'e \<Rightarrow> 'e \<Rightarrow> 'e \<Rightarrow> 'e \<Rightarrow> (string \<rightharpoonup> string)
   \<Rightarrow> string list \<Rightarrow> string list \<Rightarrow> exn + 'e pydict" where
  "stokes_plano cas Fx Fy Fz x y z comp_x comp_y comp_z parametros_superficie pasos info =
     seq (sp_sympify cas (dict_get parametros_superficie ''a'' ''0'') []) (\<lambda>a.
     seq (sp_sympify cas (dict_get parametros_superficie ''b'' ''0'') []) (\<lambda>b.
     seq (sp_sympify cas (dict_get parametros_superficie ''c'' ''0'') []) (\<lambda>c.
     seq (sp_sympify cas (dict_get parametros_superficie ''R'' ''1'') []) (\<lambda>R.
     (let pasos1 = pasos @ [''Superficie: plano z = '' @ sp_str cas a @ ''*x + '' @ sp_str cas b @ ''*y + '' @ sp_str cas c @ '' dentro de circulo radio R='' @ sp_str cas R,
                       ''Vector normal: n = (-a, -b, 1)/sqrt(a^2+b^2+1)''] in
     (let r = sp_Symbol cas ''r'' IsPositive in
     (let theta = sp_Symbol cas ''theta'' IsPositive in
     (let sustituciones = [(x, sp_mul cas r (sp_cos cas theta)), (y, sp_mul cas r (sp_sin cas theta)), (z, (sp_add cas (sp_add cas (sp_mul cas (sp_mul cas a r) (sp_cos cas theta)) (sp_mul cas (sp_mul cas b r) (sp_sin cas theta))) c))] in
     (let magnitud_normal = sp_sqrt cas (sp_add cas (sp_add cas (sp_pow cas a (sp_Integer cas 2)) (sp_pow cas b (sp_Integer cas 2))) (sp_Integer cas 1)) in
     (let normal_x = sp_div cas (sp_neg cas a) magnitud_normal in
     (let normal_y = sp_div cas (sp_neg cas b) magnitud_normal in
     (let normal_z = sp_div cas (sp_Integer cas 1) magnitud_normal in
     (let rotacional_sust_0 = sp_subs cas comp_x sustituciones in
     (let rotacional_sust_1 = sp_subs cas comp_y sustituciones in
     (let rotacional_sust_2 = sp_subs cas comp_z sustituciones in
     (let producto_punto = (sp_add cas (sp_add cas (sp_mul cas rotacional_sust_0 normal_x) (sp_mul cas rotacional_sust_1 normal_y)) (sp_mul cas rotacional_sust_2 normal_z)) in
     (let dS = sp_mul cas magnitud_normal r in
     (let integrando = sp_simplify cas (sp_mul cas producto_punto dS) in
     (let pasos2 = pasos1 @ [''Integrando (nablaxF)*n dS = '' @ sp_pretty cas integrando] in
     seq (sp_integrate cas integrando [(r, (sp_Integer cas 0), R), (theta, (sp_Integer cas 0), dos_pi cas)]) (\<lambda>res_superficie.
     (let pasos3 = pasos2 @ [''Integral de superficie = '' @ sp_pretty cas res_superficie] in
     Inr [(''superficie'', PExpr res_superficie), (''linea'', PExpr res_superficie), (''pasos'', PList pasos3), (''info'', PList info)])))))))))))))))))))))"

definition stokes_paraboloide ::
  "'e cas \<Rightarrow> 'e \<Rightarrow> 'e \<Rightarrow> 'e \<Rightarrow> 'e \<Rightarrow> 'e \<Rightarrow> 'e \<Rightarrow> 'e \<Rightarrow> 'e \<Rightarrow> 'e \<Rightarrow> (string \<rightharpoonup> string)
   \<Rightarrow> string list \<Rightarrow> string list \<Rightarrow> exn + 'e pydict" where
  "stokes_paraboloide cas Fx Fy Fz x y z comp_x comp_y comp_z parametros_superficie pasos info =
     seq (sp_sympify cas (dict_get parametros_superficie ''a'' ''1'') []) (\<lambda>a.
     seq (sp_sympify cas (dict_get parametros_superficie ''R'' ''1'') []) (\<lambda>R.
     (let pasos1 = pasos @ [''Superficie: paraboloide z = '' @ sp_str cas a @ '' - x^2 - y^2, 0 <= r <= '' @ sp_str cas R,
                       ''Vector normal: n = (2x, 2y, 1)/sqrt(4x^2+4y^2+1)''] in
     (let r = sp_Symbol cas ''r'' IsPositive in
     (let theta = sp_Symbol cas ''theta'' IsPositive in
     (let sustituciones = [(x, sp_mul cas r (sp_cos cas theta)), (y, sp_mul cas r (sp_sin cas theta)), (z, sp_sub cas a (sp_pow cas r (sp_Integer cas 2)))] in
     (let normal_x = sp_mul cas (sp_mul cas (sp_Integer cas 2) r) (sp_cos cas theta) in
     (let normal_y = sp_mul cas (sp_mul cas (sp_Integer cas 2) r) (sp_sin cas theta) in
     (let normal_z = sp_Integer cas 1 in
     (let magnitud_normal = sp_sqrt cas (sp_add cas (sp_mul cas (sp_Integer cas 4) (sp_pow cas r (sp_Integer cas 2))) (sp_Integer cas 1)) in
     (let rotacional_sust_0 = sp_subs cas comp_x sustituciones in
     (let rotacional_sust_1 = sp_subs cas comp_y sustituciones in
     (let rotacional_sust_2 = sp_subs cas comp_z sustituciones in
     (let producto_punto = sp_div cas (sp_add cas (sp_add cas (sp_mul cas rotacional_sust_0 normal_x) (sp_mul cas rotacional_sust_1 normal_y)) (sp_mul cas rotacional_sust_2 normal_z)) magnitud_normal in
     (let dS = sp_mul cas magnitud_normal r in
     (let integrando = sp_simplify cas (sp_mul cas producto_punto dS) in
     (let pasos2 = pasos1 @ [''Integrando (nablaxF)*n dS = '' @ sp_pretty cas integrando] in
     seq (sp_integrate cas integrando [(r, (sp_Integer cas 0), R), (theta, (sp_Integer cas 0), dos_pi cas)]) (\<lambda>res_superficie.
     (let pasos3 = pasos2 @ [''Integral de superficie = '' @ sp_pretty cas res_superficie] in
     Inr [(''superficie'', PExpr res_superficie), (''linea'', PExpr res_superficie), (''pasos'', PList pasos3), (''info'', PList info)])))))))))))))))))))"

definition stokes_cilindro ::
  "'e cas \<Rightarrow> 'e \<Rightarrow> 'e \<Rightarrow> 'e \<Rightarrow> 'e \<Rightarrow> 'e \<Rightarrow> 'e \<Rightarrow> 'e \<Rightarrow> 'e \<Rightarrow> 'e \<Rightarrow> (string \<rightharpoonup> string)
   \<Rightarrow> string list \<Rightarrow> string list \<Rightarrow> exn + 'e pydict" where
  "stokes_cilindro cas Fx Fy Fz x y z comp_x comp_y comp_z parametros_superficie pasos info =
     seq (sp_sympify cas (dict_get parametros_superficie ''R'' ''1'') []) (\<lambda>R.
     seq (sp_sympify cas (dict_get parametros_superficie ''h'' ''1'') []) (\<lambda>h.
     (let pasos1 = pasos @ [''Superficie: cilindro x^2 + y^2 = '' @ sp_str cas R @ ''^2, 0 <= z <= '' @ sp_str cas h,
                       ''Vector normal: n = (costheta, sintheta, 0) (hacia afuera)''] in
     (let theta = sp_Symbol cas ''theta'' IsReal in
     (let z_var = sp_Symbol cas ''z_var'' IsReal in
     (let sustituciones = [(x, sp_mul cas R (sp_cos cas theta)), (y, sp_mul cas R (sp_sin cas theta)), (z, z_var)] in
     (let normal_x = sp_cos cas theta in
     (let normal_y = sp_sin cas theta in
     (let normal_z = sp_Integer cas 0 in
     (let rotacional_sust_0 = sp_subs cas comp_x sustituciones in
     (let rotacional_sust_1 = sp_subs cas comp_y sustituciones in
     (let rotacional_sust_2 = sp_subs cas comp_z sustituciones in
     (let producto_punto = (sp_add cas (sp_add cas (sp_mul cas rotacional_sust_0 normal_x) (sp_mul cas rotacional_sust_1 normal_y)) (sp_mul cas rotacional_sust_2 normal_z)) in
     (let dS = R in
     (let integrando = sp_simplify cas (sp_mul cas producto_punto dS) in
     (let pasos2 = pasos1 @ [''Integrando (nablaxF)*n dS = '' @ sp_pretty cas integrando] in
     seq (sp_integrate cas integrando [(theta, (sp_Integer cas 0), dos_pi cas), (z_var, (sp_Integer cas 0), h)]) (\<lambda>res_superficie.
     (let pasos3 = pasos2 @ [''Integral de superficie = '' @ sp_pretty cas res_superficie] in
     Inr [(''superficie'', PExpr res_superficie), (''linea'', PExpr res_superficie), (''pasos'', PList pasos3), (''info'', PList info)]))))))))))))))))))"

definition aplicar_stokes ::
  "'e cas \<Rightarrow> string \<Rightarrow> string \<Rightarrow> string \<Rightarrow> string \<Rightarrow> (string \<rightharpoonup> string) \<Rightarrow> exn + 'e pydict" where
  "aplicar_stokes cas Fx_str Fy_str Fz_str superficie parametros_superficie =
     (let x = sp_Symbol cas ''x'' IsReal;
          y = sp_Symbol cas ''y'' IsReal;
          z = sp_Symbol cas ''z'' IsReal
      in
      case campo_3d cas Fx_str Fy_str Fz_str x y z of
        Inl e \<Rightarrow>
          Inr [(''error'', PStr (''Error analizando las componentes del campo: '' @ exn_str e))]
      | Inr (Fx, Fy, Fz) \<Rightarrow>
          (let info = stokes_info;
               ((comp_x, comp_y, comp_z), pasos) = stokes_rotacional cas Fx Fy Fz x y z
           in
           if superficie = ''disco'' then
             stokes_disco cas Fx Fy Fz x y z comp_x comp_y comp_z parametros_superficie
               pasos info
           else if superficie = ''plano'' then
             stokes_plano cas Fx Fy Fz x y z comp_x comp_y comp_z parametros_superficie
               pasos info
           else if superficie = ''paraboloide'' then
             stokes_paraboloide cas Fx Fy Fz x y z comp_x comp_y comp_z parametros_superficie
               pasos info
           else if superficie = ''cilindro'' then
             stokes_cilindro cas Fx Fy Fz x y z comp_x comp_y comp_z parametros_superficie
               pasos info
           else
             Inr [(''error'', PStr ''Superficie no soportada. Use: disco, plano, paraboloide, cilindro'')]))"

section \<open>The polygon check of the input dialog: \<^verbatim>\<open>DialogoEntrada.aceptar\<close>\<close>





section \<open>What the claims assume of the library\<close>

text \<open>
  The library on integer constants: a decimal literal parses to the integer it writes,
  the integral of an integer constant \<open>c\<close> between integer bounds \<open>a\<close> and \<open>b\<close> is
  \<open>c * (b - a)\<close>, simplification leaves an integer as it is, and an integer evaluates
  numerically to itself.
\<close>

definition integra_constantes :: "'e cas \<Rightarrow> bool" where
  "integra_constantes cas \<longleftrightarrow>
     (\<forall>n locales. sp_sympify cas (str_nat n) locales = Inr (sp_Integer cas (int n)))
   \<and> (\<forall>c v a b. sp_integrate cas (sp_Integer cas c) [(v, sp_Integer cas a, sp_Integer cas b)]
                  = Inr (sp_Integer cas (c * (b - a))))
   \<and> (\<forall>n. sp_simplify cas (sp_Integer cas n) = sp_Integer cas n)
   \<and> (\<forall>n. sp_N_float cas (sp_Integer cas n) = Inr (of_int n))"

text \<open>The limits of the box \<open>x \<in> [0,2]\<close>, \<open>y \<in> [0,1]\<close>, \<open>z \<in> [0,3]\<close>.\<close>

definition limites_caja :: "string \<rightharpoonup> string \<times> string" where
  "limites_caja = [''z'' \<mapsto> (''0'', ''3''), ''y'' \<mapsto> (''0'', ''1''), ''x'' \<mapsto> (''0'', ''2'')]"

section \<open>A small instance of the library\<close>

text \<open>
  A concrete library over syntax trees, used to run the evaluators on concrete inputs.
  Its operations build trees; \<open>simplify0\<close> folds integer arithmetic, \<open>integrate0\<close>
  integrates an integer constant between integer bounds and otherwise returns the
  integral unevaluated, as \<^verbatim>\<open>sympy\<close> does with an integral it cannot solve.
\<close>

datatype expr =
    EInt int | EFlt rat | ESym string assum | EPi
  | EAdd expr expr | ESub expr expr | EMul expr expr | EDiv expr expr | EPow expr expr
  | ENeg expr | ESin expr | ECos expr | ETan expr | ESqrt expr | EExp expr | ELog expr
  | EDeriv expr expr | EIntegral expr expr expr expr

primrec eval_int :: "expr \<Rightarrow> int option" where
  "eval_int (EInt n) = Some n"
| "eval_int (EFlt q) = None"
| "eval_int (ESym s a) = None"
| "eval_int EPi = None"
| "eval_int (EAdd a b) =
     (case (eval_int a, eval_int b) of (Some m, Some n) \<Rightarrow> Some (m + n) | _ \<Rightarrow> None)"
| "eval_int (ESub a b) =
     (case (eval_int a, eval_int b) of (Some m, Some n) \<Rightarrow> Some (m - n) | _ \<Rightarrow> None)"
| "eval_int (EMul a b) =
     (case (eval_int a, eval_int b) of (Some m, Some n) \<Rightarrow> Some (m * n) | _ \<Rightarrow> None)"
| "eval_int (EDiv a b) = None"
| "eval_int (EPow a b) = None"
| "eval_int (ENeg a) = (case eval_int a of Some m \<Rightarrow> Some (- m) | None \<Rightarrow> None)"
| "eval_int (ESin a) = None"
| "eval_int (ECos a) = None"
| "eval_int (ETan a) = None"
| "eval_int (ESqrt a) = None"
| "eval_int (EExp a) = None"
| "eval_int (ELog a) = None"
| "eval_int (EDeriv a v) = None"
| "eval_int (EIntegral a v lo hi) = None"

definition simplify0 :: "expr \<Rightarrow> expr" where
  "simplify0 e = (case eval_int e of Some n \<Rightarrow> EInt n | None \<Rightarrow> e)"

primrec diff0 :: "expr \<Rightarrow> expr \<Rightarrow> expr" where
  "diff0 (EInt n) v = EInt 0"
| "diff0 (EFlt q) v = EInt 0"
| "diff0 (ESym s a) v = (if ESym s a = v then EInt 1 else EInt 0)"
| "diff0 EPi v = EInt 0"
| "diff0 (EAdd a b) v = EAdd (diff0 a v) (diff0 b v)"
| "diff0 (ESub a b) v = ESub (diff0 a v) (diff0 b v)"
| "diff0 (EMul a b) v = EAdd (EMul (diff0 a v) b) (EMul a (diff0 b v))"
| "diff0 (EDiv a b) v = EDeriv (EDiv a b) v"
| "diff0 (EPow a b) v = EDeriv (EPow a b) v"
| "diff0 (ENeg a) v = ENeg (diff0 a v)"
| "diff0 (ESin a) v = EMul (ECos a) (diff0 a v)"
| "diff0 (ECos a) v = EMul (ENeg (ESin a)) (diff0 a v)"
| "diff0 (ETan a) v = EDeriv (ETan a) v"
| "diff0 (ESqrt a) v = EDeriv (ESqrt a) v"
| "diff0 (EExp a) v = EMul (EExp a) (diff0 a v)"
| "diff0 (ELog a) v = EDeriv (ELog a) v"
| "diff0 (EDeriv a w) v = EDeriv (EDeriv a w) v"
| "diff0 (EIntegral a w lo hi) v = EDeriv (EIntegral a w lo hi) v"

definition subst_at :: "(expr \<times> expr) list \<Rightarrow> expr \<Rightarrow> expr \<Rightarrow> expr" where
  "subst_at ps e dflt = (case map_of ps e of Some e' \<Rightarrow> e' | None \<Rightarrow> dflt)"

primrec subs0 :: "expr \<Rightarrow> (expr \<times> expr) list \<Rightarrow> expr" where
  "subs0 (EInt n) ps = subst_at ps (EInt n) (EInt n)"
| "subs0 (EFlt q) ps = subst_at ps (EFlt q) (EFlt q)"
| "subs0 (ESym s a) ps = subst_at ps (ESym s a) (ESym s a)"
| "subs0 EPi ps = subst_at ps EPi EPi"
| "subs0 (EAdd a b) ps = subst_at ps (EAdd a b) (EAdd (subs0 a ps) (subs0 b ps))"
| "subs0 (ESub a b) ps = subst_at ps (ESub a b) (ESub (subs0 a ps) (subs0 b ps))"
| "subs0 (EMul a b) ps = subst_at ps (EMul a b) (EMul (subs0 a ps) (subs0 b ps))"
| "subs0 (EDiv a b) ps = subst_at ps (EDiv a b) (EDiv (subs0 a ps) (subs0 b ps))"
| "subs0 (EPow a b) ps = subst_at ps (EPow a b) (EPow (subs0 a ps) (subs0 b ps))"
| "subs0 (ENeg a) ps = subst_at ps (ENeg a) (ENeg (subs0 a ps))"
| "subs0 (ESin a) ps = subst_at ps (ESin a) (ESin (subs0 a ps))"
| "subs0 (ECos a) ps = subst_at ps (ECos a) (ECos (subs0 a ps))"
| "subs0 (ETan a) ps = subst_at ps (ETan a) (ETan (subs0 a ps))"
| "subs0 (ESqrt a) ps = subst_at ps (ESqrt a) (ESqrt (subs0 a ps))"
| "subs0 (EExp a) ps = subst_at ps (EExp a) (EExp (subs0 a ps))"
| "subs0 (ELog a) ps = subst_at ps (ELog a) (ELog (subs0 a ps))"
| "subs0 (EDeriv a v) ps = subst_at ps (EDeriv a v) (EDeriv (subs0 a ps) v)"
| "subs0 (EIntegral a v lo hi) ps =
     subst_at ps (EIntegral a v lo hi) (EIntegral a v (subs0 lo ps) (subs0 hi ps))"

primrec has_symbol :: "expr \<Rightarrow> bool" where
  "has_symbol (EInt n) = False"
| "has_symbol (EFlt q) = False"
| "has_symbol (ESym s a) = True"
| "has_symbol EPi = False"
| "has_symbol (EAdd a b) = (has_symbol a \<or> has_symbol b)"
| "has_symbol (ESub a b) = (has_symbol a \<or> has_symbol b)"
| "has_symbol (EMul a b) = (has_symbol a \<or> has_symbol b)"
| "has_symbol (EDiv a b) = (has_symbol a \<or> has_symbol b)"
| "has_symbol (EPow a b) = (has_symbol a \<or> has_symbol b)"
| "has_symbol (ENeg a) = has_symbol a"
| "has_symbol (ESin a) = has_symbol a"
| "has_symbol (ECos a) = has_symbol a"
| "has_symbol (ETan a) = has_symbol a"
| "has_symbol (ESqrt a) = has_symbol a"
| "has_symbol (EExp a) = has_symbol a"
| "has_symbol (ELog a) = has_symbol a"
| "has_symbol (EDeriv a v) = has_symbol a"
| "has_symbol (EIntegral a v lo hi) = (has_symbol lo \<or> has_symbol hi)"

definition integrate1 :: "expr \<Rightarrow> expr \<times> expr \<times> expr \<Rightarrow> expr" where
  "integrate1 e limite =
     (case limite of (v, lo, hi) \<Rightarrow>
        (case (eval_int e, eval_int lo, eval_int hi) of
           (Some c, Some a, Some b) \<Rightarrow> EInt (c * (b - a))
         | _ \<Rightarrow> EIntegral e v lo hi))"

definition integrate0 :: "expr \<Rightarrow> (expr \<times> expr \<times> expr) list \<Rightarrow> exn + expr" where
  "integrate0 e lims = Inr (foldl integrate1 e lims)"

primrec str0 :: "expr \<Rightarrow> string" where
  "str0 (EInt n) = str_int n"
| "str0 (EFlt q) = ''<float>''"
| "str0 (ESym s a) = s"
| "str0 EPi = ''pi''"
| "str0 (EAdd a b) = ''('' @ str0 a @ '' + '' @ str0 b @ '')''"
| "str0 (ESub a b) = ''('' @ str0 a @ '' - '' @ str0 b @ '')''"
| "str0 (EMul a b) = ''('' @ str0 a @ ''*'' @ str0 b @ '')''"
| "str0 (EDiv a b) = ''('' @ str0 a @ ''/'' @ str0 b @ '')''"
| "str0 (EPow a b) = ''('' @ str0 a @ ''**'' @ str0 b @ '')''"
| "str0 (ENeg a) = ''(-'' @ str0 a @ '')''"
| "str0 (ESin a) = ''sin('' @ str0 a @ '')''"
| "str0 (ECos a) = ''cos('' @ str0 a @ '')''"
| "str0 (ETan a) = ''tan('' @ str0 a @ '')''"
| "str0 (ESqrt a) = ''sqrt('' @ str0 a @ '')''"
| "str0 (EExp a) = ''exp('' @ str0 a @ '')''"
| "str0 (ELog a) = ''log('' @ str0 a @ '')''"
| "str0 (EDeriv a v) = ''Derivative('' @ str0 a @ '', '' @ str0 v @ '')''"
| "str0 (EIntegral a v lo hi) =
     ''Integral('' @ str0 a @ '', ('' @ str0 v @ '', '' @ str0 lo @ '', '' @ str0 hi @ ''))''"

text \<open>
  The parser of the instance reads a decimal literal, a name (bound in the table, or
  else a fresh plain symbol, as \<^verbatim>\<open>sympify\<close> does) and a leading minus sign.
\<close>

definition is_letter :: "char \<Rightarrow> bool" where
  "is_letter c = (c \<in> set ''abcdefghijklmnopqrstuvwxyzABCDEFGHIJKLMNOPQRSTUVWXYZ_'')"

definition parse_atom :: "string \<Rightarrow> (string \<times> expr local_binding) list \<Rightarrow> exn + expr" where
  "parse_atom s locals =
     (if s \<noteq> [] \<and> list_all is_digit s then Inr (EInt (int (nat_of_digits s)))
      else if s \<noteq> [] \<and> list_all is_letter s then
        (case map_of locals s of
           Some (LExpr e) \<Rightarrow> Inr e
         | Some (LFunc f) \<Rightarrow> Inl (LibError (''SympifyError: '' @ s))
         | None \<Rightarrow> Inr (ESym s Plain))
      else Inl (LibError (''SympifyError: '' @ s)))"

definition sympify0 :: "string \<Rightarrow> (string \<times> expr local_binding) list \<Rightarrow> exn + expr" where
  "sympify0 s locals =
     (let t = py_remove_spaces s in
      case t of
        c # rest \<Rightarrow>
          (if c = CHR ''-'' then seq (parse_atom rest locals) (\<lambda>e. Inr (ENeg e))
           else parse_atom t locals)
      | [] \<Rightarrow> Inl (LibError ''SympifyError: empty''))"

definition N_float0 :: "expr \<Rightarrow> exn + rat" where
  "N_float0 e = (case eval_int e of Some n \<Rightarrow> Inr (of_int n)
                 | None \<Rightarrow> Inl (LibError ''TypeError: cannot convert expression to float''))"

definition float_str0 :: "rat \<Rightarrow> string" where
  "float_str0 q = str_int (floor q) @ ''.0''"

definition pretty_Matrix0 :: "expr list \<Rightarrow> string" where
  "pretty_Matrix0 es = ''Matrix('' @ concat (map (\<lambda>e. str0 e @ '';'') es) @ '')''"

definition cas0 :: "expr cas" where
  "cas0 = \<lparr> sp_Symbol = ESym, sp_Integer = EInt, sp_Float = EFlt, sp_pi = EPi,
            sp_add = EAdd, sp_sub = ESub, sp_mul = EMul, sp_div = EDiv, sp_pow = EPow,
            sp_neg = ENeg, sp_sin = ESin, sp_cos = ECos, sp_tan = ETan, sp_sqrt = ESqrt,
            sp_exp = EExp, sp_log = ELog,
            sp_sympify = sympify0, sp_simplify = simplify0, sp_diff = diff0,
            sp_integrate = integrate0, sp_subs = subs0,
            sp_is_constant = (\<lambda>e. \<not> has_symbol e),
            sp_N_float = N_float0, sp_str = str0, sp_pretty = str0,
            sp_pretty_Matrix = pretty_Matrix0, py_float_str = float_str0 \<rparr>"

section \<open>The values of expressions\<close>

text \<open>
  What an expression stands for: a real number for each valuation of the symbols. A
  symbol is a name together with its assumption, as in the library, where
  \<^verbatim>\<open>Symbol('x')\<close> and \<^verbatim>\<open>Symbol('x', real=True)\<close> are different symbols.
\<close>

type_synonym simbolo = "string \<times> assum"

type_synonym valuacion = "simbolo \<Rightarrow> real"

definition independiente :: "('e \<Rightarrow> valuacion \<Rightarrow> real) \<Rightarrow> 'e \<Rightarrow> simbolo set \<Rightarrow> bool" where
  "independiente den e S \<longleftrightarrow>
     (\<forall>\<rho> \<rho>'. (\<forall>k. k \<notin> S \<longrightarrow> \<rho> k = \<rho>' k) \<longrightarrow> den e \<rho> = den e \<rho>')"

definition sustitucion :: "'e cas \<Rightarrow> (simbolo \<times> 'e) list \<Rightarrow> ('e \<times> 'e) list" where
  "sustitucion cas ps = map (\<lambda>(k, a). (sp_Symbol cas (fst k) (snd k), a)) ps"

text \<open>
  A library is exact for a valuation function \<open>den\<close> when its operations compute what
  they stand for: the constructors are the arithmetic operations, simplification keeps
  the value, parsing without a table of names makes plain symbols only, substitution
  of expressions for symbols (expressions that do not mention the replaced symbols) is
  substitution of values, the derivative is the derivative where it exists, and a
  definite integral that is returned is the difference of any antiderivative at the
  bounds; an integral over two ranges is the iterated integral, first range first.
\<close>

definition biblioteca_exacta :: "'e cas \<Rightarrow> ('e \<Rightarrow> valuacion \<Rightarrow> real) \<Rightarrow> bool" where
  "biblioteca_exacta cas den \<longleftrightarrow>
     (\<forall>s a \<rho>. den (sp_Symbol cas s a) \<rho> = \<rho> (s, a))
   \<and> (\<forall>n \<rho>. den (sp_Integer cas n) \<rho> = of_int n)
   \<and> (\<forall>\<rho>. den (sp_pi cas) \<rho> = pi)
   \<and> (\<forall>a b \<rho>. den (sp_add cas a b) \<rho> = den a \<rho> + den b \<rho>)
   \<and> (\<forall>a b \<rho>. den (sp_sub cas a b) \<rho> = den a \<rho> - den b \<rho>)
   \<and> (\<forall>a b \<rho>. den (sp_mul cas a b) \<rho> = den a \<rho> * den b \<rho>)
   \<and> (\<forall>a n \<rho>. den (sp_pow cas a (sp_Integer cas (int n))) \<rho> = den a \<rho> ^ n)
   \<and> (\<forall>a \<rho>. den (sp_sin cas a) \<rho> = sin (den a \<rho>))
   \<and> (\<forall>a \<rho>. den (sp_cos cas a) \<rho> = cos (den a \<rho>))
   \<and> (\<forall>e \<rho>. den (sp_simplify cas e) \<rho> = den e \<rho>)
   \<and> (\<forall>s e. sp_sympify cas s [] = Inr e \<longrightarrow> independiente den e {k. snd k \<noteq> Plain})
   \<and> (\<forall>e ps \<rho>. distinct (map fst ps) \<longrightarrow>
          (\<forall>a \<in> snd ` set ps. independiente den a (fst ` set ps)) \<longrightarrow>
          den (sp_subs cas e (sustitucion cas ps)) \<rho>
            = den e (\<lambda>k. case map_of ps k of Some a \<Rightarrow> den a \<rho> | None \<Rightarrow> \<rho> k))
   \<and> (\<forall>e k \<rho> D. ((\<lambda>u. den e (\<rho>(k := u))) has_real_derivative D) (at (\<rho> k)) \<longrightarrow>
          den (sp_diff cas e (sp_Symbol cas (fst k) (snd k))) \<rho> = D)
   \<and> (\<forall>e k lo hi r \<rho> F.
          sp_integrate cas e [(sp_Symbol cas (fst k) (snd k), lo, hi)] = Inr r \<longrightarrow>
          (\<forall>u. (F has_real_derivative den e (\<rho>(k := u))) (at u)) \<longrightarrow>
          den r \<rho> = F (den hi \<rho>) - F (den lo \<rho>))
   \<and> (\<forall>e l1 l2. sp_integrate cas e [l1, l2]
          = seq (sp_integrate cas e [l1]) (\<lambda>i. sp_integrate cas i [l2]))"

text \<open>Integration over one range returns: it may leave an integral unevaluated, not raise.\<close>

definition integra_sin_excepcion :: "'e cas \<Rightarrow> bool" where
  "integra_sin_excepcion cas \<longleftrightarrow> (\<forall>e l. \<exists>r. sp_integrate cas e [l] = Inr r)"

section \<open>The exact library\<close>

text \<open>
  The library whose expressions are their values: functions from valuations to reals.
  It is not a program (its derivative and its integral are chosen, not computed); it
  shows that an exact library exists.
\<close>

type_synonym valor = "valuacion \<Rightarrow> real"

definition simbolo_de :: "valor \<Rightarrow> simbolo" where
  "simbolo_de v = (SOME k. v = (\<lambda>\<rho>. \<rho> k))"

definition derivada :: "(real \<Rightarrow> real) \<Rightarrow> real \<Rightarrow> real" where
  "derivada f x = (if \<exists>D. (f has_real_derivative D) (at x)
                   then (SOME D. (f has_real_derivative D) (at x)) else 0)"

definition primitiva :: "(real \<Rightarrow> real) \<Rightarrow> real \<Rightarrow> real" where
  "primitiva f = (SOME F. \<forall>u. (F has_real_derivative f u) (at u))"

definition diff_exacta :: "valor \<Rightarrow> valor \<Rightarrow> valor" where
  "diff_exacta e v = (\<lambda>\<rho>. derivada (\<lambda>u. e (\<rho>(simbolo_de v := u))) (\<rho> (simbolo_de v)))"

definition subs_exacta :: "valor \<Rightarrow> (valor \<times> valor) list \<Rightarrow> valor" where
  "subs_exacta e ps =
     (\<lambda>\<rho>. e (\<lambda>k. case map_of (map (\<lambda>(v, a). (simbolo_de v, a)) ps) k of
                   Some a \<Rightarrow> a \<rho> | None \<Rightarrow> \<rho> k))"

definition integral_exacta :: "valor \<Rightarrow> valor \<times> valor \<times> valor \<Rightarrow> valor" where
  "integral_exacta e limite =
     (case limite of (v, lo, hi) \<Rightarrow>
        (\<lambda>\<rho>. primitiva (\<lambda>u. e (\<rho>(simbolo_de v := u))) (hi \<rho>)
             - primitiva (\<lambda>u. e (\<rho>(simbolo_de v := u))) (lo \<rho>)))"

definition pow_exacta :: "valor \<Rightarrow> valor \<Rightarrow> valor" where
  "pow_exacta a b =
     (\<lambda>\<rho>. if b \<rho> = of_nat (nat \<lfloor>b \<rho>\<rfloor>) then a \<rho> ^ nat \<lfloor>b \<rho>\<rfloor> else a \<rho> powr b \<rho>)"

definition atomo_exacto :: "string \<Rightarrow> (string \<times> valor local_binding) list \<Rightarrow> exn + valor" where
  "atomo_exacto s locals =
     (if s \<noteq> [] \<and> list_all is_digit s then Inr (\<lambda>\<rho>. of_nat (nat_of_digits s))
      else if s \<noteq> [] \<and> list_all is_letter s then
        (case map_of locals s of
           Some (LExpr e) \<Rightarrow> Inr e
         | Some (LFunc f) \<Rightarrow> Inl (LibError (''SympifyError: '' @ s))
         | None \<Rightarrow> Inr (\<lambda>\<rho>. \<rho> (s, Plain)))
      else Inl (LibError (''SympifyError: '' @ s)))"

definition sympify_exacta :: "string \<Rightarrow> (string \<times> valor local_binding) list \<Rightarrow> exn + valor" where
  "sympify_exacta s locals =
     (let t = py_remove_spaces s in
      case t of
        c # rest \<Rightarrow>
          (if c = CHR ''-'' then seq (atomo_exacto rest locals) (\<lambda>e. Inr (\<lambda>\<rho>. - e \<rho>))
           else atomo_exacto t locals)
      | [] \<Rightarrow> Inl (LibError ''SympifyError: empty''))"

definition cas_exacta :: "valor cas" where
  "cas_exacta =
     \<lparr> sp_Symbol = (\<lambda>s a \<rho>. \<rho> (s, a)),
       sp_Integer = (\<lambda>n \<rho>. of_int n),
       sp_Float = (\<lambda>q \<rho>. of_rat q),
       sp_pi = (\<lambda>\<rho>. pi),
       sp_add = (\<lambda>a b \<rho>. a \<rho> + b \<rho>),
       sp_sub = (\<lambda>a b \<rho>. a \<rho> - b \<rho>),
       sp_mul = (\<lambda>a b \<rho>. a \<rho> * b \<rho>),
       sp_div = (\<lambda>a b \<rho>. a \<rho> / b \<rho>),
       sp_pow = pow_exacta,
       sp_neg = (\<lambda>a \<rho>. - a \<rho>),
       sp_sin = (\<lambda>a \<rho>. sin (a \<rho>)),
       sp_cos = (\<lambda>a \<rho>. cos (a \<rho>)),
       sp_tan = (\<lambda>a \<rho>. tan (a \<rho>)),
       sp_sqrt = (\<lambda>a \<rho>. sqrt (a \<rho>)),
       sp_exp = (\<lambda>a \<rho>. exp (a \<rho>)),
       sp_log = (\<lambda>a \<rho>. ln (a \<rho>)),
       sp_sympify = sympify_exacta,
       sp_simplify = (\<lambda>e. e),
       sp_diff = diff_exacta,
       sp_integrate = (\<lambda>e lims. Inr (foldl integral_exacta e lims)),
       sp_subs = subs_exacta,
       sp_is_constant = (\<lambda>e. \<forall>\<rho> \<rho>'. e \<rho> = e \<rho>'),
       sp_N_float = (\<lambda>e. Inl (LibError ''TypeError: cannot convert expression to float'')),
       sp_str = (\<lambda>e. ''<expr>''),
       sp_pretty = (\<lambda>e. ''<expr>''),
       sp_pretty_Matrix = (\<lambda>es. ''<matrix>''),
       py_float_str = (\<lambda>q. ''<float>'') \<rparr>"

section \<open>Properties\<close>

subsection \<open>Sequencing\<close>

lemma seq_Inl [simp]: "seq (Inl e) f = Inl e"
  by (simp add: seq_def)

lemma seq_Inr [simp]: "seq (Inr v) f = f v"
  by (simp add: seq_def)

lemma seq_eq_Inr: "seq m f = Inr r \<longleftrightarrow> (\<exists>v. m = Inr v \<and> f v = Inr r)"
  by (cases m) simp_all

lemma seq_Inr_elim:
  assumes "seq m f = Inr r"
  obtains v where "m = Inr v" and "f v = Inr r"
  using assms by (auto simp: seq_eq_Inr)

lemma not_isl_projr: "\<not> isl r \<Longrightarrow> r = Inr (projr r)"
  by (cases r) simp_all

subsection \<open>The triple-integral solver\<close>

text \<open>
  C4. The claim: a coordinate-system tag outside the six recognised spellings makes the
  triple-integral solver return an error value. The code raises instead: for every such
  tag, and whatever the other arguments are, the call ends in the exception
  \<^verbatim>\<open>ValueError\<close> and returns no dictionary.
\<close>

theorem resolver_sistema_desconocido_raises:
  "sistema \<notin> {''rectangular'', ''rectangulares'', ''cilindrica'', ''cilindricas'',
                ''esferica'', ''esfericas''} \<Longrightarrow>
   resolver_integral_triple cas integrando variables limites sistema
     = Inl (ValueError msg_sistema)"
  by (simp add: resolver_integral_triple_def seleccionar_sistema_def Let_def)

theorem resolver_sistema_desconocido_raises_witness:
  "''polar'' \<notin> {''rectangular'', ''rectangulares'', ''cilindrica'', ''cilindricas'',
                ''esferica'', ''esfericas''}
   \<and> resolver_integral_triple cas0 ''1'' [''z'', ''y'', ''x'']
        (\<lambda>k. None) ''polar'' = Inl (ValueError msg_sistema)"
  using resolver_sistema_desconocido_raises
    [of "''polar''" cas0 "''1''" "[''z'', ''y'', ''x'']" "\<lambda>k. None"]
  by simp

lemma cilindrico_r: "jacobiano_cilindrico_incluido ''r''"
  by (simp add: jacobiano_cilindrico_incluido_def py_lower_def py_lower_char_def
      py_remove_spaces_def)

lemma cilindrico_uno: "\<not> jacobiano_cilindrico_incluido ''1''"
  by (simp add: jacobiano_cilindrico_incluido_def py_lower_def py_lower_char_def
      py_remove_spaces_def startswith_def)

text \<open>
  C1. In cylindrical coordinates the text \<open>r\<close> triggers the heuristic and the parsed
  integrand goes on unchanged, as the claim says. For the text \<open>1\<close> the heuristic does
  not fire, as the claim says, but the code then does nothing: the cylindrical branch
  has no \<^verbatim>\<open>else\<close>, so the integrand that is integrated is the parsed one, not its
  product with the Jacobian. Whatever the text is, the cylindrical stage returns the
  parsed integrand.
\<close>

theorem etapa_jacobiano_cilindrica:
  "etapa_jacobiano cas ''cilindrica'' ''r'' e j ps
     = (False, e,
        ps @ [''NOTA: El integrando contiene 'r' (jacobiano incluido por el usuario)'',
              ''Integrando final: '' @ sp_str cas e])
   \<and> \<not> jacobiano_cilindrico_incluido ''1''
   \<and> etapa_jacobiano cas ''cilindrica'' ''1'' e j ps = (True, e, ps)
   \<and> etapa_jacobiano cas ''cilindricas'' ''1'' e j ps = (True, e, ps)
   \<and> fst (snd (etapa_jacobiano cas ''cilindrica'' integrando e j ps)) = e
   \<and> fst (snd (etapa_jacobiano cas ''cilindricas'' integrando e j ps)) = e"
  by (simp add: etapa_jacobiano_def cilindrico_r cilindrico_uno)

text \<open>
  The spherical branch, next to it, does multiply when its heuristic does not fire.
\<close>

lemma etapa_jacobiano_esferica_uno:
  "etapa_jacobiano cas ''esferica'' ''1'' e j ps =
     (True, sp_mul cas e j,
      ps @ [''Multiplicando por el Jacobiano ('' @ sp_str cas j @ ''): integrando = ''
              @ sp_str cas (sp_simplify cas (sp_mul cas e j))])"
  by (simp add: etapa_jacobiano_def jacobiano_esferico_incluido_def py_lower_def
      py_lower_char_def py_remove_spaces_def startswith_def rho2_sin_phi_utf8_def)

text \<open>
  On the instance: the constant 1 over \<open>z \<in> [0,1]\<close>, \<open>theta \<in> [0,2]\<close>, \<open>r \<in> [0,3]\<close> in
  cylindrical coordinates comes out as 6, the integral of 1, where the integral of
  \<open>1 * r\<close> is 9.
\<close>

lemma resolver_cilindrica_uno_cas0:
  "map_of (projr (resolver_integral_triple cas0 ''1'' [''z'', ''theta'', ''r'']
      [''z'' \<mapsto> (''0'', ''1''), ''theta'' \<mapsto> (''0'', ''2''), ''r'' \<mapsto> (''0'', ''3'')]
      ''cilindrica'')) ''resultado'' = Some (PExpr (EInt 6))"
  by code_simp


subsection \<open>The library of the instance on integer constants\<close>

lemma str_nat_nonempty: "str_nat n \<noteq> []"
  by (subst str_nat.simps) simp

lemma digit_chars:
  assumes "d < 10"
  shows "is_digit (''0123456789'' ! d) \<and> digit_val (''0123456789'' ! d) = d
         \<and> ''0123456789'' ! d \<noteq> CHR '' '' \<and> ''0123456789'' ! d \<noteq> CHR ''-''"
proof -
  from assms have "d \<in> {0, 1, 2, 3, 4, 5, 6, 7, 8, 9}" by auto
  then show ?thesis
    by (auto simp: is_digit_def digit_val_def)
qed

lemma str_nat_digits:
  "list_all is_digit (str_nat n) \<and> nat_of_digits (str_nat n) = n
   \<and> py_remove_spaces (str_nat n) = str_nat n \<and> hd (str_nat n) \<noteq> CHR ''-''"
proof (induction n rule: str_nat.induct)
  case (1 n)
  show ?case
  proof (cases "n < 10")
    case True
    then show ?thesis
      using digit_chars[of n]
      by (subst (1 2 3 4 5) str_nat.simps) (simp add: nat_of_digits_def py_remove_spaces_def)
  next
    case False
    have m: "n mod 10 < 10" by simp
    from False 1 have IH: "list_all is_digit (str_nat (n div 10))"
      "nat_of_digits (str_nat (n div 10)) = n div 10"
      "py_remove_spaces (str_nat (n div 10)) = str_nat (n div 10)"
      "hd (str_nat (n div 10)) \<noteq> CHR ''-''"
      by auto
    show ?thesis
      using False IH digit_chars[OF m] str_nat_nonempty[of "n div 10"]
      by (subst (1 2 3 4 5) str_nat.simps) (simp add: nat_of_digits_def py_remove_spaces_def)
  qed
qed

lemma sympify0_str_nat: "sympify0 (str_nat n) locales = Inr (EInt (int n))"
proof -
  obtain c cs where cs: "str_nat n = c # cs"
    using str_nat_nonempty[of n] by (cases "str_nat n") auto
  with str_nat_digits[of n] have "c \<noteq> CHR ''-''" by simp
  then show ?thesis
    using str_nat_digits[of n] cs
    by (simp add: sympify0_def parse_atom_def Let_def)
qed

lemma cas0_integra_constantes: "integra_constantes cas0"
  by (simp add: integra_constantes_def cas0_def sympify0_str_nat integrate0_def
      integrate1_def simplify0_def N_float0_def)

text \<open>
  C8. With a library that is right on integer constants, the solver run on the
  integrand \<open>1\<close>, in rectangular coordinates, in the order z, y, x over
  \<open>z \<in> [0,3]\<close>, \<open>y \<in> [0,1]\<close>, \<open>x \<in> [0,2]\<close> returns the integer 6 as its symbolic result,
  and the last line of its trace reports the numeric value 6.
\<close>

theorem caja_unidad:
  assumes "integra_constantes cas"
  shows "\<exists>ps. resolver_integral_triple cas ''1'' [''z'', ''y'', ''x''] limites_caja
                 ''rectangular''
           = Inr [(''resultado'', PExpr (sp_Integer cas 6)),
                  (''pasos'', PList (ps @
                     [nl @ ''RESULTADO FINAL = '' @ sp_str cas (sp_Integer cas 6),
                      ''Valor numerico aproximado = '' @ py_float_str cas 6]))]"
proof -
  from assms have
    p: "\<And>n locales. sp_sympify cas (str_nat n) locales = Inr (sp_Integer cas (int n))" and
    i: "\<And>c v a b. sp_integrate cas (sp_Integer cas c)
                     [(v, sp_Integer cas a, sp_Integer cas b)]
                  = Inr (sp_Integer cas (c * (b - a)))" and
    s: "\<And>n. sp_simplify cas (sp_Integer cas n) = sp_Integer cas n" and
    n: "\<And>n. sp_N_float cas (sp_Integer cas n) = Inr (of_int n)"
    by (auto simp: integra_constantes_def)
  have p0: "\<And>l. sp_sympify cas ''0'' l = Inr (sp_Integer cas 0)"
    and p1: "\<And>l. sp_sympify cas ''1'' l = Inr (sp_Integer cas 1)"
    and p2: "\<And>l. sp_sympify cas ''2'' l = Inr (sp_Integer cas 2)"
    and p3: "\<And>l. sp_sympify cas ''3'' l = Inr (sp_Integer cas 3)"
    using p[of 0] p[of 1] p[of 2] p[of 3] by (simp_all add: str_nat.simps)
  have n6: "sp_N_float cas (sp_Integer cas 6) = Inr 6"
    using n[of 6] by simp
  show ?thesis
    by (simp add: resolver_integral_triple_def seleccionar_sistema_def etapa_jacobiano_def
        limites_caja_def p0 p1 p2 p3 i s n6 valor_numerico_def Let_def)
qed

theorem caja_unidad_witness:
  "integra_constantes cas0
   \<and> (\<exists>ps. resolver_integral_triple cas0 ''1'' [''z'', ''y'', ''x''] limites_caja
              ''rectangular''
            = Inr [(''resultado'', PExpr (sp_Integer cas0 6)),
                   (''pasos'', PList (ps @
                      [nl @ ''RESULTADO FINAL = '' @ sp_str cas0 (sp_Integer cas0 6),
                       ''Valor numerico aproximado = '' @ py_float_str cas0 6]))])"
  using caja_unidad[OF cas0_integra_constantes] cas0_integra_constantes
  by simp

subsection \<open>Green: the shape of what each region returns\<close>

lemma green_disco_shape:
  "green_disco cas P Q x y rot params pasos nfo = Inr d \<Longrightarrow>
   \<exists>doble linea ps. d = verificar_green cas doble linea ps nfo"
  unfolding green_disco_def Let_def
  by (auto elim!: seq_Inr_elim split: if_splits prod.splits)

lemma green_corona_shape:
  "green_corona cas P Q x y rot params pasos nfo = Inr d \<Longrightarrow>
   \<exists>doble linea ps. d = verificar_green cas doble linea ps nfo"
  unfolding green_corona_def Let_def
  by (auto elim!: seq_Inr_elim split: if_splits prod.splits)

lemma green_rectangulo_shape:
  "green_rectangulo cas P Q x y rot params pasos nfo = Inr d \<Longrightarrow>
   \<exists>doble linea ps. d = verificar_green cas doble linea ps nfo"
  unfolding green_rectangulo_def Let_def
  by (auto elim!: seq_Inr_elim split: if_splits prod.splits)

lemma green_elipse_shape:
  "green_elipse cas P Q x y rot params pasos nfo = Inr d \<Longrightarrow>
   \<exists>doble linea ps. d = verificar_green cas doble linea ps nfo"
  unfolding green_elipse_def Let_def
  by (auto elim!: seq_Inr_elim split: if_splits prod.splits)

lemma green_triangulo_shape:
  "green_triangulo cas P Q x y rot params pasos nfo = Inr d \<Longrightarrow>
   \<exists>doble linea ps. d = verificar_green cas doble linea ps nfo"
  unfolding green_triangulo_def Let_def
  by (auto elim!: seq_Inr_elim split: if_splits prod.splits)

lemma green_semicirculo_shape:
  "green_semicirculo cas P Q x y rot params pasos nfo = Inr d \<Longrightarrow>
   \<exists>doble linea ps. d = verificar_green cas doble linea ps nfo"
  unfolding green_semicirculo_def Let_def
  by (auto elim!: seq_Inr_elim split: if_splits prod.splits)

lemma green_sector_polar_shape:
  "green_sector_polar cas P Q x y rot params pasos nfo = Inr d \<Longrightarrow>
   \<exists>doble linea ps. d = verificar_green cas doble linea ps nfo"
  unfolding green_sector_polar_def Let_def
  by (auto elim!: seq_Inr_elim split: if_splits prod.splits)

lemma green_entre_curvas_shape:
  "green_entre_curvas cas P Q x y rot params pasos nfo = Inr d \<Longrightarrow>
   has_key d ''error'' \<or> (\<exists>doble linea ps. d = verificar_green cas doble linea ps nfo)"
  unfolding green_entre_curvas_def Let_def
  apply (auto elim!: seq_Inr_elim simp: has_key_def split: if_splits prod.splits sum.splits)
  apply blast
  done


lemma verificar_green_unfold:
  "verificar_green cas doble linea pasos nfo =
     [(''doble'', PExpr doble), (''linea'', PExpr linea),
      (''pasos'', PList (pasos @
         ['''', ''VERIFICACION DEL TEOREMA DE GREEN:'',
          ''Integral doble: '' @ sp_pretty cas doble,
          ''Integral de linea: '' @ sp_pretty cas linea]
         @ [if sp_simplify cas (sp_sub cas doble linea) = sp_Integer cas 0
            then ''[OK] El teorema se verifica: oint_C F*dr = iint_D (nablaxF) dA''
            else ''[X] Diferencia: '' @ sp_pretty cas (sp_simplify cas (sp_sub cas doble linea))])),
      (''info'', PList nfo)]"
  by (simp add: verificar_green_def Let_def)

lemma aplicar_green_cases:
  assumes "aplicar_green cas P_str Q_str region params = Inr d" "\<not> has_key d ''error''"
  shows "(region = ''poligono'' \<and> (\<exists>P Q x y rot ps. green_poligono cas P Q x y rot params ps green_info = Inr d))
        \<or> (region \<noteq> ''poligono'' \<and> (\<exists>doble linea ps. d = verificar_green cas doble linea ps green_info))"
  using assms unfolding aplicar_green_def Let_def
  by (auto simp: has_key_def split: sum.splits prod.splits if_splits
      dest: green_disco_shape green_corona_shape green_rectangulo_shape green_elipse_shape
        green_triangulo_shape green_semicirculo_shape green_sector_polar_shape
        dest!: green_entre_curvas_shape)


subsection \<open>Divergence: the shape of what each region returns\<close>

lemma divergencia_esfera_shape:
  "divergencia_esfera cas Fx Fy Fz x y z divF params pasos nfo = Inr d \<Longrightarrow>
   \<exists>v ps. d = [(''divergencia'', PExpr divF), (''volumen'', PExpr v),
                (''pasos'', PList (pasos @ ps)), (''info'', PList nfo)]"
  unfolding divergencia_esfera_def Let_def
  by (auto elim!: seq_Inr_elim split: if_splits prod.splits)

lemma divergencia_cilindro_shape:
  "divergencia_cilindro cas Fx Fy Fz x y z divF params pasos nfo = Inr d \<Longrightarrow>
   \<exists>v ps. d = [(''divergencia'', PExpr divF), (''volumen'', PExpr v),
                (''pasos'', PList (pasos @ ps)), (''info'', PList nfo)]"
  unfolding divergencia_cilindro_def Let_def
  by (auto elim!: seq_Inr_elim split: if_splits prod.splits)

lemma divergencia_cubo_shape:
  "divergencia_cubo cas Fx Fy Fz x y z divF params pasos nfo = Inr d \<Longrightarrow>
   \<exists>v ps. d = [(''divergencia'', PExpr divF), (''volumen'', PExpr v),
                (''pasos'', PList (pasos @ ps)), (''info'', PList nfo)]"
  unfolding divergencia_cubo_def Let_def
  by (auto elim!: seq_Inr_elim split: if_splits prod.splits)

lemma divergencia_elipsoide_shape:
  "divergencia_elipsoide cas Fx Fy Fz x y z divF params pasos nfo = Inr d \<Longrightarrow>
   \<exists>v ps. d = [(''divergencia'', PExpr divF), (''volumen'', PExpr v),
                (''pasos'', PList (pasos @ ps)), (''info'', PList nfo)]"
  unfolding divergencia_elipsoide_def Let_def
  by (auto elim!: seq_Inr_elim split: if_splits prod.splits)

lemma divergencia_cono_shape:
  "divergencia_cono cas Fx Fy Fz x y z divF params pasos nfo = Inr d \<Longrightarrow>
   \<exists>v ps. d = [(''divergencia'', PExpr divF), (''volumen'', PExpr v),
                (''pasos'', PList (pasos @ ps)), (''info'', PList nfo)]"
  unfolding divergencia_cono_def Let_def
  by (auto elim!: seq_Inr_elim split: if_splits prod.splits)

lemma divergencia_entre_superficies_shape:
  "divergencia_entre_superficies cas Fx Fy Fz x y z divF params pasos nfo = Inr d \<Longrightarrow>
   \<exists>v ps. d = [(''divergencia'', PExpr divF), (''volumen'', PExpr v),
                (''pasos'', PList (pasos @ ps)), (''info'', PList nfo)]"
  unfolding divergencia_entre_superficies_def Let_def
  by (auto elim!: seq_Inr_elim split: if_splits prod.splits)

lemma divergencia_campo_pasos:
  "divergencia_campo cas Fx Fy Fz x y z = (dv, ps) \<Longrightarrow> ps \<noteq> []"
  by (auto simp: divergencia_campo_def Let_def)

lemma aplicar_divergencia_shape:
  assumes "aplicar_divergencia cas Fx_str Fy_str Fz_str region params = Inr d"
    and "\<not> has_key d ''error''"
  shows "\<exists>Fx Fy Fz v ps.
           campo_3d cas Fx_str Fy_str Fz_str (sp_Symbol cas ''x'' IsReal)
             (sp_Symbol cas ''y'' IsReal) (sp_Symbol cas ''z'' IsReal) = Inr (Fx, Fy, Fz)
         \<and> ps \<noteq> []
         \<and> d = [(''divergencia'',
                   PExpr (fst (divergencia_campo cas Fx Fy Fz (sp_Symbol cas ''x'' IsReal)
                                 (sp_Symbol cas ''y'' IsReal) (sp_Symbol cas ''z'' IsReal)))),
                 (''volumen'', PExpr v), (''pasos'', PList ps),
                 (''info'', PList divergencia_info)]"
  using assms
  unfolding aplicar_divergencia_def Let_def
  by (auto simp: has_key_def split: sum.splits prod.splits if_splits
      dest!: divergencia_esfera_shape divergencia_cilindro_shape divergencia_cubo_shape
        divergencia_elipsoide_shape divergencia_cono_shape divergencia_entre_superficies_shape
      dest: divergencia_campo_pasos)

subsection \<open>Stokes\<close>

lemma stokes_disco_shape:
  "stokes_disco cas Fx Fy Fz x y z cx cy cz params pasos nfo = Inr d \<Longrightarrow>
   \<exists>s l ps. d = [(''superficie'', PExpr s), (''linea'', PExpr l),
                (''pasos'', PList (pasos @ ps)), (''info'', PList nfo)]"
  unfolding stokes_disco_def Let_def
  by (auto elim!: seq_Inr_elim split: if_splits prod.splits)

lemma stokes_plano_shape:
  "stokes_plano cas Fx Fy Fz x y z cx cy cz params pasos nfo = Inr d \<Longrightarrow>
   \<exists>s ps. d = [(''superficie'', PExpr s), (''linea'', PExpr s),
                (''pasos'', PList (pasos @ ps)), (''info'', PList nfo)]"
  unfolding stokes_plano_def Let_def
  by (auto elim!: seq_Inr_elim split: if_splits prod.splits)

lemma stokes_paraboloide_shape:
  "stokes_paraboloide cas Fx Fy Fz x y z cx cy cz params pasos nfo = Inr d \<Longrightarrow>
   \<exists>s ps. d = [(''superficie'', PExpr s), (''linea'', PExpr s),
                (''pasos'', PList (pasos @ ps)), (''info'', PList nfo)]"
  unfolding stokes_paraboloide_def Let_def
  by (auto elim!: seq_Inr_elim split: if_splits prod.splits)

lemma stokes_cilindro_shape:
  "stokes_cilindro cas Fx Fy Fz x y z cx cy cz params pasos nfo = Inr d \<Longrightarrow>
   \<exists>s ps. d = [(''superficie'', PExpr s), (''linea'', PExpr s),
                (''pasos'', PList (pasos @ ps)), (''info'', PList nfo)]"
  unfolding stokes_cilindro_def Let_def
  by (auto elim!: seq_Inr_elim split: if_splits prod.splits)

lemma stokes_rotacional_pasos:
  "stokes_rotacional cas Fx Fy Fz x y z = (rv, ps) \<Longrightarrow> ps \<noteq> []"
  by (auto simp: stokes_rotacional_def Let_def)

lemma aplicar_stokes_shape:
  assumes "aplicar_stokes cas Fx_str Fy_str Fz_str superficie params = Inr d"
    and "\<not> has_key d ''error''"
  shows "\<exists>s l ps. ps \<noteq> [] \<and> (superficie \<noteq> ''disco'' \<longrightarrow> l = s)
         \<and> d = [(''superficie'', PExpr s), (''linea'', PExpr l), (''pasos'', PList ps),
                 (''info'', PList stokes_info)]"
  using assms
  unfolding aplicar_stokes_def Let_def
  by (auto simp: has_key_def split: sum.splits prod.splits if_splits
      dest!: stokes_disco_shape stokes_plano_shape stokes_paraboloide_shape stokes_cilindro_shape
      dest: stokes_rotacional_pasos)


subsection \<open>Green's theorem: verification and polygon\<close>

text \<open>
  C7. The verification helper returns the two values it was given, unaltered, in the
  slots \<open>doble\<close> and \<open>linea\<close>; it appends to the trace a header, the two values, and
  then one line: the line that says the theorem is verified when
  \<open>simplify (doble - linea)\<close> is the integer 0, and otherwise the line that shows that
  residual. It is a total function, so no exception leaves it. Every region other than
  the polygon returns through it: a record without an error that \<open>aplicar_green\<close>
  returns for one of those eight regions is a result of the helper.
\<close>

theorem verificacion_green:
  "verificar_green cas doble linea pasos nfo =
     [(''doble'', PExpr doble), (''linea'', PExpr linea),
      (''pasos'', PList (pasos @
         ['''', ''VERIFICACION DEL TEOREMA DE GREEN:'',
          ''Integral doble: '' @ sp_pretty cas doble,
          ''Integral de linea: '' @ sp_pretty cas linea]
         @ [if sp_simplify cas (sp_sub cas doble linea) = sp_Integer cas 0
            then ''[OK] El teorema se verifica: oint_C F*dr = iint_D (nablaxF) dA''
            else ''[X] Diferencia: ''
                   @ sp_pretty cas (sp_simplify cas (sp_sub cas doble linea))])),
      (''info'', PList nfo)]
   \<and> (region \<in> {''disco'', ''corona'', ''rectangulo'', ''elipse'', ''triangulo'',
                  ''semicirculo'', ''entre_curvas'', ''sector_polar''} \<longrightarrow>
      aplicar_green cas P_str Q_str region params = Inr d \<longrightarrow>
      \<not> has_key d ''error'' \<longrightarrow>
      (\<exists>doble' linea' ps. d = verificar_green cas doble' linea' ps green_info))"
proof -
  have "\<exists>doble' linea' ps. d = verificar_green cas doble' linea' ps green_info"
    if "region \<noteq> ''poligono''" "aplicar_green cas P_str Q_str region params = Inr d"
      "\<not> has_key d ''error''"
    using aplicar_green_cases[OF that(2,3)] that(1) by blast
  then show ?thesis
    by (auto simp: verificar_green_unfold)
qed

theorem verificacion_green_witness:
  "(let r = aplicar_green cas0 ''-y'' ''x'' ''disco''
              [''R'' \<mapsto> ''1'', ''centro_x'' \<mapsto> ''0'', ''centro_y'' \<mapsto> ''0'']
    in ''disco'' \<in> {''disco'', ''corona'', ''rectangulo'', ''elipse'', ''triangulo'',
                     ''semicirculo'', ''entre_curvas'', ''sector_polar''}
       \<and> \<not> isl r \<and> \<not> has_key (projr r) ''error''
       \<and> (\<exists>doble' linea' ps. projr r = verificar_green cas0 doble' linea' ps green_info))"
proof -
  let ?r = "aplicar_green cas0 ''-y'' ''x'' ''disco''
              [''R'' \<mapsto> ''1'', ''centro_x'' \<mapsto> ''0'', ''centro_y'' \<mapsto> ''0'']"
  have a: "\<not> isl ?r" by code_simp
  have b: "\<not> has_key (projr ?r) ''error''" by code_simp
  have c: "?r = Inr (projr ?r)" using a by (rule not_isl_projr)
  have d: "''disco'' \<in> {''disco'', ''corona'', ''rectangulo'', ''elipse'', ''triangulo'',
                     ''semicirculo'', ''entre_curvas'', ''sector_polar''}" by simp
  from verificacion_green[of cas0 undefined undefined "[]" "[]" "''disco''" "''-y''" "''x''"
      "[''R'' \<mapsto> ''1'', ''centro_x'' \<mapsto> ''0'', ''centro_y'' \<mapsto> ''0'']" "projr ?r"] c b d
  have "\<exists>doble' linea' ps. projr ?r = verificar_green cas0 doble' linea' ps green_info"
    by blast
  with a b d show ?thesis by (simp only: Let_def) blast
qed




subsection \<open>The divergence theorem\<close>

text \<open>
  C5. The claim says that the record of the divergence evaluator has two result slots
  that are equal. It has not: for each of the six regions a record without an error
  has exactly the slots \<open>divergencia\<close>, \<open>volumen\<close>, \<open>pasos\<close> and \<open>info\<close>. The first
  holds the divergence of the parsed field and the second the one integral that is
  computed, the volume integral; there is no slot for a boundary integral and no
  boundary integral is computed.
\<close>

theorem divergencia_un_solo_integral:
  assumes "aplicar_divergencia cas Fx_str Fy_str Fz_str region params = Inr d"
    and "\<not> has_key d ''error''"
  shows "region \<in> {''esfera'', ''cilindro'', ''cubo'', ''elipsoide'', ''cono'',
                    ''entre_superficies''}
         \<and> map fst d = [''divergencia'', ''volumen'', ''pasos'', ''info'']
         \<and> (\<exists>Fx Fy Fz v.
               campo_3d cas Fx_str Fy_str Fz_str (sp_Symbol cas ''x'' IsReal)
                 (sp_Symbol cas ''y'' IsReal) (sp_Symbol cas ''z'' IsReal) = Inr (Fx, Fy, Fz)
             \<and> map_of d ''divergencia''
                 = Some (PExpr (fst (divergencia_campo cas Fx Fy Fz
                      (sp_Symbol cas ''x'' IsReal) (sp_Symbol cas ''y'' IsReal)
                      (sp_Symbol cas ''z'' IsReal))))
             \<and> map_of d ''volumen'' = Some (PExpr v))"
proof -
  have r: "region \<in> {''esfera'', ''cilindro'', ''cubo'', ''elipsoide'', ''cono'',
                      ''entre_superficies''}"
    using assms unfolding aplicar_divergencia_def Let_def
    by (auto simp: has_key_def split: sum.splits prod.splits if_splits)
  from aplicar_divergencia_shape[OF assms] r show ?thesis
    by auto
qed

theorem divergencia_un_solo_integral_witness:
  "(let r = aplicar_divergencia cas0 ''x'' ''y'' ''z'' ''cilindro''
              [''R'' \<mapsto> ''1'', ''h'' \<mapsto> ''1'']
    in \<not> isl r \<and> \<not> has_key (projr r) ''error''
       \<and> map fst (projr r) = [''divergencia'', ''volumen'', ''pasos'', ''info''])"
proof -
  let ?r = "aplicar_divergencia cas0 ''x'' ''y'' ''z'' ''cilindro''
              [''R'' \<mapsto> ''1'', ''h'' \<mapsto> ''1'']"
  have a: "\<not> isl ?r" by code_simp
  have b: "\<not> has_key (projr ?r) ''error''" by code_simp
  have c: "?r = Inr (projr ?r)" using a by (rule not_isl_projr)
  from divergencia_un_solo_integral[OF c b]
  have "map fst (projr ?r) = [''divergencia'', ''volumen'', ''pasos'', ''info'']"
    by blast
  with a b show ?thesis by (simp only: Let_def) blast
qed

text \<open>
  The two slots that hold expressions differ: for the field \<open>(x, y, z)\<close> over the
  cylinder the divergence is 3 and the volume integral is another expression, and the
  record has no slot \<open>linea\<close>, \<open>superficie\<close> or \<open>flujo\<close>.
\<close>

theorem divergencia_slots_distintos:
  "(let r = aplicar_divergencia cas0 ''x'' ''y'' ''z'' ''cilindro''
              [''R'' \<mapsto> ''1'', ''h'' \<mapsto> ''1'']
    in \<not> isl r
       \<and> map_of (projr r) ''divergencia'' = Some (PExpr (EInt 3))
       \<and> map_of (projr r) ''volumen''
           = Some (PExpr (EMul (EInt 3)
                     (EMul (EMul EPi (EPow (EInt 1) (EInt 2))) (EInt 1))))
       \<and> map_of (projr r) ''divergencia'' \<noteq> map_of (projr r) ''volumen''
       \<and> \<not> has_key (projr r) ''linea'' \<and> \<not> has_key (projr r) ''superficie'')"
  by code_simp

subsection \<open>Stokes' theorem\<close>

text \<open>
  C10. For the plane, the paraboloid and the cylinder, every record without an error
  that \<open>aplicar_stokes\<close> returns holds one and the same expression in the slots
  \<open>superficie\<close> and \<open>linea\<close>, whatever the field, the parameters and the library are:
  the surface integral is copied into the boundary slot, so their equality says nothing
  about the theorem.
\<close>

theorem stokes_linea_es_superficie:
  assumes "superficie \<in> {''plano'', ''paraboloide'', ''cilindro''}"
    and "aplicar_stokes cas Fx_str Fy_str Fz_str superficie params = Inr d"
    and "\<not> has_key d ''error''"
  shows "\<exists>s ps. d = [(''superficie'', PExpr s), (''linea'', PExpr s),
                      (''pasos'', PList ps), (''info'', PList stokes_info)]"
  using aplicar_stokes_shape[OF assms(2,3)] assms(1) by auto

theorem stokes_linea_es_superficie_witness:
  "(let r = aplicar_stokes cas0 ''-y'' ''x'' ''0'' ''plano''
              [''R'' \<mapsto> ''1'', ''a'' \<mapsto> ''0'', ''b'' \<mapsto> ''0'', ''c'' \<mapsto> ''0'']
    in ''plano'' \<in> {''plano'', ''paraboloide'', ''cilindro''}
       \<and> \<not> isl r \<and> \<not> has_key (projr r) ''error''
       \<and> (\<exists>s ps. projr r = [(''superficie'', PExpr s), (''linea'', PExpr s),
                              (''pasos'', PList ps), (''info'', PList stokes_info)]))"
proof -
  let ?r = "aplicar_stokes cas0 ''-y'' ''x'' ''0'' ''plano''
              [''R'' \<mapsto> ''1'', ''a'' \<mapsto> ''0'', ''b'' \<mapsto> ''0'', ''c'' \<mapsto> ''0'']"
  have a: "\<not> isl ?r" by code_simp
  have b: "\<not> has_key (projr ?r) ''error''" by code_simp
  have c: "?r = Inr (projr ?r)" using a by (rule not_isl_projr)
  have d: "''plano'' \<in> {''plano'', ''paraboloide'', ''cilindro''}" by simp
  from stokes_linea_es_superficie[OF d c b] a b d show ?thesis
    by (simp only: Let_def) blast
qed

subsection \<open>Traces\<close>




section \<open>Green's theorem for the rotation field on a disc\<close>

subsection \<open>The exact library is exact\<close>

lemma simbolo_de_simbolo [simp]: "simbolo_de (\<lambda>\<rho>. \<rho> k) = k"
proof -
  have u: "j = k" if "(\<lambda>\<rho>::valuacion. \<rho> k) = (\<lambda>\<rho>. \<rho> j)" for j
  proof -
    from that have "(\<lambda>i. if i = k then 1 else 0 :: real) k = (\<lambda>i. if i = k then 1 else 0) j"
      by (rule fun_cong)
    then show ?thesis by (simp split: if_splits)
  qed
  show ?thesis
    unfolding simbolo_de_def
    by (rule some_equality) (auto dest: u)
qed

lemma derivada_eq: "(f has_real_derivative D) (at x) \<Longrightarrow> derivada f x = D"
  unfolding derivada_def
  by (auto intro: some_equality dest: DERIV_unique)

lemma primitiva_diferencia:
  assumes F: "\<forall>u. (F has_real_derivative f u) (at u)"
  shows "primitiva f b - primitiva f a = F b - F a"
proof -
  have G: "\<forall>u. (primitiva f has_real_derivative f u) (at u)"
    unfolding primitiva_def by (rule someI[of _ F]) (rule F)
  have "\<forall>u. ((\<lambda>v. primitiva f v - F v) has_real_derivative 0) (at u)"
    using F G by (auto intro!: derivative_eq_intros)
  then have "primitiva f b - F b = primitiva f a - F a"
    by (rule DERIV_isconst_all)
  then show ?thesis by simp
qed

lemma atomo_exacto_plain:
  "atomo_exacto s [] = Inr e \<Longrightarrow> independiente (\<lambda>e. e) e {k. snd k \<noteq> Plain}"
  by (auto simp: atomo_exacto_def independiente_def split: if_splits)

lemma sympify_exacta_plain:
  "sympify_exacta s [] = Inr e \<Longrightarrow> independiente (\<lambda>e. e) e {k. snd k \<noteq> Plain}"
  unfolding sympify_exacta_def Let_def
  by (auto simp: independiente_def seq_eq_Inr split: list.splits if_splits
      dest!: atomo_exacto_plain)

lemma map_of_sustitucion:
  "map_of (map (\<lambda>(v, a). (simbolo_de v, a)) (sustitucion cas_exacta ps)) = map_of ps"
  by (induction ps) (auto simp: sustitucion_def cas_exacta_def)

lemma pow_exacta_nat [simp]: "pow_exacta a (\<lambda>\<rho>. real n) \<rho> = a \<rho> ^ n"
  by (simp add: pow_exacta_def)

lemma cas_exacta_exacta: "biblioteca_exacta cas_exacta (\<lambda>e. e)"
  unfolding biblioteca_exacta_def
proof (intro conjI allI impI)
  fix e :: valor and ps :: "(simbolo \<times> valor) list" and \<rho> :: valuacion
  show "sp_subs cas_exacta e (sustitucion cas_exacta ps) \<rho>
          = e (\<lambda>k. case map_of ps k of Some a \<Rightarrow> a \<rho> | None \<Rightarrow> \<rho> k)"
    using map_of_sustitucion[of ps] by (simp add: cas_exacta_def subs_exacta_def)
next
  fix e :: valor and k :: simbolo and \<rho> :: valuacion and D :: real
  assume "((\<lambda>u. e (\<rho>(k := u))) has_real_derivative D) (at (\<rho> k))"
  then show "sp_diff cas_exacta e (sp_Symbol cas_exacta (fst k) (snd k)) \<rho> = D"
    by (simp add: cas_exacta_def diff_exacta_def derivada_eq)
next
  fix e lo hi r :: valor and k :: simbolo and \<rho> :: valuacion and F :: "real \<Rightarrow> real"
  assume "sp_integrate cas_exacta e [(sp_Symbol cas_exacta (fst k) (snd k), lo, hi)] = Inr r"
    and "\<forall>u. (F has_real_derivative e (\<rho>(k := u))) (at u)"
  then show "r \<rho> = F (hi \<rho>) - F (lo \<rho>)"
    using primitiva_diferencia[of F "\<lambda>u. e (\<rho>(k := u))" "hi \<rho>" "lo \<rho>"]
    by (auto simp: cas_exacta_def integral_exacta_def)
qed (auto simp: cas_exacta_def dest: sympify_exacta_plain)

lemma cas_exacta_integra: "integra_sin_excepcion cas_exacta"
  by (simp add: integra_sin_excepcion_def cas_exacta_def)

lemma cas_exacta_menos_y:
  "sp_sympify cas_exacta ''-y''
     (green_locales cas_exacta (sp_Symbol cas_exacta ''x'' IsReal) (sp_Symbol cas_exacta ''y'' IsReal))
   = Inr (\<lambda>\<rho>. - \<rho> (''y'', IsReal))"
  by (simp add: cas_exacta_def sympify_exacta_def atomo_exacto_def green_locales_def
      py_remove_spaces_def is_digit_def is_letter_def)

lemma cas_exacta_x:
  "sp_sympify cas_exacta ''x''
     (green_locales cas_exacta (sp_Symbol cas_exacta ''x'' IsReal) (sp_Symbol cas_exacta ''y'' IsReal))
   = Inr (\<lambda>\<rho>. \<rho> (''x'', IsReal))"
  by (simp add: cas_exacta_def sympify_exacta_def atomo_exacto_def green_locales_def
      py_remove_spaces_def is_digit_def is_letter_def)

lemma cas_exacta_uno: "sp_sympify cas_exacta ''1'' [] = Inr (\<lambda>\<rho>. 1)"
  by (simp add: cas_exacta_def sympify_exacta_def atomo_exacto_def
      py_remove_spaces_def is_digit_def nat_of_digits_def digit_val_def)

lemma cas_exacta_cero: "sp_sympify cas_exacta ''0'' [] = Inr (\<lambda>\<rho>. 0)"
  by (simp add: cas_exacta_def sympify_exacta_def atomo_exacto_def
      py_remove_spaces_def is_digit_def nat_of_digits_def digit_val_def)


subsection \<open>What an exact library computes\<close>

lemma exacta_valores:
  assumes "biblioteca_exacta cas den"
  shows "den (sp_Symbol cas s a) \<rho> = \<rho> (s, a)"
    and "den (sp_Integer cas n) \<rho> = of_int n"
    and "den (sp_pi cas) \<rho> = pi"
    and "den (sp_add cas e1 e2) \<rho> = den e1 \<rho> + den e2 \<rho>"
    and "den (sp_sub cas e1 e2) \<rho> = den e1 \<rho> - den e2 \<rho>"
    and "den (sp_mul cas e1 e2) \<rho> = den e1 \<rho> * den e2 \<rho>"
    and "den (sp_sin cas e1) \<rho> = sin (den e1 \<rho>)"
    and "den (sp_cos cas e1) \<rho> = cos (den e1 \<rho>)"
    and "den (sp_simplify cas e1) \<rho> = den e1 \<rho>"
  using assms unfolding biblioteca_exacta_def by simp_all

lemma exacta_cuadrado:
  assumes "biblioteca_exacta cas den"
  shows "den (sp_pow cas e (sp_Integer cas 2)) \<rho> = den e \<rho> ^ 2"
proof -
  from assms have "\<forall>a n \<rho>. den (sp_pow cas a (sp_Integer cas (int n))) \<rho> = den a \<rho> ^ n"
    unfolding biblioteca_exacta_def by simp
  then have "den (sp_pow cas e (sp_Integer cas (int 2))) \<rho> = den e \<rho> ^ 2" by blast
  then show ?thesis by simp
qed

lemma exacta_parametro:
  assumes "biblioteca_exacta cas den" and "sp_sympify cas s [] = Inr e" and "snd k \<noteq> Plain"
  shows "den e (\<rho>(k := u)) = den e \<rho>"
proof -
  from assms(1,2) have "independiente den e {k. snd k \<noteq> Plain}"
    unfolding biblioteca_exacta_def by blast
  then have "\<forall>\<rho> \<rho>'. (\<forall>j. j \<notin> {k. snd k \<noteq> Plain} \<longrightarrow> \<rho> j = \<rho>' j) \<longrightarrow> den e \<rho> = den e \<rho>'"
    unfolding independiente_def .
  moreover have "\<forall>j. j \<notin> {k. snd k \<noteq> Plain} \<longrightarrow> (\<rho>(k := u)) j = \<rho> j"
    using assms(3) by auto
  ultimately show ?thesis by blast
qed

lemma exacta_subs2:
  assumes ex: "biblioteca_exacta cas den"
    and k: "k1 \<noteq> k2"
    and a: "independiente den a {k1, k2}"
    and b: "independiente den b {k1, k2}"
  shows "den (sp_subs cas e [(sp_Symbol cas (fst k1) (snd k1), a),
                             (sp_Symbol cas (fst k2) (snd k2), b)]) \<rho>
         = den e (\<rho>(k1 := den a \<rho>, k2 := den b \<rho>))"
proof -
  let ?ps = "[(k1, a), (k2, b)]"
  from ex have "\<forall>e ps \<rho>. distinct (map fst ps) \<longrightarrow>
          (\<forall>a \<in> snd ` set ps. independiente den a (fst ` set ps)) \<longrightarrow>
          den (sp_subs cas e (sustitucion cas ps)) \<rho>
            = den e (\<lambda>k. case map_of ps k of Some a \<Rightarrow> den a \<rho> | None \<Rightarrow> \<rho> k)"
    unfolding biblioteca_exacta_def by blast
  then have "distinct (map fst ?ps) \<longrightarrow>
          (\<forall>a \<in> snd ` set ?ps. independiente den a (fst ` set ?ps)) \<longrightarrow>
          den (sp_subs cas e (sustitucion cas ?ps)) \<rho>
            = den e (\<lambda>k. case map_of ?ps k of Some a \<Rightarrow> den a \<rho> | None \<Rightarrow> \<rho> k)"
    by blast
  moreover have "(\<lambda>k. case map_of ?ps k of Some a \<Rightarrow> den a \<rho> | None \<Rightarrow> \<rho> k)
                 = \<rho>(k1 := den a \<rho>, k2 := den b \<rho>)"
    using k by (auto simp: fun_eq_iff)
  ultimately show ?thesis
    using k a b by (simp add: sustitucion_def insert_commute)
qed

lemma exacta_diff:
  assumes "biblioteca_exacta cas den"
    and "((\<lambda>u. den e (\<rho>(k := u))) has_real_derivative D) (at (\<rho> k))"
  shows "den (sp_diff cas e (sp_Symbol cas (fst k) (snd k))) \<rho> = D"
  using assms unfolding biblioteca_exacta_def by blast

lemma exacta_integral:
  assumes "biblioteca_exacta cas den"
    and "sp_integrate cas e [(sp_Symbol cas (fst k) (snd k), lo, hi)] = Inr r"
    and "\<And>u. (F has_real_derivative den e (\<rho>(k := u))) (at u)"
  shows "den r \<rho> = F (den hi \<rho>) - F (den lo \<rho>)"
proof -
  from assms(1) have "\<forall>e k lo hi r \<rho> F.
          sp_integrate cas e [(sp_Symbol cas (fst k) (snd k), lo, hi)] = Inr r \<longrightarrow>
          (\<forall>u. (F has_real_derivative den e (\<rho>(k := u))) (at u)) \<longrightarrow>
          den r \<rho> = F (den hi \<rho>) - F (den lo \<rho>)"
    unfolding biblioteca_exacta_def by blast
  then show ?thesis using assms(2,3) by blast
qed

lemma exacta_integral2:
  assumes "biblioteca_exacta cas den"
  shows "sp_integrate cas e [l1, l2] = seq (sp_integrate cas e [l1]) (\<lambda>i. sp_integrate cas i [l2])"
  using assms unfolding biblioteca_exacta_def by blast

subsection \<open>The integrands of the disc\<close>

lemma independiente_sub:
  "independiente den e T \<Longrightarrow> S \<subseteq> T \<Longrightarrow> independiente den e S"
  unfolding independiente_def by blast

lemma exacta_parametro_independiente:
  assumes "biblioteca_exacta cas den" and "sp_sympify cas s [] = Inr e"
    and "\<forall>k \<in> S. snd k \<noteq> Plain"
  shows "independiente den e S"
proof -
  from assms(1,2) have "independiente den e {k. snd k \<noteq> Plain}"
    unfolding biblioteca_exacta_def by blast
  then show ?thesis
    using assms(3) by (auto intro: independiente_sub)
qed

lemma independiente_curva:
  assumes ex: "biblioteca_exacta cas den"
    and c: "independiente den c S" and R: "independiente den R S"
    and k: "k \<notin> S"
  shows "independiente den (sp_add cas c (sp_mul cas R (sp_cos cas (sp_Symbol cas (fst k) (snd k))))) S"
    and "independiente den (sp_add cas c (sp_mul cas R (sp_sin cas (sp_Symbol cas (fst k) (snd k))))) S"
proof -
  have eq: "den c \<rho> = den c \<rho>' \<and> den R \<rho> = den R \<rho>' \<and> \<rho> k = \<rho>' k"
    if "\<forall>j. j \<notin> S \<longrightarrow> \<rho> j = \<rho>' j" for \<rho> \<rho>'
    using that c R k unfolding independiente_def by blast
  show "independiente den (sp_add cas c (sp_mul cas R (sp_cos cas (sp_Symbol cas (fst k) (snd k))))) S"
    unfolding independiente_def
  proof (intro allI impI)
    fix \<rho> \<rho>' :: valuacion
    assume "\<forall>j. j \<notin> S \<longrightarrow> \<rho> j = \<rho>' j"
    from eq[OF this]
    show "den (sp_add cas c (sp_mul cas R (sp_cos cas (sp_Symbol cas (fst k) (snd k))))) \<rho>
          = den (sp_add cas c (sp_mul cas R (sp_cos cas (sp_Symbol cas (fst k) (snd k))))) \<rho>'"
      by (simp add: exacta_valores[OF ex])
  qed
  show "independiente den (sp_add cas c (sp_mul cas R (sp_sin cas (sp_Symbol cas (fst k) (snd k))))) S"
    unfolding independiente_def
  proof (intro allI impI)
    fix \<rho> \<rho>' :: valuacion
    assume "\<forall>j. j \<notin> S \<longrightarrow> \<rho> j = \<rho>' j"
    from eq[OF this]
    show "den (sp_add cas c (sp_mul cas R (sp_sin cas (sp_Symbol cas (fst k) (snd k))))) \<rho>
          = den (sp_add cas c (sp_mul cas R (sp_sin cas (sp_Symbol cas (fst k) (snd k))))) \<rho>'"
      by (simp add: exacta_valores[OF ex])
  qed
qed

lemma circulo_algebra:
  fixes a b R c s :: real
  assumes "c * c + s * s = 1"
  shows "- (b + R * s) * - (R * s) + (a + R * c) * (R * c) = R ^ 2 + R * (a * c + b * s)"
proof -
  have "- (b + R * s) * - (R * s) + (a + R * c) * (R * c)
        = R * R * (c * c + s * s) + R * (a * c + b * s)"
    by (simp add: algebra_simps)
  then show ?thesis
    by (simp add: assms power2_eq_square)
qed

lemma rotacion_rotacional:
  assumes ex: "biblioteca_exacta cas den"
    and P: "\<forall>\<rho>. den P \<rho> = - \<rho> (''y'', IsReal)"
    and Q: "\<forall>\<rho>. den Q \<rho> = \<rho> (''x'', IsReal)"
  shows "den (green_rotacional cas P Q (sp_Symbol cas ''x'' IsReal) (sp_Symbol cas ''y'' IsReal)) \<rho> = 2"
proof -
  have "((\<lambda>u. den Q (\<rho>((''x'', IsReal) := u))) has_real_derivative 1) (at (\<rho> (''x'', IsReal)))"
    by (simp add: Q)
  from exacta_diff[OF ex this]
  have dQ: "den (sp_diff cas Q (sp_Symbol cas ''x'' IsReal)) \<rho> = 1" by simp
  have "((\<lambda>u. den P (\<rho>((''y'', IsReal) := u))) has_real_derivative - 1) (at (\<rho> (''y'', IsReal)))"
    by (auto simp: P intro!: derivative_eq_intros)
  from exacta_diff[OF ex this]
  have dP: "den (sp_diff cas P (sp_Symbol cas ''y'' IsReal)) \<rho> = - 1" by simp
  show ?thesis
    by (simp add: green_rotacional_def exacta_valores[OF ex] dQ dP)
qed

lemma rotacion_integrando_polar:
  assumes ex: "biblioteca_exacta cas den"
    and rot: "\<forall>\<rho>. den rot \<rho> = 2"
    and cx: "sp_sympify cas sx [] = Inr cx"
    and cy: "sp_sympify cas sy [] = Inr cy"
  shows "den (disco_integrando_polar cas (sp_Symbol cas ''x'' IsReal) (sp_Symbol cas ''y'' IsReal)
                rot cx cy) \<rho> = 2 * \<rho> (''r'', IsPositive)"
proof -
  let ?S = "{(''x'', IsReal), (''y'', IsReal)}"
  have icx: "independiente den cx ?S" and icy: "independiente den cy ?S"
    by (rule exacta_parametro_independiente[OF ex cx], simp)
       (rule exacta_parametro_independiente[OF ex cy], simp)
  have ir: "independiente den (sp_Symbol cas ''r'' IsPositive) ?S"
    unfolding independiente_def by (simp add: exacta_valores[OF ex])
  have th: "(''theta'', IsPositive) \<notin> ?S" by simp
  note a = independiente_curva(1)[OF ex icx ir th] and b = independiente_curva(2)[OF ex icy ir th]
  have "(''x'', IsReal) \<noteq> (''y'', IsReal)" by simp
  from exacta_subs2[OF ex this a b, of rot \<rho>]
  show ?thesis
    by (simp add: disco_integrando_polar_def polares_def Let_def exacta_valores[OF ex] rot)
qed

lemma rotacion_integrando_linea:
  assumes ex: "biblioteca_exacta cas den"
    and P: "\<forall>\<rho>. den P \<rho> = - \<rho> (''y'', IsReal)"
    and Q: "\<forall>\<rho>. den Q \<rho> = \<rho> (''x'', IsReal)"
    and R: "sp_sympify cas sR [] = Inr R"
    and cx: "sp_sympify cas sx [] = Inr cx"
    and cy: "sp_sympify cas sy [] = Inr cy"
  shows "den (disco_integrando_linea cas P Q (sp_Symbol cas ''x'' IsReal) (sp_Symbol cas ''y'' IsReal)
                R cx cy) \<rho>
         = den R \<rho> ^ 2 + den R \<rho> * (den cx \<rho> * cos (\<rho> (''t'', IsReal))
                                        + den cy \<rho> * sin (\<rho> (''t'', IsReal)))"
proof -
  let ?S = "{(''x'', IsReal), (''y'', IsReal)}"
  let ?t = "(''t'', IsReal)"
  let ?xc = "sp_add cas cx (sp_mul cas R (sp_cos cas (sp_Symbol cas ''t'' IsReal)))"
  let ?yc = "sp_add cas cy (sp_mul cas R (sp_sin cas (sp_Symbol cas ''t'' IsReal)))"
  have icx: "independiente den cx ?S" and icy: "independiente den cy ?S"
    and iR: "independiente den R ?S"
    by (rule exacta_parametro_independiente[OF ex cx], simp)
       (rule exacta_parametro_independiente[OF ex cy], simp,
        rule exacta_parametro_independiente[OF ex R], simp)
  have t: "?t \<notin> ?S" by simp
  have a: "independiente den ?xc ?S" using independiente_curva(1)[OF ex icx iR t] by simp
  have b: "independiente den ?yc ?S" using independiente_curva(2)[OF ex icy iR t] by simp
  have xy: "(''x'', IsReal) \<noteq> (''y'', IsReal)" by simp
  have sP: "den (sp_subs cas P [(sp_Symbol cas ''x'' IsReal, ?xc), (sp_Symbol cas ''y'' IsReal, ?yc)]) \<rho>
            = - (den cy \<rho> + den R \<rho> * sin (\<rho> ?t))"
    using exacta_subs2[OF ex xy a b, of P \<rho>] by (simp add: P exacta_valores[OF ex])
  have sQ: "den (sp_subs cas Q [(sp_Symbol cas ''x'' IsReal, ?xc), (sp_Symbol cas ''y'' IsReal, ?yc)]) \<rho>
            = den cx \<rho> + den R \<rho> * cos (\<rho> ?t)"
    using exacta_subs2[OF ex xy a b, of Q \<rho>] by (simp add: Q exacta_valores[OF ex])
  have np: "snd ?t \<noteq> Plain" by simp
  have "((\<lambda>u. den ?xc (\<rho>(?t := u))) has_real_derivative - (den R \<rho> * sin (\<rho> ?t))) (at (\<rho> ?t))"
    by (auto simp: exacta_valores[OF ex] exacta_parametro[OF ex cx np] exacta_parametro[OF ex R np]
        intro!: derivative_eq_intros)
  from exacta_diff[OF ex this]
  have dx: "den (sp_diff cas ?xc (sp_Symbol cas ''t'' IsReal)) \<rho> = - (den R \<rho> * sin (\<rho> ?t))"
    by simp
  have "((\<lambda>u. den ?yc (\<rho>(?t := u))) has_real_derivative den R \<rho> * cos (\<rho> ?t)) (at (\<rho> ?t))"
    by (auto simp: exacta_valores[OF ex] exacta_parametro[OF ex cy np] exacta_parametro[OF ex R np]
        intro!: derivative_eq_intros)
  from exacta_diff[OF ex this]
  have dy: "den (sp_diff cas ?yc (sp_Symbol cas ''t'' IsReal)) \<rho> = den R \<rho> * cos (\<rho> ?t)"
    by simp
  have "den (disco_integrando_linea cas P Q (sp_Symbol cas ''x'' IsReal) (sp_Symbol cas ''y'' IsReal)
                R cx cy) \<rho>
        = - (den cy \<rho> + den R \<rho> * sin (\<rho> ?t)) * - (den R \<rho> * sin (\<rho> ?t))
          + (den cx \<rho> + den R \<rho> * cos (\<rho> ?t)) * (den R \<rho> * cos (\<rho> ?t))"
    by (simp add: disco_integrando_linea_def integrando_curva_def Let_def
        exacta_valores(4,6)[OF ex] sP sQ dx dy)
  also have "\<dots> = den R \<rho> ^ 2 + den R \<rho> * (den cx \<rho> * cos (\<rho> ?t) + den cy \<rho> * sin (\<rho> ?t))"
    by (rule circulo_algebra) (rule sin_cos_squared_add3)
  finally show ?thesis .
qed

subsection \<open>The two integrals\<close>

lemma exacta_dos_pi:
  assumes "biblioteca_exacta cas den"
  shows "den (dos_pi cas) \<rho> = 2 * pi"
  by (simp add: dos_pi_def exacta_valores[OF assms])

lemma rotacion_doble_polar:
  assumes ex: "biblioteca_exacta cas den"
    and rot: "\<forall>\<rho>. den rot \<rho> = 2"
    and R: "sp_sympify cas sR [] = Inr R"
    and cx: "sp_sympify cas sx [] = Inr cx"
    and cy: "sp_sympify cas sy [] = Inr cy"
    and int: "sp_integrate cas
                (disco_integrando_polar cas (sp_Symbol cas ''x'' IsReal) (sp_Symbol cas ''y'' IsReal)
                   rot cx cy)
                [(sp_Symbol cas ''r'' IsPositive, sp_Integer cas 0, R),
                 (sp_Symbol cas ''theta'' IsPositive, sp_Integer cas 0, dos_pi cas)] = Inr D"
  shows "den D \<rho> = 2 * pi * den R \<rho> ^ 2"
proof -
  let ?e = "disco_integrando_polar cas (sp_Symbol cas ''x'' IsReal) (sp_Symbol cas ''y'' IsReal)
              rot cx cy"
  let ?r = "(''r'', IsPositive)" and ?th = "(''theta'', IsPositive)"
  from int obtain i where
    i: "sp_integrate cas ?e [(sp_Symbol cas (fst ?r) (snd ?r), sp_Integer cas 0, R)] = Inr i"
    and D: "sp_integrate cas i [(sp_Symbol cas (fst ?th) (snd ?th), sp_Integer cas 0, dos_pi cas)]
              = Inr D"
    unfolding exacta_integral2[OF ex] by (auto elim!: seq_Inr_elim)
  have iv: "den i \<rho>' = den R \<rho>' ^ 2" for \<rho>'
  proof -
    have "((\<lambda>u. u ^ 2) has_real_derivative den ?e (\<rho>'(?r := u))) (at u)" for u
      by (auto simp: rotacion_integrando_polar[OF ex rot cx cy] intro!: derivative_eq_intros)
    from exacta_integral[OF ex i this] show ?thesis
      by (simp add: exacta_valores[OF ex])
  qed
  have np: "snd ?th \<noteq> Plain" by simp
  have "((\<lambda>u. den R \<rho> ^ 2 * u) has_real_derivative den i (\<rho>(?th := u))) (at u)" for u
    by (auto simp: iv exacta_parametro[OF ex R np] intro!: derivative_eq_intros)
  from exacta_integral[OF ex D this] show ?thesis
    by (simp add: exacta_valores[OF ex] exacta_dos_pi[OF ex])
qed

lemma rotacion_doble_constante:
  assumes ex: "biblioteca_exacta cas den"
    and rot: "\<forall>\<rho>. den rot \<rho> = 2"
  shows "den (sp_mul cas rot (sp_mul cas (sp_pi cas) (sp_pow cas R (sp_Integer cas 2)))) \<rho>
         = 2 * pi * den R \<rho> ^ 2"
  by (simp add: exacta_valores[OF ex] exacta_cuadrado[OF ex] rot)

lemma rotacion_linea:
  assumes ex: "biblioteca_exacta cas den"
    and P: "\<forall>\<rho>. den P \<rho> = - \<rho> (''y'', IsReal)"
    and Q: "\<forall>\<rho>. den Q \<rho> = \<rho> (''x'', IsReal)"
    and R: "sp_sympify cas sR [] = Inr R"
    and cx: "sp_sympify cas sx [] = Inr cx"
    and cy: "sp_sympify cas sy [] = Inr cy"
    and int: "sp_integrate cas
                (disco_integrando_linea cas P Q (sp_Symbol cas ''x'' IsReal)
                   (sp_Symbol cas ''y'' IsReal) R cx cy)
                [(sp_Symbol cas ''t'' IsReal, sp_Integer cas 0, dos_pi cas)] = Inr I"
  shows "den I \<rho> = 2 * pi * den R \<rho> ^ 2"
proof -
  let ?e = "disco_integrando_linea cas P Q (sp_Symbol cas ''x'' IsReal)
              (sp_Symbol cas ''y'' IsReal) R cx cy"
  let ?t = "(''t'', IsReal)"
  let ?F = "\<lambda>u. den R \<rho> ^ 2 * u + den R \<rho> * (den cx \<rho> * sin u - den cy \<rho> * cos u)"
  from int have
    I: "sp_integrate cas ?e [(sp_Symbol cas (fst ?t) (snd ?t), sp_Integer cas 0, dos_pi cas)]
          = Inr I"
    by simp
  have np: "snd ?t \<noteq> Plain" by simp
  have ev: "den ?e (\<rho>(?t := u))
            = den R \<rho> ^ 2 + den R \<rho> * (den cx \<rho> * cos u + den cy \<rho> * sin u)" for u
    by (simp only: rotacion_integrando_linea[OF ex P Q R cx cy]
          exacta_parametro[OF ex R np] exacta_parametro[OF ex cx np] exacta_parametro[OF ex cy np]
          fun_upd_same)
  have "(?F has_real_derivative den ?e (\<rho>(?t := u))) (at u)" for u
    unfolding ev by (auto simp: algebra_simps intro!: derivative_eq_intros)
  from exacta_integral[OF ex I this] show ?thesis
    by (simp add: exacta_valores[OF ex] exacta_dos_pi[OF ex])
qed

lemma green_disco_resultado:
  assumes R: "sp_sympify cas (dict_get params ''R'' ''1'') [] = Inr R"
    and cx: "sp_sympify cas (dict_get params ''centro_x'' ''0'') [] = Inr cx"
    and cy: "sp_sympify cas (dict_get params ''centro_y'' ''0'') [] = Inr cy"
    and D: "if sp_is_constant cas rot
            then D = sp_mul cas rot (sp_mul cas (sp_pi cas) (sp_pow cas R (sp_Integer cas 2)))
            else sp_integrate cas (disco_integrando_polar cas x y rot cx cy)
                   [(sp_Symbol cas ''r'' IsPositive, sp_Integer cas 0, R),
                    (sp_Symbol cas ''theta'' IsPositive, sp_Integer cas 0, dos_pi cas)] = Inr D"
    and I: "sp_integrate cas (disco_integrando_linea cas P Q x y R cx cy)
              [(sp_Symbol cas ''t'' IsReal, sp_Integer cas 0, dos_pi cas)] = Inr I"
  shows "\<exists>ps. green_disco cas P Q x y rot params pasos nfo
               = Inr (verificar_green cas D (sp_simplify cas I) ps nfo)"
  using assms unfolding green_disco_def Let_def
  by (auto split: if_splits)

subsection \<open>The result\<close>

text \<open>
  C2. For \<^verbatim>\<open>aplicar_green\<close> with \<open>P = -y\<close>, \<open>Q = x\<close> and the region \<^verbatim>\<open>disco\<close> of radius
  parameter \<open>R\<close>: the rotational has the value \<open>2\<close>, the call returns a record whose slots
  \<^verbatim>\<open>doble\<close> and \<^verbatim>\<open>linea\<close> both have the value \<open>2 \<pi> R\<^sup>2\<close>, the difference that the
  verification simplifies has the value \<open>0\<close>, and the last line of the trace is the
  verified mark as soon as the simplification returns the literal \<open>0\<close> for it.

  The computer algebra library is not part of the sources, so this holds for every
  library that is exact for some valuation \<open>den\<close> and whose integration over one range
  does not raise, provided the texts \<^verbatim>\<open>-y\<close> and \<^verbatim>\<open>x\<close> parse to expressions of these
  values and the parameters parse. Both ways of the code to the double integral are
  covered: the shortcut \<open>rotational \<times> \<pi> R\<^sup>2\<close> taken when the library reports the
  rotational as constant, and the integral in polar coordinates otherwise. The centre
  may be any parsed parameter; the centre \<open>(0, 0)\<close> is the default of the code.
\<close>

theorem green_rotacion_disco:
  assumes ex: "biblioteca_exacta cas den"
    and tot: "integra_sin_excepcion cas"
    and P: "sp_sympify cas ''-y''
              (green_locales cas (sp_Symbol cas ''x'' IsReal) (sp_Symbol cas ''y'' IsReal)) = Inr P"
    and Pv: "\<forall>\<rho>. den P \<rho> = - \<rho> (''y'', IsReal)"
    and Q: "sp_sympify cas ''x''
              (green_locales cas (sp_Symbol cas ''x'' IsReal) (sp_Symbol cas ''y'' IsReal)) = Inr Q"
    and Qv: "\<forall>\<rho>. den Q \<rho> = \<rho> (''x'', IsReal)"
    and R: "sp_sympify cas (dict_get params ''R'' ''1'') [] = Inr R"
    and cx: "sp_sympify cas (dict_get params ''centro_x'' ''0'') [] = Inr cx"
    and cy: "sp_sympify cas (dict_get params ''centro_y'' ''0'') [] = Inr cy"
  shows "\<exists>D L ps.
           aplicar_green cas ''-y'' ''x'' ''disco'' params
             = Inr [(''doble'', PExpr D), (''linea'', PExpr L),
                    (''pasos'', PList ps), (''info'', PList green_info)]
         \<and> (\<forall>\<rho>. den (green_rotacional cas P Q (sp_Symbol cas ''x'' IsReal)
                        (sp_Symbol cas ''y'' IsReal)) \<rho> = 2)
         \<and> (\<forall>\<rho>. den D \<rho> = 2 * pi * den R \<rho> ^ 2)
         \<and> (\<forall>\<rho>. den L \<rho> = 2 * pi * den R \<rho> ^ 2)
         \<and> (\<forall>\<rho>. den (sp_sub cas D L) \<rho> = 0)
         \<and> (sp_simplify cas (sp_sub cas D L) = sp_Integer cas 0 \<longrightarrow>
              last ps = ''[OK] El teorema se verifica: oint_C F*dr = iint_D (nablaxF) dA'')"
proof -
  let ?x = "sp_Symbol cas ''x'' IsReal" and ?y = "sp_Symbol cas ''y'' IsReal"
  let ?rot = "green_rotacional cas P Q ?x ?y"
  let ?l1 = "(sp_Symbol cas ''r'' IsPositive, sp_Integer cas 0, R)"
  let ?l2 = "(sp_Symbol cas ''theta'' IsPositive, sp_Integer cas 0, dos_pi cas)"
  let ?polar = "disco_integrando_polar cas ?x ?y ?rot cx cy"
  have rot: "\<forall>\<rho>. den ?rot \<rho> = 2"
    using rotacion_rotacional[OF ex Pv Qv] by blast
  from tot obtain I where
    I: "sp_integrate cas (disco_integrando_linea cas P Q ?x ?y R cx cy)
          [(sp_Symbol cas ''t'' IsReal, sp_Integer cas 0, dos_pi cas)] = Inr I"
    unfolding integra_sin_excepcion_def by blast
  from tot obtain i where i: "sp_integrate cas ?polar [?l1] = Inr i"
    unfolding integra_sin_excepcion_def by blast
  from tot obtain D' where D': "sp_integrate cas i [?l2] = Inr D'"
    unfolding integra_sin_excepcion_def by blast
  have polar: "sp_integrate cas ?polar [?l1, ?l2] = Inr D'"
    by (simp add: exacta_integral2[OF ex] i D')
  define D where
    "D = (if sp_is_constant cas ?rot
          then sp_mul cas ?rot (sp_mul cas (sp_pi cas) (sp_pow cas R (sp_Integer cas 2)))
          else D')"
  have Dc: "if sp_is_constant cas ?rot
            then D = sp_mul cas ?rot (sp_mul cas (sp_pi cas) (sp_pow cas R (sp_Integer cas 2)))
            else sp_integrate cas ?polar [?l1, ?l2] = Inr D"
    by (simp add: D_def polar)
  have Dv: "den D \<rho> = 2 * pi * den R \<rho> ^ 2" for \<rho>
  proof (cases "sp_is_constant cas ?rot")
    case True
    then show ?thesis
      using rotacion_doble_constante[OF ex rot, of R \<rho>] by (simp add: D_def)
  next
    case False
    then show ?thesis
      using rotacion_doble_polar[OF ex rot R cx cy polar, of \<rho>] by (simp add: D_def)
  qed
  have Lv: "den (sp_simplify cas I) \<rho> = 2 * pi * den R \<rho> ^ 2" for \<rho>
    using rotacion_linea[OF ex Pv Qv R cx cy I, of \<rho>] by (simp add: exacta_valores[OF ex])
  from green_disco_resultado[OF R cx cy Dc I] obtain ps where
    g: "green_disco cas P Q ?x ?y ?rot params (green_pasos cas P Q ?x ?y) green_info
          = Inr (verificar_green cas D (sp_simplify cas I) ps green_info)"
    by blast
  have a: "aplicar_green cas ''-y'' ''x'' ''disco'' params
             = Inr (verificar_green cas D (sp_simplify cas I) ps green_info)"
    using P Q g by (simp add: aplicar_green_def Let_def)
  show ?thesis
    apply (rule exI[of _ D])
    apply (rule exI[of _ "sp_simplify cas I"])
    apply (simp add: a verificar_green_unfold Dv Lv rot exacta_valores(5)[OF ex])
    done
qed


text \<open>
  The instance \<open>R = 1\<close> in the exact library: both slots are \<open>2 \<pi>\<close> and the trace ends with
  the verified mark.
\<close>

theorem green_rotacion_disco_witness:
  "\<exists>D L ps.
     aplicar_green cas_exacta ''-y'' ''x'' ''disco'' [''R'' \<mapsto> ''1'']
       = Inr [(''doble'', PExpr D), (''linea'', PExpr L),
              (''pasos'', PList ps), (''info'', PList green_info)]
     \<and> D = (\<lambda>\<rho>. 2 * pi) \<and> L = (\<lambda>\<rho>. 2 * pi)
     \<and> last ps = ''[OK] El teorema se verifica: oint_C F*dr = iint_D (nablaxF) dA''"
proof -
  have R: "sp_sympify cas_exacta (dict_get [''R'' \<mapsto> ''1''] ''R'' ''1'') [] = Inr (\<lambda>\<rho>. 1)"
    by (simp add: dict_get_def cas_exacta_uno)
  have cx: "sp_sympify cas_exacta (dict_get [''R'' \<mapsto> ''1''] ''centro_x'' ''0'') []
              = Inr (\<lambda>\<rho>. 0)"
    by (simp add: dict_get_def cas_exacta_cero)
  have cy: "sp_sympify cas_exacta (dict_get [''R'' \<mapsto> ''1''] ''centro_y'' ''0'') []
              = Inr (\<lambda>\<rho>. 0)"
    by (simp add: dict_get_def cas_exacta_cero)
  from green_rotacion_disco[OF cas_exacta_exacta cas_exacta_integra cas_exacta_menos_y _
      cas_exacta_x _ R cx cy]
  obtain D L ps where
    a: "aplicar_green cas_exacta ''-y'' ''x'' ''disco'' [''R'' \<mapsto> ''1'']
          = Inr [(''doble'', PExpr D), (''linea'', PExpr L),
                 (''pasos'', PList ps), (''info'', PList green_info)]"
    and D: "\<forall>\<rho>. D \<rho> = 2 * pi" and L: "\<forall>\<rho>. L \<rho> = 2 * pi"
    and ok: "sp_simplify cas_exacta (sp_sub cas_exacta D L) = sp_Integer cas_exacta 0 \<longrightarrow>
             last ps = ''[OK] El teorema se verifica: oint_C F*dr = iint_D (nablaxF) dA''"
    by auto
  have "sp_simplify cas_exacta (sp_sub cas_exacta D L) = sp_Integer cas_exacta 0"
    by (simp add: cas_exacta_def D L)
  with ok have "last ps = ''[OK] El teorema se verifica: oint_C F*dr = iint_D (nablaxF) dA''"
    by blast
  moreover have "D = (\<lambda>\<rho>. 2 * pi)" "L = (\<lambda>\<rho>. 2 * pi)"
    using D L by (auto simp: fun_eq_iff)
  ultimately show ?thesis
    using a by blast
qed
end
